(* ===== verification/Prelude.thy ===== *)
theory Prelude
  imports Main
begin

text \<open>
  Shared vocabulary of the shaarchiver model (\<open>src/bookmarks-fetcher.py\<close>): the Python
  exceptions the script can raise, Python's truthiness of the option values that
  \<open>optparse\<close> leaves as strings, the string primitives the script calls
  (\<open>str.split\<close>, \<open>','.join\<close>, \<open>str.startswith\<close>, \<open>unicode.splitlines\<close>,
  \<open>repr\<close>), and the set-intersection test \<open>match_list\<close> (lines 72--79) that every
  component uses. Strings are \<open>char list\<close>; a character stands for a code point below
  256, which is all the model needs of Python 2's \<open>unicode\<close>.
\<close>

named_theorems model_simps \<open>equations that evaluate the model on concrete inputs\<close>

section \<open>Python exceptions and truthiness\<close>

datatype py_error =
    IndexError
  | KeyError
  | AttributeError
  | ValueError
  | OSError
  | IOError
  | UnicodeEncodeError

text \<open>
  \<open>optparse\<close> keeps a default exactly as written: the script gives \<open>"False"\<close> and
  \<open>"True"\<close> (strings) as defaults of boolean flags (lines 294--302), and the flag
  itself stores a real \<open>bool\<close>. A value of such an option is either.
\<close>

datatype pyval = PyBool bool | PyStr string

fun truthy :: "pyval \<Rightarrow> bool" where
  "truthy (PyBool b) = b"
| "truthy (PyStr s) = (s \<noteq> [])"

text \<open>Python's \<open>v == True\<close> / \<open>v == False\<close>: a string never equals a bool.\<close>

fun py_eq_bool :: "pyval \<Rightarrow> bool \<Rightarrow> bool" where
  "py_eq_bool (PyBool b) c = (b = c)"
| "py_eq_bool (PyStr s) c = False"

text \<open>Sequencing of code that may raise: an exception skips the rest.\<close>

definition ebind :: "'e + 'a \<Rightarrow> ('a \<Rightarrow> 'e + 'b) \<Rightarrow> 'e + 'b" where
  "ebind r f = (case r of Inl e \<Rightarrow> Inl e | Inr x \<Rightarrow> f x)"

section \<open>Tag matching\<close>

text \<open>\<open>match_list\<close> (lines 72--79): \<open>bool(set(linktags) & set(matchagainst))\<close>.\<close>

definition match_list :: "'a list \<Rightarrow> 'a list \<Rightarrow> bool" where
  "match_list xs ys = (set xs \<inter> set ys \<noteq> {})"

section \<open>String primitives\<close>

text \<open>\<open>s.startswith(p)\<close>.\<close>

definition py_startswith :: "string \<Rightarrow> string \<Rightarrow> bool" where
  "py_startswith s p = (take (length p) s = p)"

text \<open>
  Whether Python 2's default codec, ASCII, can encode a \<open>unicode\<close> string; writing one
  it cannot encode to a file opened with the built-in \<open>open\<close> raises
  \<open>UnicodeEncodeError\<close>.
\<close>

definition py_ascii :: "string \<Rightarrow> bool" where
  "py_ascii s = list_all (\<lambda>c. of_char c < (128::nat)) s"

text \<open>\<open>s.split(c)\<close> for a one-character separator: never empty, \<open>''.split(',') == ['']\<close>.\<close>

fun py_split :: "char \<Rightarrow> string \<Rightarrow> string list" where
  "py_split c [] = [[]]"
| "py_split c (x # xs) =
     (let r = py_split c xs in if x = c then [] # r else (x # hd r) # tl r)"

text \<open>\<open>sep.join(xs)\<close>.\<close>

fun py_join :: "string \<Rightarrow> string list \<Rightarrow> string" where
  "py_join sep [] = []"
| "py_join sep [x] = x"
| "py_join sep (x # y # zs) = x @ sep @ py_join sep (y # zs)"

section \<open>Line splitting\<close>

text \<open>
  \<open>codecs\<close> readers implement \<open>readlines()\<close> as \<open>self.read().splitlines(True)\<close>; a
  \<open>unicode\<close> string breaks at \<open>\n\<close>, \<open>\r\<close>, \<open>\r\n\<close> (one break),
  \<open>\x0b\<close>, \<open>\x0c\<close>, \<open>\x1c\<close>--\<open>\x1e\<close> and \<open>\x85\<close> (below 256), and keeps the
  terminators. A last line without terminator is kept; no empty line is added at the end.
\<close>

definition is_line_break :: "char \<Rightarrow> bool" where
  "is_line_break c \<longleftrightarrow> of_char c \<in> {10, 11, 12, 13, 28, 29, 30, 133 :: nat}"

abbreviation LF :: char where "LF \<equiv> CHR 0x0A"
abbreviation CR :: char where "CR \<equiv> CHR 0x0D"

fun splitlines_from :: "string \<Rightarrow> string \<Rightarrow> string list" where
  "splitlines_from cur [] = (if cur = [] then [] else [cur])"
| "splitlines_from cur (c # cs) =
     (if is_line_break c then
        (if c = CR \<and> cs \<noteq> [] \<and> hd cs = LF
         then (cur @ [CR, LF]) # splitlines_from [] (tl cs)
         else (cur @ [c]) # splitlines_from [] cs)
      else splitlines_from (cur @ [c]) cs)"

definition splitlines :: "string \<Rightarrow> string list" where
  "splitlines s = splitlines_from [] s"

definition no_line_break :: "string \<Rightarrow> bool" where
  "no_line_break s \<longleftrightarrow> list_all (\<lambda>c. \<not> is_line_break c) s"

section \<open>repr\<close>

text \<open>
  \<open>repr\<close> of a Python 2 string, as \<open>str(list)\<close> prints each element: single quotes
  unless the string holds a single quote and no double quote; the quote and backslash are
  escaped, tab, newline and return are \<open>\t\<close>, \<open>\n\<close>, \<open>\r\<close>, every other
  character below space or from \<open>0x7f\<close> on is \<open>\xhh\<close>. A \<open>unicode\<close> string
  prints the same with a \<open>u\<close> in front.
\<close>

definition hex_digit :: "nat \<Rightarrow> char" where
  "hex_digit n = (if n < 10 then char_of (48 + n) else char_of (87 + n))"

abbreviation BSL :: char where "BSL \<equiv> CHR 0x5C"

definition repr_char :: "char \<Rightarrow> char \<Rightarrow> string" where
  "repr_char q c =
     (if c = q \<or> c = BSL then [BSL, c]
      else if c = CHR 0x09 then [BSL, CHR ''t'']
      else if c = LF then [BSL, CHR ''n'']
      else if c = CR then [BSL, CHR ''r'']
      else if of_char c < (32::nat) \<or> (127::nat) \<le> of_char c
      then [BSL, CHR ''x'', hex_digit (of_char c div 16), hex_digit (of_char c mod 16)]
      else [c])"

definition repr_quote :: "string \<Rightarrow> char" where
  "repr_quote s = (if CHR 0x27 \<in> set s \<and> CHR 0x22 \<notin> set s then CHR 0x22 else CHR 0x27)"

definition py_repr :: "string \<Rightarrow> string" where
  "py_repr s = (let q = repr_quote s in q # concat (map (repr_char q) s) @ [q])"

definition py_repr_list :: "string list \<Rightarrow> string" where
  "py_repr_list xs = ''['' @ py_join '', '' (map py_repr xs) @ '']''"

definition py_repr_ulist :: "string list \<Rightarrow> string" where
  "py_repr_ulist xs = ''['' @ py_join '', '' (map (\<lambda>s. CHR ''u'' # py_repr s) xs) @ '']''"

lemma ebind_simps [simp]: "ebind (Inl e) f = Inl e" "ebind (Inr x) f = f x"
  by (simp_all add: ebind_def)

lemma ebind_eq_Inr: "ebind r f = Inr y \<longleftrightarrow> (\<exists>x. r = Inr x \<and> f x = Inr y)"
  by (cases r) simp_all

lemma match_list_iff [model_simps]: "match_list xs ys \<longleftrightarrow> (\<exists>x\<in>set xs. x \<in> set ys)"
  by (auto simp: match_list_def)

lemma match_list_Nil [simp]: "\<not> match_list [] ys" "\<not> match_list xs []"
  by (simp_all add: match_list_def)

lemma match_list_Cons [simp]:
  "match_list (x # xs) ys \<longleftrightarrow> x \<in> set ys \<or> match_list xs ys"
  by (auto simp: match_list_def)

lemma match_list_singleton [simp]: "match_list [x] ys \<longleftrightarrow> x \<in> set ys"
  by simp

lemma match_list_mono:
  "match_list xs ys \<Longrightarrow> set xs \<subseteq> set xs' \<Longrightarrow> set ys \<subseteq> set ys' \<Longrightarrow> match_list xs' ys'"
  by (auto simp: match_list_def)

lemma py_split_not_Nil [simp]: "py_split c s \<noteq> []"
  by (induction s) (auto simp: Let_def)

lemma py_join_split: "py_join [c] (py_split c s) = s"
proof (induction s)
  case Nil
  then show ?case by simp
next
  case (Cons x xs)
  obtain w ws where r: "py_split c xs = w # ws"
    using py_split_not_Nil by (cases "py_split c xs") auto
  with Cons.IH show ?case by (cases ws) (auto simp: Let_def)
qed

lemma py_split_append_sep: "py_split c (xs @ c # ys) = py_split c xs @ py_split c ys"
proof (induction xs)
  case Nil
  then show ?case by simp
next
  case (Cons x xs)
  have "py_split c xs \<noteq> []" by simp
  with Cons show ?case by (auto simp: Let_def neq_Nil_conv)
qed

lemma py_split_no_sep: "w \<in> set (py_split c s) \<Longrightarrow> c \<notin> set w"
proof (induction s arbitrary: w)
  case Nil
  then show ?case by simp
next
  case (Cons x xs)
  obtain v vs where r: "py_split c xs = v # vs"
    using py_split_not_Nil by (cases "py_split c xs") auto
  with Cons show ?case by (auto simp: Let_def split: if_splits)
qed

lemma py_split_sep_free [simp]: "c \<notin> set s \<Longrightarrow> py_split c s = [s]"
  by (induction s) (auto simp: Let_def)

lemma py_split_append_free:
  "c \<notin> set ys \<Longrightarrow> py_split c (xs @ ys) = butlast (py_split c xs) @ [last (py_split c xs) @ ys]"
proof (induction xs)
  case Nil
  then show ?case by simp
next
  case (Cons x xs)
  obtain v vs where r: "py_split c xs = v # vs"
    using py_split_not_Nil by (cases "py_split c xs") auto
  with Cons show ?case by (cases vs) (auto simp: Let_def)
qed

lemma is_line_break_LF [simp]: "is_line_break LF" and is_line_break_CR [simp]: "is_line_break CR"
  by (simp_all add: is_line_break_def)

lemma splitlines_from_plain:
  "no_line_break u \<Longrightarrow> splitlines_from cur (u @ LF # rest) = (cur @ u @ [LF]) # splitlines_from [] rest"
  by (induction u arbitrary: cur) (auto simp: no_line_break_def)

lemma splitlines_append_line:
  "no_line_break u \<Longrightarrow> splitlines (u @ LF # rest) = (u @ [LF]) # splitlines rest"
  by (simp add: splitlines_def splitlines_from_plain)

lemmas repr_defs [model_simps] = py_repr_list_def py_repr_ulist_def py_repr_def repr_quote_def
  repr_char_def hex_digit_def

end
