(* ===== verification/Config.thy ===== *)
theory Config
  imports Prelude
begin

text \<open>
  Configuration of the script: the module-level constants of lines 23--54 as a record
  \<open>cfg\<close> (with \<open>shaarchiver_cfg\<close> the values the source hard-codes), the parsed
  command line of lines 285--312 as a record \<open>options\<close> (with \<open>default_options\<close>
  the defaults \<open>optparse\<close> fills in), and the flags lines 331--344 derive from it.
\<close>

record cfg =
  download_video_for :: "string list"
  download_audio_for :: "string list"
  force_page_download_for :: "string list"
  nodl_tag :: "string list"
  recurse_extensions :: "string list"
  ytdl_naming :: string
  ytdl_args :: "string list"
  url_blacklist :: "string list"

definition shaarchiver_cfg :: cfg where
  "shaarchiver_cfg =
    \<lparr>download_video_for = [''video'', ''documentaire''],
     download_audio_for = [''musique'', ''music'', ''samples''],
     force_page_download_for = [''index'', ''doc'', ''lecture''],
     nodl_tag = [''nodl''],
     recurse_extensions = [''htm'', ''html'', ''zip'', ''png'', ''jpg'', ''jpeg'', ''wav'', ''ogg'',
       ''mp3'', ''flac'', ''avi'', ''webm'', ''ogv'', ''mp4'', ''pdf''],
     ytdl_naming = ''%(title)s-%(extractor)s-%(playlist_id)s%(id)s.%(ext)s'',
     ytdl_args = [''--no-playlist'', ''--continue'', ''--max-filesize'', ''1200M'',
       ''--ignore-errors'', ''--console-title'', ''--add-metadata''],
     url_blacklist = [''http://www.midomi.com/'', ''http://broadcast.infomaniak.net/radionova-high.mp3'',
       ''https://en.wikipedia.org/wiki/Youtube'', ''http://bandcamp.com/'', ''https://vimeo.com/'',
       ''https://www.youtube.com'', ''https://soundcloud.com'']\<rparr>"

text \<open>
  The options of lines 286--311. \<open>store\<close> options of type string are \<open>None\<close> when
  absent; the three flags with a string default keep it as a \<open>pyval\<close>.
\<close>

record options =
  usertag :: "string option"
  bookmarksfilename :: "string option"
  destdir :: "string option"
  markdown :: pyval
  mp3 :: pyval
  download :: pyval
  minimum_date :: "string option"
  maximum_date :: "string option"
  no_skip :: bool

definition default_options :: options where
  "default_options =
    \<lparr>usertag = None, bookmarksfilename = None, destdir = None,
     markdown = PyStr ''False'', mp3 = PyStr ''False'', download = PyStr ''True'',
     minimum_date = None, maximum_date = None, no_skip = False\<rparr>"

text \<open>Lines 332--344: which date bounds are compared.\<close>

definition compare_with_min :: "options \<Rightarrow> bool" where
  "compare_with_min opt \<longleftrightarrow> minimum_date opt \<noteq> None"

definition compare_with_max :: "options \<Rightarrow> bool" where
  "compare_with_max opt \<longleftrightarrow> maximum_date opt \<noteq> None"

definition should_compare_dates :: "options \<Rightarrow> bool" where
  "should_compare_dates opt \<longleftrightarrow> compare_with_min opt \<or> compare_with_max opt"

text \<open>\<open>options.usertag\<close> is truthy exactly when it is a non-empty string.\<close>

definition usertag_active :: "options \<Rightarrow> bool" where
  "usertag_active opt \<longleftrightarrow> (case usertag opt of None \<Rightarrow> False | Some s \<Rightarrow> s \<noteq> [])"

text \<open>
  \<open>set(options.usertag)\<close>: the option is a string, so the set the script intersects
  with the tags is the set of its one-character substrings.
\<close>

definition usertag_as_list :: "options \<Rightarrow> string list" where
  "usertag_as_list opt = (case usertag opt of None \<Rightarrow> [] | Some s \<Rightarrow> map (\<lambda>c. [c]) s)"

lemmas config_defs [model_simps] = shaarchiver_cfg_def default_options_def compare_with_min_def
  compare_with_max_def should_compare_dates_def usertag_active_def usertag_as_list_def

end
