(* ===== verification/Dates.thy ===== *)
theory Dates
  imports Prelude "HOL-Library.Product_Lexorder"
begin

text \<open>
  Dates of the range filter. \<open>--min-date\<close> and \<open>--max-date\<close> are parsed once by
  \<open>datetime.strptime(s, "%d/%m/%Y").date()\<close> (lines 336--344); each link's date is
  compared with them (lines 389--394). Python's \<open>date\<close> compares year, month, day
  lexicographically: \<open>date\<close> is a datatype with that \<open>linorder\<close> instance. The
  comparison is never reached in the script: line 390 raises first (theory
  \<open>Orchestrator\<close>), so \<open>date_in_range\<close> is modelled but no property rests on it.

  \<open>strptime\<close> compiles \<open>%d/%m/%Y\<close> to the regex
  \<open>(3[01]|[12]\d|0[1-9]|[1-9]| [1-9])/(1[0-2]|0[1-9]|[1-9])/(\d\d\d\d)\<close>, matches it
  at the start, raises \<open>ValueError\<close> when it fails or characters remain, and then
  builds the date, which raises \<open>ValueError\<close> for a day the month does not have or
  year 0. No field pattern contains \<open>/\<close>, so the regex matches exactly when the
  string splits at \<open>/\<close> into three fields that match their patterns.
\<close>

datatype date = Date (d_year: int) (d_month: nat) (d_day: nat)

instantiation date :: linorder
begin

definition less_eq_date :: "date \<Rightarrow> date \<Rightarrow> bool" where
  "less_eq_date a b \<longleftrightarrow> (d_year a, d_month a, d_day a) \<le> (d_year b, d_month b, d_day b)"

definition less_date :: "date \<Rightarrow> date \<Rightarrow> bool" where
  "less_date a b \<longleftrightarrow> (d_year a, d_month a, d_day a) < (d_year b, d_month b, d_day b)"

instance
proof
  fix a b c :: date
  show "a < b \<longleftrightarrow> a \<le> b \<and> \<not> b \<le> a"
    by (auto simp: less_eq_date_def less_date_def)
  show "a \<le> a" by (simp add: less_eq_date_def)
  show "a \<le> b \<Longrightarrow> b \<le> c \<Longrightarrow> a \<le> c"
    unfolding less_eq_date_def by (rule order_trans)
  show "a \<le> b \<Longrightarrow> b \<le> a \<Longrightarrow> a = b"
    by (cases a; cases b) (auto simp: less_eq_date_def)
  show "a \<le> b \<or> b \<le> a"
    unfolding less_eq_date_def by (rule linear)
qed

end

definition is_digit :: "char \<Rightarrow> bool" where
  "is_digit c \<longleftrightarrow> (48::nat) \<le> of_char c \<and> of_char c \<le> (57::nat)"

definition is_digit19 :: "char \<Rightarrow> bool" where
  "is_digit19 c \<longleftrightarrow> (49::nat) \<le> of_char c \<and> of_char c \<le> (57::nat)"

text \<open>\<open>%d\<close>: \<open>3[01]|[12]\d|0[1-9]|[1-9]| [1-9]\<close>.\<close>

fun match_day_field :: "string \<Rightarrow> bool" where
  "match_day_field [a, b] \<longleftrightarrow>
     (a = CHR ''3'' \<and> (b = CHR ''0'' \<or> b = CHR ''1''))
   \<or> ((a = CHR ''1'' \<or> a = CHR ''2'') \<and> is_digit b)
   \<or> (a = CHR ''0'' \<and> is_digit19 b)
   \<or> (a = CHR '' '' \<and> is_digit19 b)"
| "match_day_field [a] \<longleftrightarrow> is_digit19 a"
| "match_day_field _ \<longleftrightarrow> False"

text \<open>\<open>%m\<close>: \<open>1[0-2]|0[1-9]|[1-9]\<close>.\<close>

fun match_month_field :: "string \<Rightarrow> bool" where
  "match_month_field [a, b] \<longleftrightarrow>
     (a = CHR ''1'' \<and> (b = CHR ''0'' \<or> b = CHR ''1'' \<or> b = CHR ''2''))
   \<or> (a = CHR ''0'' \<and> is_digit19 b)"
| "match_month_field [a] \<longleftrightarrow> is_digit19 a"
| "match_month_field _ \<longleftrightarrow> False"

text \<open>\<open>%Y\<close>: \<open>\d\d\d\d\<close>.\<close>

definition match_year_field :: "string \<Rightarrow> bool" where
  "match_year_field s \<longleftrightarrow> length s = 4 \<and> list_all is_digit s"

text \<open>\<open>int(s)\<close> of a matched field (a leading space of \<open>%d\<close> is ignored).\<close>

definition field_value :: "string \<Rightarrow> nat" where
  "field_value s = foldl (\<lambda>n c. if c = CHR '' '' then n else 10 * n + (of_char c - 48)) 0 s"

definition is_leap :: "int \<Rightarrow> bool" where
  "is_leap y \<longleftrightarrow> y mod 4 = 0 \<and> (y mod 100 \<noteq> 0 \<or> y mod 400 = 0)"

definition days_in_month :: "int \<Rightarrow> nat \<Rightarrow> nat" where
  "days_in_month y m =
     (if m = 2 then (if is_leap y then 29 else 28)
      else if m = 4 \<or> m = 6 \<or> m = 9 \<or> m = 11 then 30 else 31)"

text \<open>The checks of the \<open>date\<close> constructor: \<open>MINYEAR = 1\<close>, \<open>MAXYEAR = 9999\<close>.\<close>

definition valid_date :: "int \<Rightarrow> nat \<Rightarrow> nat \<Rightarrow> bool" where
  "valid_date y m d \<longleftrightarrow> 1 \<le> y \<and> y \<le> 9999 \<and> 1 \<le> m \<and> m \<le> 12 \<and> 1 \<le> d \<and> d \<le> days_in_month y m"

definition parse_dmy :: "string \<Rightarrow> py_error + date" where
  "parse_dmy s =
     (case py_split (CHR ''/'') s of
        [ds, ms, ys] \<Rightarrow>
          (if match_day_field ds \<and> match_month_field ms \<and> match_year_field ys then
             (let y = int (field_value ys); m = field_value ms; d = field_value ds in
              if valid_date y m d then Inr (Date y m d) else Inl ValueError)
           else Inl ValueError)
      | _ \<Rightarrow> Inl ValueError)"

text \<open>
  Lines 391--394: a link is skipped when it is before the minimum or after the maximum;
  the bounds are inclusive.
\<close>

definition date_in_range :: "date option \<Rightarrow> date option \<Rightarrow> date \<Rightarrow> bool" where
  "date_in_range mn mx d \<longleftrightarrow>
     \<not> (case mn of Some lo \<Rightarrow> d < lo | None \<Rightarrow> False) \<and>
     \<not> (case mx of Some hi \<Rightarrow> d > hi | None \<Rightarrow> False)"

text \<open>
  A date as a user writes it for \<open>%d/%m/%Y\<close>, the format the option help asks for
  (\<open>DD/MM/YYYY\<close>): each field zero-padded to its width.
\<close>

fun pad_digits :: "nat \<Rightarrow> nat \<Rightarrow> string" where
  "pad_digits 0 n = []"
| "pad_digits (Suc k) n = pad_digits k (n div 10) @ [char_of (48 + n mod 10)]"

definition dmy_str :: "date \<Rightarrow> string" where
  "dmy_str dt = pad_digits 2 (d_day dt) @ ''/'' @ pad_digits 2 (d_month dt) @ ''/'' @ pad_digits 4 (nat (d_year dt))"

subsection \<open>Facts about dates\<close>

lemma date_less_eq_iff:
  "Date y m d \<le> Date y' m' d' \<longleftrightarrow> y < y' \<or> (y = y' \<and> (m < m' \<or> (m = m' \<and> d \<le> d')))"
  by (auto simp: less_eq_date_def)

lemma date_less_iff:
  "Date y m d < Date y' m' d' \<longleftrightarrow> y < y' \<or> (y = y' \<and> (m < m' \<or> (m = m' \<and> d < d')))"
  by (auto simp: less_date_def)

lemma char_eq_code: "a = b \<longleftrightarrow> (of_char a :: nat) = of_char b"
  by (metis char_of_char)

lemma of_char_digit [simp]: "of_char (char_of (48 + n mod 10)) = (48 + n mod 10 :: nat)"
  by simp

lemma pad_digits_length [simp]: "length (pad_digits k n) = k"
  by (induction k arbitrary: n) simp_all

lemma pad_digits_is_digit: "list_all is_digit (pad_digits k n)"
  by (induction k arbitrary: n) (simp_all add: is_digit_def)

lemma pad_digits_no_slash: "CHR ''/'' \<notin> set (pad_digits k n)"
  by (induction k arbitrary: n) (auto simp: char_eq_code)

lemma field_value_snoc:
  "field_value (s @ [c]) = (if c = CHR '' '' then field_value s else 10 * field_value s + (of_char c - 48))"
  by (simp add: field_value_def)

lemma field_value_pad: "n < 10 ^ k \<Longrightarrow> field_value (pad_digits k n) = n"
proof (induction k arbitrary: n)
  case 0
  then show ?case by (simp add: field_value_def)
next
  case (Suc k)
  then have "n div 10 < 10 ^ k" by (simp add: less_mult_imp_div_less mult.commute)
  with Suc.IH [of "n div 10"] show ?case
    by (simp add: field_value_snoc char_eq_code)
qed

lemma pad_digits_2: "pad_digits 2 n = [char_of (48 + n div 10 mod 10), char_of (48 + n mod 10)]"
  by (simp add: numeral_2_eq_2)

lemma match_day_pad: "1 \<le> d \<Longrightarrow> d \<le> 31 \<Longrightarrow> match_day_field (pad_digits 2 d)"
  by (simp add: pad_digits_2 char_eq_code is_digit_def is_digit19_def) arith

lemma match_month_pad: "1 \<le> m \<Longrightarrow> m \<le> 12 \<Longrightarrow> match_month_field (pad_digits 2 m)"
  by (simp add: pad_digits_2 char_eq_code is_digit_def is_digit19_def) arith

lemma days_in_month_le: "days_in_month y m \<le> 31"
  by (simp add: days_in_month_def)

lemmas date_defs [model_simps] = parse_dmy_def valid_date_def days_in_month_def is_leap_def
  field_value_def match_year_field_def is_digit_def is_digit19_def date_in_range_def


subsection \<open>Properties of the date component\<close>

text \<open>
  C19: \<open>strptime("%d/%m/%Y")\<close> reads back every calendar date written as
  \<open>DD/MM/YYYY\<close>: the day is taken from the first field, the month from the second and
  the year from the third, for every year 1..9999 the \<open>date\<close> type allows.
\<close>

theorem parse_dmy_roundtrip:
  assumes "valid_date y m d"
  shows "parse_dmy (dmy_str (Date y m d)) = Inr (Date y m d)"
proof -
  from assms have y: "1 \<le> y" "y \<le> 9999" and m: "1 \<le> m" "m \<le> 12" and d: "1 \<le> d" "d \<le> 31"
    using days_in_month_le [of y m] by (auto simp: valid_date_def)
  have split: "py_split (CHR ''/'') (dmy_str (Date y m d)) = [pad_digits 2 d, pad_digits 2 m, pad_digits 4 (nat y)]"
    by (simp add: dmy_str_def py_split_append_sep pad_digits_no_slash)
  have fy: "field_value (pad_digits 4 (nat y)) = nat y" using y by (intro field_value_pad) simp
  have fm: "field_value (pad_digits 2 m) = m" using m by (intro field_value_pad) simp
  have fd: "field_value (pad_digits 2 d) = d" using d by (intro field_value_pad) simp
  show ?thesis
    using assms y match_day_pad [OF d] match_month_pad [OF m] pad_digits_is_digit [of 4 "nat y"]
    by (simp add: parse_dmy_def split fy fm fd match_year_field_def)
qed

theorem parse_dmy_roundtrip_witness:
  "valid_date 2016 2 29 \<and>
   parse_dmy (dmy_str (Date 2016 2 29)) = Inr (Date 2016 2 29)"
  using parse_dmy_roundtrip [of 2016 2 29]
  by (simp add: date_defs)

end
