(* ===== verification/World.thy ===== *)
theory World
  imports Config Dates "HOL-Library.Sublist"
begin

text \<open>
  The state a run changes: what it prints, what it writes to the run log
  \<open>shaarchiver-<date>.log\<close> (line 363), the contents of the ledger \<open>done.log\<close>
  (line 366, opened for appending), the files it creates (\<open><hash>.magnet\<close>), the external
  commands it runs through \<open>subprocess.call\<close>, and what it writes to the markdown report.
  The run log and the report are kept as the list of their \<open>write\<close> calls; the ledger
  as the text of the file, since it is read back. An exception escapes with the state it
  was raised in: \<open>outcome\<close> is \<open>Inl (error, world)\<close> or \<open>Inr world\<close>.
\<close>

text \<open>
  Paths. A file or directory is named by the list of its components from the root. A
  name given to the OS is resolved the way the kernel resolves it when no symbolic link
  is involved: an absolute name starts at the root, a relative one at the working
  directory; empty components (\<open>a//b\<close>, a trailing \<open>/\<close>) and \<open>.\<close> are skipped, and
  \<open>..\<close> goes to the parent (the root is its own parent). The model resolves \<open>..\<close>
  lexically; the kernel would first require the directory before it to exist.
\<close>

type_synonym path = "string list"

fun norm_path :: "path \<Rightarrow> string list \<Rightarrow> path" where
  "norm_path cur [] = cur"
| "norm_path cur (c # cs) =
     (if c = [] \<or> c = ''.'' then norm_path cur cs
      else if c = ''..'' then norm_path (butlast cur) cs
      else norm_path (cur @ [c]) cs)"

definition path_start :: "path \<Rightarrow> string \<Rightarrow> path" where
  "path_start cwd s = (if take 1 s = ''/'' then [] else cwd)"

definition abs_path :: "path \<Rightarrow> string \<Rightarrow> path" where
  "abs_path cwd s = norm_path (path_start cwd s) (py_split (CHR ''/'') s)"

text \<open>A directory tree: the root is there, and every directory's parents are.\<close>

definition dirs_wf :: "path set \<Rightarrow> bool" where
  "dirs_wf ds \<longleftrightarrow> [] \<in> ds \<and> (\<Union>p\<in>ds. set (prefixes p)) \<subseteq> ds"

text \<open>
  Python 2's \<open>open(name, "w+")\<close> in a directory tree \<open>ds\<close>: it raises \<open>IOError\<close>
  when the name's last component is empty, \<open>.\<close> or \<open>..\<close>, when the directory it
  names the file in does not exist (\<open>ENOENT\<close>), or when the name is a directory
  (\<open>EISDIR\<close>); otherwise it creates or truncates the file at the resolved path.
\<close>

definition open_path :: "path set \<Rightarrow> path \<Rightarrow> string \<Rightarrow> py_error + path" where
  "open_path ds cwd s =
     (let p = abs_path cwd s; name = last (py_split (CHR ''/'') s) in
      if name \<in> set ['''', ''.'', ''..''] then Inl IOError
      else if butlast p \<in> ds then (if p \<in> ds then Inl IOError else Inr p)
      else Inl IOError)"

record world =
  stdout :: "string list"
  log :: "string list"
  done_log :: string
  files :: "path \<rightharpoonup> string"
  calls :: "string list list"
  md :: "string list"

type_synonym outcome = "(py_error \<times> world) + world"

text \<open>The external tool (\<open>subprocess.call\<close>): an exit code, or \<open>OSError\<close>.\<close>

type_synonym tool = "string list \<Rightarrow> py_error + int"

text \<open>
  What one run reads: configuration, options, destination, the ledger as loaded at
  start-up (\<open>downloaded_urls\<close>, line 367), the parsed date bounds (lines 339, 344), the
  external tool, and the working directory and directory tree the run writes into (the
  tree as start-up's \<open>os.makedirs\<close> calls left it).
\<close>

record env =
  conf :: cfg
  opts :: options
  dest :: string
  downloaded_urls :: "string list"
  min_date :: "date option"
  max_date :: "date option"
  ytdl :: tool
  cwd :: path
  dirtree :: "path set"

definition print_msg :: "string \<Rightarrow> world \<Rightarrow> world" where
  "print_msg m w = w\<lparr>stdout := stdout w @ [m]\<rparr>"

definition log_write :: "string \<Rightarrow> world \<Rightarrow> world" where
  "log_write s w = w\<lparr>log := log w @ [s]\<rparr>"

text \<open>The idiom \<open>print(msg); log.write(msg + "\n")\<close> used throughout the script.\<close>

definition say :: "string \<Rightarrow> world \<Rightarrow> world" where
  "say m w = log_write (m @ [LF]) (print_msg m w)"

definition done_write :: "string \<Rightarrow> world \<Rightarrow> world" where
  "done_write u w = w\<lparr>done_log := done_log w @ u @ [LF]\<rparr>"

definition record_call :: "string list \<Rightarrow> world \<Rightarrow> world" where
  "record_call c w = w\<lparr>calls := calls w @ [c]\<rparr>"

text \<open>Sequencing: an exception skips the rest, as in Python.\<close>

definition seq_w :: "outcome \<Rightarrow> (world \<Rightarrow> outcome) \<Rightarrow> outcome" where
  "seq_w r f = (case r of Inl e \<Rightarrow> Inl e | Inr w \<Rightarrow> f w)"

text \<open>The final state of an outcome, whether it ended normally or by an exception.\<close>

definition final :: "outcome \<Rightarrow> world" where
  "final r = (case r of Inl (e, w) \<Rightarrow> w | Inr w \<Rightarrow> w)"

text \<open>
  The state when the loop starts: standard output, run log and report empty, the ledger
  holding the text \<open>D\<close> of earlier runs (it is opened for appending, line 366), no
  magnet file and no command run yet.
\<close>

definition init_world :: "string \<Rightarrow> world" where
  "init_world D = \<lparr>stdout = [], log = [], done_log = D, files = Map.empty, calls = [], md = []\<rparr>"

text \<open>
  A sample environment for the concrete instances below: the source's configuration, the
  default options with destination \<open>/srv/bk\<close>, an empty ledger, no date bounds, and
  a tool whose every run succeeds, run from the root with \<open>/srv/bk\<close> existing.
\<close>

definition demo_env :: env where
  "demo_env = \<lparr>conf = shaarchiver_cfg, opts = default_options\<lparr>destdir := Some ''/srv/bk''\<rparr>,
     dest = ''/srv/bk'', downloaded_urls = [], min_date = None, max_date = None,
     ytdl = (\<lambda>c. Inr 0), cwd = [], dirtree = {[], [''srv''], [''srv'', ''bk'']}\<rparr>"

text \<open>A step runs at most \<open>n\<close> external commands, appended after the earlier ones.\<close>

definition calls_within :: "nat \<Rightarrow> world \<Rightarrow> world \<Rightarrow> bool" where
  "calls_within n w w' \<longleftrightarrow> (\<exists>cs. calls w' = calls w @ cs \<and> length cs \<le> n)"

text \<open>
  Every output of the script is append-only: standard output, the run log, the ledger,
  the list of commands run and the report only grow, as prefixes.
\<close>

definition outputs_grow :: "world \<Rightarrow> world \<Rightarrow> bool" where
  "outputs_grow w w' \<longleftrightarrow>
     prefix (stdout w) (stdout w') \<and> prefix (log w) (log w') \<and> prefix (done_log w) (done_log w') \<and>
     prefix (calls w) (calls w') \<and> prefix (md w) (md w')"

lemma seq_w_simps [simp]: "seq_w (Inl e) f = Inl e" "seq_w (Inr w) f = f w"
  by (simp_all add: seq_w_def)

lemma final_simps [simp]: "final (Inl (e, w)) = w" "final (Inr w) = w"
  by (simp_all add: final_def)

text \<open>A property of worlds that each step keeps carries over a sequence.\<close>

lemma final_seq_w_rel:
  assumes trans: "\<And>a b c. R a b \<Longrightarrow> R b c \<Longrightarrow> R a c"
    and first: "R w (final r)"
    and rest: "\<And>w1. r = Inr w1 \<Longrightarrow> R w1 (final (f w1))"
  shows "R w (final (seq_w r f))"
proof (cases r)
  case (Inl e)
  with first show ?thesis by (cases e) simp
next
  case (Inr w1)
  with first rest [OF Inr] show ?thesis by (auto intro: trans)
qed

lemma seq_w_eq_Inr: "seq_w r f = Inr w' \<longleftrightarrow> (\<exists>w1. r = Inr w1 \<and> f w1 = Inr w')"
  by (cases r) auto

lemma calls_within_same: "calls w' = calls w \<Longrightarrow> calls_within n w w'"
  by (auto simp: calls_within_def)

lemma calls_within_trans:
  "calls_within m a b \<Longrightarrow> calls_within n b c \<Longrightarrow> calls_within (m + n) a c"
  by (auto simp: calls_within_def)

lemma calls_within_mono: "calls_within m w w' \<Longrightarrow> m \<le> n \<Longrightarrow> calls_within n w w'"
  by (auto simp: calls_within_def)

lemma final_seq_w_calls:
  assumes "calls_within m w (final r)" and "\<And>w1. r = Inr w1 \<Longrightarrow> calls_within n w1 (final (f w1))"
  shows "calls_within (m + n) w (final (seq_w r f))"
proof (cases r)
  case (Inl e)
  with assms(1) show ?thesis by (cases e) (auto intro: calls_within_mono)
next
  case (Inr w1)
  with assms show ?thesis by (auto intro: calls_within_trans)
qed

lemma outputs_grow_refl [simp]: "outputs_grow w w"
  by (simp add: outputs_grow_def)

lemma outputs_grow_trans: "outputs_grow a b \<Longrightarrow> outputs_grow b c \<Longrightarrow> outputs_grow a c"
  unfolding outputs_grow_def by (meson prefix_order.trans)

lemma outputs_grow_upd [simp]:
  "outputs_grow w (w\<lparr>stdout := stdout w @ a1\<rparr>)"
  "outputs_grow w (w\<lparr>stdout := stdout w @ a2, log := log w @ b2\<rparr>)"
  "outputs_grow w (w\<lparr>log := log w @ a3\<rparr>)"
  "outputs_grow w (w\<lparr>done_log := done_log w @ a4\<rparr>)"
  "outputs_grow w (w\<lparr>calls := calls w @ a5\<rparr>)"
  "outputs_grow w (w\<lparr>md := md w @ a6\<rparr>)"
  "outputs_grow w (w\<lparr>files := F\<rparr>)"
  by (simp_all add: outputs_grow_def)

lemma outputs_grow_seq:
  "outputs_grow w (final r) \<Longrightarrow> (\<And>w1. r = Inr w1 \<Longrightarrow> outputs_grow w1 (final (f w1))) \<Longrightarrow>
   outputs_grow w (final (seq_w r f))"
  by (rule final_seq_w_rel [where R = outputs_grow]) (auto intro: outputs_grow_trans)

subsection \<open>Paths\<close>

lemma norm_path_append: "norm_path cur (xs @ ys) = norm_path (norm_path cur xs) ys"
  by (induction cur xs rule: norm_path.induct) auto

lemma norm_path_prefix: "''..'' \<notin> set cs \<Longrightarrow> prefix cur (norm_path cur cs)"
  by (induction cur cs rule: norm_path.induct) (auto intro: prefix_order.trans [OF prefixI [OF refl]])

lemma norm_path_plain [simp]: "c \<notin> set ['''', ''.'', ''..''] \<Longrightarrow> norm_path cur [c] = cur @ [c]"
  by simp

lemma path_start_append: "d \<noteq> [] \<Longrightarrow> path_start wd (d @ s) = path_start wd d"
  by (cases d) (simp_all add: path_start_def)

lemma abs_path_append_sep:
  "d \<noteq> [] \<Longrightarrow> abs_path wd (d @ CHR ''/'' # s) = norm_path (abs_path wd d) (py_split (CHR ''/'') s)"
  by (simp add: abs_path_def path_start_append py_split_append_sep norm_path_append)

lemma open_path_Inr: "open_path ds wd s = Inr p \<Longrightarrow> p = abs_path wd s \<and> butlast p \<in> ds \<and> p \<notin> ds"
  by (auto simp: open_path_def Let_def split: if_splits)

lemma dirs_wf_prefix: "dirs_wf ds \<Longrightarrow> q \<in> ds \<Longrightarrow> prefix p q \<Longrightarrow> p \<in> ds"
proof -
  assume "dirs_wf ds" "q \<in> ds" "prefix p q"
  then have "set (prefixes q) \<subseteq> ds" and "p \<in> set (prefixes q)" by (auto simp: dirs_wf_def)
  then show ?thesis by blast
qed

lemma dirs_wf_append: "dirs_wf ds \<Longrightarrow> p \<notin> ds \<Longrightarrow> p @ x \<notin> ds"
  using dirs_wf_prefix [of ds "p @ x" p] by auto

text \<open>
  A file cannot be created below a directory that does not exist: when the name, after
  the existing directory \<open>d\<close>, goes into a subdirectory \<open>a\<close> of \<open>d\<close> that is missing
  and never climbs back with \<open>..\<close>, \<open>open\<close> raises \<open>IOError\<close>.
\<close>

lemma open_path_missing_dir:
  assumes "d \<noteq> []" and wf: "dirs_wf ds" and missing: "abs_path wd d @ [a] \<notin> ds"
    and a: "CHR ''/'' \<notin> set a" "a \<notin> set ['''', ''.'', ''..'']"
    and b: "''..'' \<notin> set (py_split (CHR ''/'') b)" and x: "CHR ''/'' \<notin> set x"
  shows "open_path ds wd (d @ CHR ''/'' # a @ CHR ''/'' # b @ x) = Inl IOError"
proof -
  let ?B = "py_split (CHR ''/'') b"
  let ?q = "abs_path wd d @ [a]"
  let ?N = "norm_path ?q (butlast ?B)"
  let ?name = "last ?B @ x"
  have split: "py_split (CHR ''/'') (b @ x) = butlast ?B @ [?name]"
    using x by (rule py_split_append_free)
  have name: "last (py_split (CHR ''/'') (d @ CHR ''/'' # a @ CHR ''/'' # b @ x)) = ?name"
    using a(1) by (simp add: py_split_append_sep split)
  have p: "abs_path wd (d @ CHR ''/'' # a @ CHR ''/'' # b @ x) = norm_path ?N [?name]"
    using assms(1) a by (simp add: abs_path_append_sep py_split_append_sep split norm_path_append)
  have "''..'' \<notin> set (butlast ?B)" using b in_set_butlastD by fastforce
  then have "prefix ?q ?N" by (rule norm_path_prefix)
  then have "?N \<notin> ds" using dirs_wf_prefix [OF wf _ _] missing by blast
  then show ?thesis
    by (simp add: open_path_def Let_def name p del: norm_path.simps)
qed

lemmas world_ops [simp] =print_msg_def log_write_def say_def done_write_def record_call_def


lemmas world_eval [model_simps] = init_world_def demo_env_def

end
