(* ===== verification/Gate.thy ===== *)
theory Gate
  imports World
begin

text \<open>
  The eligibility gate \<open>check_dl\<close> (lines 148--171). Its \<open>if/elif\<close> chain is
  \<open>dl_block\<close>, which names the first check that refuses the link (the spec's reason
  codes) or \<open>None\<close>; \<open>skip_msg\<close> is the message the chain assigns for it;
  \<open>check_dl\<close> prints and logs the message and returns whether the link may be fetched.
\<close>

datatype skip_reason =
    Blacklisted
  | DownloadsDisabled
  | TaggedNodl
  | NotRequestedTag
  | AlreadyDownloaded

definition dl_block :: "env \<Rightarrow> string list \<Rightarrow> string \<Rightarrow> skip_reason option" where
  "dl_block E linktags linkurl =
     (if linkurl \<in> set (url_blacklist (conf E)) then Some Blacklisted
      else if py_eq_bool (download (opts E)) False then Some DownloadsDisabled
      else if match_list linktags (nodl_tag (conf E)) then Some TaggedNodl
      else if usertag_active (opts E) \<and> \<not> match_list linktags (usertag_as_list (opts E))
        then Some NotRequestedTag
      else if match_list [linkurl] (downloaded_urls E) \<and> \<not> no_skip (opts E)
        then Some AlreadyDownloaded
      else None)"

definition skip_msg :: "env \<Rightarrow> string \<Rightarrow> skip_reason \<Rightarrow> string" where
  "skip_msg E linkurl r =
     (case r of
        Blacklisted \<Rightarrow> ''[shaarchiver] Url '' @ linkurl @ '' is in blacklist. Not downloading item.''
      | DownloadsDisabled \<Rightarrow> ''[shaarchiver] Download disabled, not downloading '' @ linkurl
      | TaggedNodl \<Rightarrow> ''[shaarchiver] Link '' @ linkurl @ '' is tagged ''
          @ py_repr_list (nodl_tag (conf E)) @ '' and will not be downloaded.''
      | NotRequestedTag \<Rightarrow> ''[shaarchiver] Link '' @ linkurl @ '' is NOT tagged ''
          @ (case usertag (opts E) of None \<Rightarrow> ''None'' | Some s \<Rightarrow> s) @ '' and will not be downloaded.''
      | AlreadyDownloaded \<Rightarrow> ''[shaarchiver] Link '' @ linkurl @ '' was already downloaded. Skipping.'')"

definition check_dl :: "env \<Rightarrow> string list \<Rightarrow> string \<Rightarrow> world \<Rightarrow> bool \<times> world" where
  "check_dl E linktags linkurl w =
     (case dl_block E linktags linkurl of
        None \<Rightarrow> (True, w)
      | Some r \<Rightarrow> (False, say (skip_msg E linkurl r) w))"

subsection \<open>The gate's behaviour\<close>

lemma check_dl_None: "dl_block E linktags linkurl = None \<Longrightarrow> check_dl E linktags linkurl w = (True, w)"
  by (simp add: check_dl_def)

lemma check_dl_Some:
  "dl_block E linktags linkurl = Some r \<Longrightarrow>
   check_dl E linktags linkurl w = (False, say (skip_msg E linkurl r) w)"
  by (simp add: check_dl_def)

lemma check_dl_allowed_iff: "fst (check_dl E linktags linkurl w) \<longleftrightarrow> dl_block E linktags linkurl = None"
  by (simp add: check_dl_def split: option.splits)

text \<open>The gate writes nothing but the run log and standard output.\<close>

lemma check_dl_frame:
  "check_dl E linktags linkurl w = (b, w') \<Longrightarrow>
   done_log w' = done_log w \<and> calls w' = calls w \<and> files w' = files w \<and> md w' = md w"
  by (auto simp: check_dl_def split: option.splits)

lemma dl_block_None_iff:
  "dl_block E linktags linkurl = None \<longleftrightarrow>
     linkurl \<notin> set (url_blacklist (conf E))
   \<and> \<not> py_eq_bool (download (opts E)) False
   \<and> \<not> match_list linktags (nodl_tag (conf E))
   \<and> (usertag_active (opts E) \<longrightarrow> match_list linktags (usertag_as_list (opts E)))
   \<and> (linkurl \<in> set (downloaded_urls E) \<longrightarrow> no_skip (opts E))"
  by (simp add: dl_block_def)

text \<open>
  The user tag is compared character by character: a tag passes the filter when it is a
  one-character string whose character occurs in the option.
\<close>

lemma match_usertag_iff:
  "usertag (opts E) = Some s \<Longrightarrow>
   match_list linktags (usertag_as_list (opts E)) \<longleftrightarrow> (\<exists>c\<in>set s. [c] \<in> set linktags)"
  by (auto simp: usertag_as_list_def match_list_def)

text \<open>A URL recorded in the ledger is refused unless \<open>--no-skip\<close> is given.\<close>

lemma dl_block_recorded:
  "linkurl \<in> set (downloaded_urls E) \<Longrightarrow> \<not> no_skip (opts E) \<Longrightarrow> dl_block E linktags linkurl \<noteq> None"
  by (simp add: dl_block_def)


subsection \<open>Properties of the gate\<close>

text \<open>
  C1: a link whose URL is in the blacklist is never fetched, whatever its tags and
  options; the gate refuses it with the blacklist message, printed and logged.
\<close>

theorem check_dl_blacklisted:
  assumes "linkurl \<in> set (url_blacklist (conf E))"
  shows "check_dl E linktags linkurl w = (False, say (skip_msg E linkurl Blacklisted) w)"
  using assms by (simp add: check_dl_def dl_block_def)

theorem check_dl_blacklisted_witness:
  "''https://vimeo.com/'' \<in> set (url_blacklist (conf demo_env)) \<and>
   check_dl demo_env [''video''] ''https://vimeo.com/'' (init_world []) =
     (False, say (skip_msg demo_env ''https://vimeo.com/'' Blacklisted) (init_world []))"
  using check_dl_blacklisted [of "''https://vimeo.com/''" demo_env "[''video'']" "init_world []"]
  by (simp add: demo_env_def shaarchiver_cfg_def)

text \<open>
  C2: a link tagged with the never-download tag is never fetched, also when it carries
  the tag the user asked for and every other check would let it through.
\<close>

theorem check_dl_nodl_refused:
  assumes "match_list linktags (nodl_tag (conf E))"
  shows "\<not> fst (check_dl E linktags linkurl w)"
  using assms by (simp add: check_dl_allowed_iff dl_block_None_iff)

theorem check_dl_nodl_refused_witness:
  "match_list [''nodl'', ''video''] (nodl_tag (conf (demo_env\<lparr>opts := (opts demo_env)\<lparr>usertag := Some ''video''\<rparr>\<rparr>))) \<and>
   \<not> fst (check_dl (demo_env\<lparr>opts := (opts demo_env)\<lparr>usertag := Some ''video''\<rparr>\<rparr>)
            [''nodl'', ''video''] ''http://example.org/'' (init_world []))"
  using check_dl_nodl_refused [of "[''nodl'', ''video'']" "demo_env\<lparr>opts := (opts demo_env)\<lparr>usertag := Some ''video''\<rparr>\<rparr>"
      "''http://example.org/''" "init_world []"]
  by (simp add: demo_env_def shaarchiver_cfg_def)

text \<open>
  C3: \<open>--tag\<close> is a string, and \<open>set()\<close> of a string is the set of its characters:
  once the blacklist, the download switch and the never-download tag have let a link
  through, the user filter refuses it exactly when no tag of the link is a one-character
  string whose character occurs in the option. A link tagged \<open>video\<close> is refused
  by \<open>-t video\<close>.
\<close>

theorem usertag_filter_by_characters:
  assumes "usertag (opts E) = Some s" and "s \<noteq> []"
    and "linkurl \<notin> set (url_blacklist (conf E))" and "\<not> py_eq_bool (download (opts E)) False"
    and "\<not> match_list linktags (nodl_tag (conf E))"
  shows "dl_block E linktags linkurl = Some NotRequestedTag \<longleftrightarrow> \<not> (\<exists>c\<in>set s. [c] \<in> set linktags)"
  using assms by (auto simp: dl_block_def usertag_active_def match_usertag_iff)

theorem usertag_filter_by_characters_witness:
  "usertag (opts (demo_env\<lparr>opts := (opts demo_env)\<lparr>usertag := Some ''video''\<rparr>\<rparr>)) = Some ''video'' \<and>
   dl_block (demo_env\<lparr>opts := (opts demo_env)\<lparr>usertag := Some ''video''\<rparr>\<rparr>) [''video''] ''http://example.org/v''
     = Some NotRequestedTag"
  using usertag_filter_by_characters [of "demo_env\<lparr>opts := (opts demo_env)\<lparr>usertag := Some ''video''\<rparr>\<rparr>"
      "''video''" "''http://example.org/v''" "[''video'']"]
  by (simp add: demo_env_def shaarchiver_cfg_def default_options_def)


lemmas gate_eval [model_simps] = check_dl_def dl_block_def skip_msg_def

text \<open>
  C37: every refusal names its reason: the message the gate prints and logs for a URL
  differs from one reason to another, so the log tells which check refused the link.
\<close>

theorem skip_msg_distinguishes: "inj (skip_msg E u)"
proof (rule injI)
  fix r1 r2
  assume "skip_msg E u r1 = skip_msg E u r2"
  then show "r1 = r2"
    by (cases r1; cases r2) (simp_all add: skip_msg_def)
qed

end
