(* ===== verification/Link.thy ===== *)
theory Link
  imports Prelude
begin

text \<open>
  The bookmark record and its parser (lines 19--20, 95--142). BeautifulSoup is not
  modelled: \<open>get_link_list\<close> receives what \<open>bsdata.find_all(["dt", "dd"])\<close> returns,
  each element with its tag name, its children (as text) and the first \<open><a>\<close> below
  it (\<open>find('a')\<close>), whose attributes are a map. Every failing subscript of lines
  116--130 is an exception of the model.
\<close>

record link =
  add_date :: string
  href :: string
  private_ :: bool
  tags :: "string list"
  title :: string
  description :: string
  is_magnet :: bool

record anchor =
  a_attrs :: "string \<rightharpoonup> string"
  a_contents :: "string list"

record element =
  el_name :: string
  el_contents :: "string list"
  el_find_a :: "anchor option"

text \<open>\<open>xs[0]\<close> and \<open>tag[key]\<close>, which raise.\<close>

definition py_first :: "'a list \<Rightarrow> py_error + 'a" where
  "py_first xs = (case xs of [] \<Rightarrow> Inl IndexError | x # _ \<Rightarrow> Inr x)"

definition py_attr :: "anchor \<Rightarrow> string \<Rightarrow> py_error + string" where
  "py_attr a k = (case a_attrs a k of None \<Rightarrow> Inl KeyError | Some v \<Rightarrow> Inr v)"

text \<open>Lines 95--104 (never called by the script).\<close>

definition getlinktags :: "(string \<rightharpoonup> string) \<Rightarrow> string list" where
  "getlinktags attrs = (case attrs ''tags'' of None \<Rightarrow> [] | Some t \<Rightarrow> py_split (CHR '','') t)"

text \<open>Lines 116--118: the description is the first child of a following \<open><dd>\<close>.\<close>

definition next_desc :: "element list \<Rightarrow> py_error + string" where
  "next_desc rest =
     (case rest of
        e' # _ \<Rightarrow> (if el_name e' = ''dd'' then py_first (el_contents e') else Inr '''')
      | [] \<Rightarrow> Inr '''')"

text \<open>
  Lines 119--130 for one \<open><dt>\<close>, in Python's order of evaluation: the description, the
  \<open>has_attr\<close> call on \<open>find('a')\<close> (\<open>AttributeError\<close> on \<open>None\<close>), then the
  keyword arguments of \<open>Link(...)\<close> from left to right.
\<close>

definition make_item :: "string \<Rightarrow> element \<Rightarrow> py_error + link" where
  "make_item desc e =
     (case el_find_a e of
        None \<Rightarrow> Inl AttributeError
      | Some a \<Rightarrow>
          (let tags_as_list = (case a_attrs a ''tags'' of None \<Rightarrow> [] | Some t \<Rightarrow> py_split (CHR '','') t)
           in ebind (py_attr a ''add_date'') (\<lambda>d.
              ebind (py_attr a ''href'') (\<lambda>h.
              ebind (py_attr a ''private'') (\<lambda>p.
              ebind (py_first (a_contents a)) (\<lambda>t.
                Inr \<lparr>add_date = d, href = h, private_ = (p = ''1''), tags = tags_as_list,
                     title = t, description = desc, is_magnet = py_startswith h ''magnet:''\<rparr>))))))"

definition make_link :: "element \<Rightarrow> element list \<Rightarrow> py_error + link" where
  "make_link e rest = ebind (next_desc rest) (\<lambda>desc. make_item desc e)"

text \<open>The loop of lines 112--131: \<open><dd>\<close> elements are skipped.\<close>

fun get_link_list :: "element list \<Rightarrow> py_error + link list" where
  "get_link_list [] = Inr []"
| "get_link_list (e # rest) =
     (if el_name e = ''dd'' then get_link_list rest
      else ebind (make_link e rest) (\<lambda>l. ebind (get_link_list rest) (\<lambda>ls. Inr (l # ls))))"

text \<open>Lines 135--142: \<open>list(set(...))\<close> loses the order, so the model keeps the set.\<close>

definition get_all_tags :: "link list \<Rightarrow> string set" where
  "get_all_tags links = fold (\<lambda>l acc. acc \<union> set (tags l)) links {}"

text \<open>
  The same loop as written, for the tag list of the report header (line 383): after
  each link the list is rebuilt as \<open>list(set(alltags + link.tags))\<close>. The order in
  which Python lists a set is not specified; \<open>set_order\<close> stands for it, as a
  function of the list the set was built from.
\<close>

definition get_all_tags_loop :: "(string list \<Rightarrow> string list) \<Rightarrow> link list \<Rightarrow> string list" where
  "get_all_tags_loop set_order alllinks = fold (\<lambda>l alltags. set_order (alltags @ tags l)) alllinks []"

text \<open>A sample link for the concrete instances: a talk tagged \<open>video\<close>.\<close>

definition demo_video_link :: link where
  "demo_video_link = \<lparr>add_date = ''1400000000'', href = ''http://example.org/v'', private_ = False,
     tags = [''video''], title = ''A talk'', description = [], is_magnet = False\<rparr>"

subsection \<open>The record's invariant\<close>

text \<open>
  What the data model promises of a link: \<open>is_magnet\<close> is a function of \<open>href\<close>,
  and no tag is empty when the attribute was absent.
\<close>

definition link_wf :: "link \<Rightarrow> bool" where
  "link_wf l \<longleftrightarrow> is_magnet l = py_startswith (href l) ''magnet:''"

lemma make_link_Inr:
  "make_link e rest = Inr l \<longleftrightarrow>
   (\<exists>desc a d h p t. next_desc rest = Inr desc \<and> el_find_a e = Some a \<and>
      a_attrs a ''add_date'' = Some d \<and> a_attrs a ''href'' = Some h \<and>
      a_attrs a ''private'' = Some p \<and> a_contents a = t # tl (a_contents a) \<and>
      l = \<lparr>add_date = d, href = h, private_ = (p = ''1''), tags = getlinktags (a_attrs a),
           title = t, description = desc, is_magnet = py_startswith h ''magnet:''\<rparr>)"
  by (cases "next_desc rest"; cases "el_find_a e")
     (auto simp: make_link_def make_item_def py_attr_def py_first_def getlinktags_def Let_def
           split: option.splits list.splits)

lemma make_link_wf: "make_link e rest = Inr l \<Longrightarrow> link_wf l"
  by (auto simp: make_link_Inr link_wf_def)

lemma get_all_tags_fold: "fold (\<lambda>l acc. acc \<union> set (tags l)) links A = A \<union> (\<Union>l\<in>set links. set (tags l))"
  by (induction links arbitrary: A) auto

lemma get_link_list_length:
  "get_link_list es = Inr ls \<Longrightarrow> length ls = length (filter (\<lambda>e. el_name e \<noteq> ''dd'') es)"
proof (induction es arbitrary: ls rule: get_link_list.induct)
  case 1 then show ?case by simp
next
  case (2 e rest) then show ?case by (auto simp: ebind_eq_Inr split: if_splits)
qed

lemma fold_set_order_set:
  "\<forall>xs. set (set_order xs) = set xs \<Longrightarrow>
   set (fold (\<lambda>l alltags. set_order (alltags @ tags l)) ls acc) = set acc \<union> (\<Union>l\<in>set ls. set (tags l))"
  by (induction ls arbitrary: acc) auto

lemma fold_set_order_distinct:
  "\<forall>xs. distinct (set_order xs) \<Longrightarrow> distinct acc \<Longrightarrow>
   distinct (fold (\<lambda>l alltags. set_order (alltags @ tags l)) ls acc)"
  by (induction ls arbitrary: acc) auto

lemmas link_eval [model_simps] = demo_video_link_def make_link_def make_item_def next_desc_def py_first_def py_attr_def
  getlinktags_def


subsection \<open>Properties of the parser\<close>

text \<open>
  C20: every link the parser returns satisfies the data model's invariant: its
  \<open>is_magnet\<close> flag is exactly whether its \<open>href\<close> starts with \<open>magnet:\<close>.
\<close>

theorem get_link_list_wf:
  assumes "get_link_list es = Inr ls"
  shows "list_all link_wf ls"
  using assms
proof (induction es arbitrary: ls rule: get_link_list.induct)
  case 1
  then show ?case by simp
next
  case (2 e rest)
  then show ?case
    by (auto simp: ebind_eq_Inr split: if_splits dest: make_link_wf)
qed

theorem get_link_list_wf_witness:
  "get_link_list [\<lparr>el_name = ''dt'', el_contents = [],
      el_find_a = Some \<lparr>a_attrs = [''href'' \<mapsto> ''magnet:?xt=urn:btih:AB'', ''add_date'' \<mapsto> ''1400000000'',
                          ''private'' \<mapsto> ''0'', ''tags'' \<mapsto> ''music,doc''],
                        a_contents = [''Album'']\<rparr>\<rparr>,
    \<lparr>el_name = ''dd'', el_contents = [''A description''], el_find_a = None\<rparr>] = Inr [\<lparr>add_date = ''1400000000'', href = ''magnet:?xt=urn:btih:AB'', private_ = False,
      tags = [''music'', ''doc''], title = ''Album'', description = ''A description'', is_magnet = True\<rparr>] \<and>
   list_all link_wf [\<lparr>add_date = ''1400000000'', href = ''magnet:?xt=urn:btih:AB'', private_ = False,
      tags = [''music'', ''doc''], title = ''Album'', description = ''A description'', is_magnet = True\<rparr>]"
  using get_link_list_wf [of "[\<lparr>el_name = ''dt'', el_contents = [],
      el_find_a = Some \<lparr>a_attrs = [''href'' \<mapsto> ''magnet:?xt=urn:btih:AB'', ''add_date'' \<mapsto> ''1400000000'',
                          ''private'' \<mapsto> ''0'', ''tags'' \<mapsto> ''music,doc''],
                        a_contents = [''Album'']\<rparr>\<rparr>,
    \<lparr>el_name = ''dd'', el_contents = [''A description''], el_find_a = None\<rparr>]" "[\<lparr>add_date = ''1400000000'', href = ''magnet:?xt=urn:btih:AB'', private_ = False,
      tags = [''music'', ''doc''], title = ''Album'', description = ''A description'', is_magnet = True\<rparr>]"]
  by (simp add: model_simps py_startswith_def Let_def)

text \<open>
  C28: the report header's tag list, built by the loop of lines 139--141, names every
  tag of the export exactly once, whatever order Python lists its sets in: the list
  is duplicate-free and its set is the set \<open>get_all_tags\<close> of all tags.
\<close>

theorem get_all_tags_loop_refines:
  assumes "\<forall>xs. distinct (set_order xs) \<and> set (set_order xs) = set xs"
  shows "distinct (get_all_tags_loop set_order ls) \<and> set (get_all_tags_loop set_order ls) = get_all_tags ls"
  using assms fold_set_order_set [of set_order ls "[]"] fold_set_order_distinct [of set_order "[]" ls]
  by (simp add: get_all_tags_loop_def get_all_tags_def get_all_tags_fold)

theorem get_all_tags_loop_refines_witness:
  "(\<forall>xs. distinct (remdups xs) \<and> set (remdups xs) = set (xs :: string list)) \<and>
   distinct (get_all_tags_loop remdups [demo_video_link, demo_video_link\<lparr>tags := [''music'', ''video'']\<rparr>]) \<and>
   set (get_all_tags_loop remdups [demo_video_link, demo_video_link\<lparr>tags := [''music'', ''video'']\<rparr>]) =
     get_all_tags [demo_video_link, demo_video_link\<lparr>tags := [''music'', ''video'']\<rparr>]"
  using get_all_tags_loop_refines [of remdups "[demo_video_link, demo_video_link\<lparr>tags := [''music'', ''video'']\<rparr>]"]
  by simp

end
