(* ===== verification/Magnet.thy ===== *)
theory Magnet
  imports Prelude
begin

text \<open>
  The hash of a magnet link (lines 180--189): \<open>re.findall("xt=.*:([^&]*)", href)[0]\<close>.
  The model follows Python's regex engine: the search tries each start position from the
  left; at a position it matches \<open>xt=\<close>, lets \<open>.*\<close> (any character but newline) take
  as much as it can and gives back one character at a time until a \<open>:\<close> follows, then
  takes the group \<open>[^&]*\<close> greedily (that class matches newlines). Only the first match
  is used by the script, so \<open>magnet_search\<close> returns it, or \<open>None\<close> when \<open>findall\<close>
  returns the empty list.
\<close>

abbreviation COLON :: char where "COLON \<equiv> CHR '':''"
abbreviation AMP :: char where "AMP \<equiv> CHR ''&''"

text \<open>Backtracking of \<open>.*:\<close>: \<open>.*\<close> has taken \<open>k\<close> characters of \<open>r\<close>.\<close>

fun try_colon :: "nat \<Rightarrow> string \<Rightarrow> string option" where
  "try_colon 0 r =
     (if 0 < length r \<and> r ! 0 = COLON then Some (takeWhile (\<lambda>c. c \<noteq> AMP) (drop 1 r)) else None)"
| "try_colon (Suc k) r =
     (if Suc k < length r \<and> r ! Suc k = COLON then Some (takeWhile (\<lambda>c. c \<noteq> AMP) (drop (Suc (Suc k)) r))
      else try_colon k r)"

definition magnet_match_at :: "string \<Rightarrow> string option" where
  "magnet_match_at s =
     (if take 3 s = ''xt='' then
        (let r = drop 3 s in try_colon (length (takeWhile (\<lambda>c. c \<noteq> LF) r)) r)
      else None)"

fun magnet_search :: "string \<Rightarrow> string option" where
  "magnet_search [] = None"
| "magnet_search (c # cs) =
     (case magnet_match_at (c # cs) of Some g \<Rightarrow> Some g | None \<Rightarrow> magnet_search cs)"

subsection \<open>Facts about the matcher\<close>

lemma try_colon_Some:
  "try_colon k r = Some g \<Longrightarrow> \<exists>j\<le>k. j < length r \<and> r ! j = COLON \<and> g = takeWhile (\<lambda>c. c \<noteq> AMP) (drop (Suc j) r)"
proof (induction k)
  case 0
  then show ?case by (auto split: if_splits)
next
  case (Suc k)
  then show ?case by (auto split: if_splits intro: le_SucI)
qed

text \<open>Characters past the last colon the backtracking sees are skipped.\<close>

lemma try_colon_skip:
  "m \<le> k \<Longrightarrow> (\<forall>j. m < j \<and> j \<le> k \<longrightarrow> \<not> (j < length r \<and> r ! j = COLON)) \<Longrightarrow> try_colon k r = try_colon m r"
proof (induction k)
  case 0
  then show ?case by simp
next
  case (Suc k)
  show ?case
  proof (cases "m = Suc k")
    case True
    then show ?thesis by simp
  next
    case False
    with Suc.prems have "m \<le> k" by simp
    with Suc show ?thesis by auto
  qed
qed

lemma magnet_search_Some_no_amp: "magnet_search s = Some g \<Longrightarrow> AMP \<notin> set g"
proof (induction s)
  case Nil
  then show ?case by simp
next
  case (Cons c cs)
  show ?case
  proof (cases "magnet_match_at (c # cs)")
    case None
    with Cons show ?thesis by simp
  next
    case (Some g')
    with Cons.prems have "g' = g" by simp
    with Some show ?thesis
      by (auto simp: magnet_match_at_def Let_def split: if_splits dest!: try_colon_Some
               dest: set_takeWhileD)
  qed
qed

lemma magnet_search_append_nomatch:
  "(\<And>i. i < length p \<Longrightarrow> magnet_match_at (drop i p @ s) = None) \<Longrightarrow> magnet_search (p @ s) = magnet_search s"
proof (induction p)
  case Nil
  then show ?case by simp
next
  case (Cons c p)
  from Cons.prems [of 0] have "magnet_match_at (c # p @ s) = None" by simp
  moreover have "magnet_search (p @ s) = magnet_search s"
    using Cons.prems [of "Suc i" for i] by (intro Cons.IH) simp
  ultimately show ?case by simp
qed

lemma magnet_search_Cons_None:
  "magnet_match_at (c # cs) = None \<Longrightarrow> magnet_search (c # cs) = magnet_search cs"
  by simp

lemma magnet_search_Cons_Some:
  "magnet_match_at (c # cs) = Some g \<Longrightarrow> magnet_search (c # cs) = Some g"
  by simp

text \<open>A search over a URI that starts with \<open>magnet:?xt=\<close> returns the match at the \<open>xt=\<close> when there is one.\<close>

lemma magnet_search_xt:
  "try_colon (length (takeWhile (\<lambda>c. c \<noteq> LF) r)) r = Some g \<Longrightarrow> magnet_search (''magnet:?xt='' @ r) = Some g"
  by (simp del: magnet_search.simps add: magnet_search_Cons_None magnet_search_Cons_Some magnet_match_at_def)

lemma try_colon_at:
  "j < length r \<Longrightarrow> r ! j = COLON \<Longrightarrow> try_colon j r = Some (takeWhile (\<lambda>c. c \<noteq> AMP) (drop (Suc j) r))"
  by (cases j) simp_all

lemma takeWhile_reaches:
  assumes "j < length r" and "\<forall>x\<in>set (take (Suc j) r). P x"
  shows "j < length (takeWhile P r)"
proof -
  have "takeWhile P r = takeWhile P (take (Suc j) r @ drop (Suc j) r)"
    by (simp only: append_take_drop_id)
  also have "\<dots> = take (Suc j) r @ takeWhile P (drop (Suc j) r)"
    using assms(2) by (intro takeWhile_append2) auto
  finally show ?thesis using assms(1) by simp
qed

lemma try_colon_last:
  assumes j: "j < length r" and c: "r ! j = COLON"
    and nl: "LF \<notin> set (take j r)" and after: "COLON \<notin> set (drop (Suc j) r)"
  shows "try_colon (length (takeWhile (\<lambda>c. c \<noteq> LF) r)) r = Some (takeWhile (\<lambda>c. c \<noteq> AMP) (drop (Suc j) r))"
proof -
  let ?k = "length (takeWhile (\<lambda>c. c \<noteq> LF) r)"
  have "take (Suc j) r = take j r @ [COLON]"
    using j c by (simp add: take_Suc_conv_app_nth)
  with nl have "\<forall>x\<in>set (take (Suc j) r). x \<noteq> LF"
    by auto
  with j have "j < ?k" by (rule takeWhile_reaches)
  then have jk: "j \<le> ?k" by simp
  have skip: "\<forall>i. j < i \<and> i \<le> ?k \<longrightarrow> \<not> (i < length r \<and> r ! i = COLON)"
  proof (intro allI impI notI)
    fix i assume ij: "j < i \<and> i \<le> ?k" and ic: "i < length r \<and> r ! i = COLON"
    from ij have i: "i = Suc j + (i - Suc j)" by simp
    from ic ij have lt: "i - Suc j < length (drop (Suc j) r)" by (simp, linarith)
    from ic i have "drop (Suc j) r ! (i - Suc j) = COLON"
      by (metis Suc_leI ij j nth_drop order_less_imp_le)
    with lt have "COLON \<in> set (drop (Suc j) r)" by (metis nth_mem)
    with after show False by simp
  qed
  have "try_colon ?k r = try_colon j r" by (rule try_colon_skip [OF jk skip])
  also have "\<dots> = Some (takeWhile (\<lambda>c. c \<noteq> AMP) (drop (Suc j) r))" by (rule try_colon_at [OF j c])
  finally show ?thesis .
qed
subsection \<open>Properties of the hash extraction\<close>

text \<open>
  C12: for the usual URI \<open>magnet:?xt=urn:btih:<hash>\<close> followed by nothing or by
  \<open>&\<close> and further parameters, the script takes \<open><hash>\<close>, provided neither the
  hash nor the later parameters contain a colon.
\<close>

theorem magnet_hash_btih:
  assumes "COLON \<notin> set (h @ rest)" and "AMP \<notin> set h" and "rest = [] \<or> hd rest = AMP"
  shows "magnet_search (''magnet:?xt=urn:btih:'' @ h @ rest) = Some h"
proof -
  define p where "p = ''urn:btih''"
  have r: "''magnet:?xt=urn:btih:'' @ h @ rest = ''magnet:?xt='' @ (p @ COLON # h @ rest)"
    by (simp add: p_def)
  have "try_colon (length (takeWhile (\<lambda>c. c \<noteq> LF) (p @ COLON # h @ rest))) (p @ COLON # h @ rest)
        = Some (takeWhile (\<lambda>c. c \<noteq> AMP) (drop (Suc (length p)) (p @ COLON # h @ rest)))"
    by (rule try_colon_last) (use assms(1) in \<open>simp_all add: p_def\<close>)
  moreover have "takeWhile (\<lambda>c. c \<noteq> AMP) (h @ rest) = h"
    using assms(2,3) by (cases rest) (auto simp: takeWhile_append2 takeWhile_tail)
  ultimately have "try_colon (length (takeWhile (\<lambda>c. c \<noteq> LF) (p @ COLON # h @ rest))) (p @ COLON # h @ rest)
        = Some h"
    by simp
  then show ?thesis unfolding r by (rule magnet_search_xt)
qed

theorem magnet_hash_btih_witness:
  "COLON \<notin> set (''ABCD1234'' @ ''&dn=test'') \<and> AMP \<notin> set ''ABCD1234'' \<and>
   (''&dn=test'' = [] \<or> hd ''&dn=test'' = AMP) \<and>
   magnet_search (''magnet:?xt=urn:btih:'' @ ''ABCD1234'' @ ''&dn=test'') = Some ''ABCD1234''"
  using magnet_hash_btih [of "''ABCD1234''" "''&dn=test''"] by simp

text \<open>
  C14: \<open>.*\<close> is greedy, so the hash is what follows the last colon before any
  newline, not the one after \<open>urn:btih:\<close>: a later parameter with a colon (a tracker
  \<open>udp://host:port\<close>, a name with a colon) replaces the hash by the text after it.
\<close>

theorem magnet_hash_after_last_colon:
  assumes "LF \<notin> set (h @ p)" and "COLON \<notin> set q"
  shows "magnet_search (''magnet:?xt=urn:btih:'' @ h @ AMP # p @ COLON # q) = Some (takeWhile (\<lambda>c. c \<noteq> AMP) q)"
proof -
  define pre where "pre = ''urn:btih:'' @ h @ AMP # p"
  have r: "''magnet:?xt=urn:btih:'' @ h @ AMP # p @ COLON # q = ''magnet:?xt='' @ (pre @ COLON # q)"
    by (simp add: pre_def)
  have "LF \<notin> set pre" using assms(1) by (auto simp: pre_def)
  then have "try_colon (length (takeWhile (\<lambda>c. c \<noteq> LF) (pre @ COLON # q))) (pre @ COLON # q)
        = Some (takeWhile (\<lambda>c. c \<noteq> AMP) (drop (Suc (length pre)) (pre @ COLON # q)))"
    by (intro try_colon_last) (use assms(2) in simp_all)
  then have "try_colon (length (takeWhile (\<lambda>c. c \<noteq> LF) (pre @ COLON # q))) (pre @ COLON # q)
        = Some (takeWhile (\<lambda>c. c \<noteq> AMP) q)"
    by simp
  then show ?thesis unfolding r by (rule magnet_search_xt)
qed

theorem magnet_hash_after_last_colon_witness:
  "LF \<notin> set (''ABCD1234'' @ ''tr=udp//tracker.example.org'') \<and> COLON \<notin> set ''6969'' \<and>
   magnet_search (''magnet:?xt=urn:btih:'' @ ''ABCD1234'' @ AMP # ''tr=udp//tracker.example.org'' @ COLON # ''6969'')
     = Some (takeWhile (\<lambda>c. c \<noteq> AMP) ''6969'')"
  using magnet_hash_after_last_colon [of "''ABCD1234''" "''tr=udp//tracker.example.org''" "''6969''"] by simp

end
