(* ===== verification/Fetch.thy ===== *)
theory Fetch
  imports World Link Magnet
begin

text \<open>
  The three fetch actions run for an eligible link (lines 174--260). \<open>download_page\<close>
  is the tag classifier of the spec: one branch per class, in the source's order. The
  video and audio actions each build a \<open>youtube-dl\<close> command, run it through the
  environment's tool and record the URL in the ledger on exit code 0 (unless
  \<open>--no-skip\<close>). The script reads the loop variable \<open>link\<close> inside these functions;
  the only call site (lines 398--400) passes that link's own fields, so the model takes
  the link.
\<close>

subsection \<open>The page action (classifier)\<close>

text \<open>The spec's classification of the page action (section 4.1), first match wins.\<close>

datatype page_class = MagnetRef | ForcedPage | MediaOnly | SimulatedPage

definition classify_page :: "cfg \<Rightarrow> link \<Rightarrow> page_class" where
  "classify_page C l =
     (if is_magnet l then MagnetRef
      else if match_list (tags l) (force_page_download_for C) then ForcedPage
      else if match_list (tags l) (download_video_for C) \<or> match_list (tags l) (download_audio_for C)
        then MediaOnly
      else SimulatedPage)"

definition magnet_path :: "env \<Rightarrow> string \<Rightarrow> string" where
  "magnet_path E h = dest E @ ''/'' @ h @ ''.magnet''"

text \<open>
  Lines 178--194, the magnet branch. With no match, \<open>matches[0]\<close> raises
  \<open>IndexError\<close> after the message. Otherwise the file \<open><dest>/<hash>.magnet\<close> is
  opened with \<open>"w+"\<close> (created empty, or \<open>IOError\<close>), and \<open>handle.write\<close> of the
  \<open>unicode\<close> URI encodes it with the ASCII codec, which raises
  \<open>UnicodeEncodeError\<close> for a non-ASCII URI and leaves the file empty.
\<close>

definition save_magnet :: "env \<Rightarrow> link \<Rightarrow> world \<Rightarrow> outcome" where
  "save_magnet E l w =
     (case magnet_search (href l) of
        None \<Rightarrow>
          Inl (IndexError,
            say ''[shaarchiver] Link appears to be a magnet, but no hash could be found. Not saving it'' w)
      | Some h \<Rightarrow>
          (let w1 = print_msg (''[shaarchiver] Link is a magnet. Saving it to '' @ h @ ''.magnet'') w
           in case open_path (dirtree E) (cwd E) (magnet_path E h) of
                Inl err \<Rightarrow> Inl (err, w1)
              | Inr p \<Rightarrow>
                  (let w2 = w1\<lparr>files := (files w1)(p \<mapsto> [])\<rparr>
                   in if py_ascii (href l) then Inr (w2\<lparr>files := (files w2)(p \<mapsto> href l)\<rparr>)
                      else Inl (UnicodeEncodeError, w2))))"

definition download_page :: "env \<Rightarrow> link \<Rightarrow> world \<Rightarrow> outcome" where
  "download_page E l w =
     (if is_magnet l then save_magnet E l w
      else if match_list (tags l) (force_page_download_for (conf E)) then
        Inr (say (''[shaarchiver] Force downloading page for '' @ href l) w)
      else if match_list (tags l) (download_video_for (conf E)) \<or> match_list (tags l) (download_audio_for (conf E)) then
        Inr (print_msg (''[shaarchiver] '' @ href l @ '' will only be searched for media. Not downloading page'') w)
      else
        Inr (say (''[shaarchiver] Simulating page download for '' @ href l) w))"

subsection \<open>Media actions\<close>

definition output_template :: "env \<Rightarrow> string \<Rightarrow> link \<Rightarrow> string" where
  "output_template E sub l = dest E @ sub @ ''['' @ py_join '','' (tags l) @ '']'' @ ytdl_naming (conf E)"

definition video_command :: "env \<Rightarrow> link \<Rightarrow> string list" where
  "video_command E l =
     [''youtube-dl''] @ ytdl_args (conf E) @
     [''--format'', ''best'', ''--output'', output_template E ''/video/'' l, href l]"

definition audio_format :: "options \<Rightarrow> string" where
  "audio_format opt = (if py_eq_bool (mp3 opt) True then ''mp3'' else ''best'')"

definition audio_command :: "env \<Rightarrow> link \<Rightarrow> string list" where
  "audio_command E l =
     [''youtube-dl''] @ ytdl_args (conf E) @
     [''--extract-audio'', ''--audio-format'', audio_format (opts E),
      ''--output'', output_template E ''/audio/'' l, href l]"

text \<open>What follows \<open>retcode = call(command)\<close> in both media actions (lines 227--233, 254--260).\<close>

definition after_fetch :: "env \<Rightarrow> string \<Rightarrow> int \<Rightarrow> world \<Rightarrow> world" where
  "after_fetch E linkurl retcode w =
     (if retcode = 0 then (if \<not> no_skip (opts E) then done_write linkurl w else w)
      else say (''[shaarchiver] ERROR Download failed for '' @ linkurl) w)"

text \<open>
  \<open>call(command)\<close>: when the program cannot be started (\<open>youtube-dl\<close> missing),
  \<open>OSError\<close> escapes and no command ran; otherwise the command runs (recorded) and its
  exit code is read.
\<close>

definition run_tool :: "env \<Rightarrow> string \<Rightarrow> string list \<Rightarrow> world \<Rightarrow> outcome" where
  "run_tool E linkurl cmd w =
     (case ytdl E cmd of
        Inl err \<Rightarrow> Inl (err, w)
      | Inr rc \<Rightarrow> Inr (after_fetch E linkurl rc (record_call cmd w)))"

definition download_video :: "env \<Rightarrow> link \<Rightarrow> world \<Rightarrow> outcome" where
  "download_video E l w =
     (if match_list (tags l) (download_video_for (conf E)) then
        run_tool E (href l) (video_command E l) (say (''[shaarchiver] Downloading video for '' @ href l) w)
      else Inr w)"

definition download_audio :: "env \<Rightarrow> link \<Rightarrow> world \<Rightarrow> outcome" where
  "download_audio E l w =
     (if match_list (tags l) (download_audio_for (conf E)) then
        run_tool E (href l) (audio_command E l) (say (''[shaarchiver] Downloading audio for '' @ href l) w)
      else Inr w)"

text \<open>The three actions in the order of lines 398--400.\<close>

definition fetch_all :: "env \<Rightarrow> link \<Rightarrow> world \<Rightarrow> outcome" where
  "fetch_all E l w =
     seq_w (download_page E l w) (\<lambda>w1. seq_w (download_video E l w1) (download_audio E l))"

text \<open>The tool returns an exit code for a command, rather than raising \<open>OSError\<close>.\<close>

definition tool_runs :: "env \<Rightarrow> string list \<Rightarrow> bool" where
  "tool_runs E c \<longleftrightarrow> (case ytdl E c of Inl e \<Rightarrow> False | Inr rc \<Rightarrow> True)"

text \<open>
  The page action returns normally: the link is not a magnet, or its hash is found,
  its file can be created and its URI is ASCII.
\<close>

definition page_ok :: "env \<Rightarrow> link \<Rightarrow> bool" where
  "page_ok E l =
     (if is_magnet l then
        (case magnet_search (href l) of
           None \<Rightarrow> False
         | Some h \<Rightarrow> (case open_path (dirtree E) (cwd E) (magnet_path E h) of
                        Inl e \<Rightarrow> False
                      | Inr p \<Rightarrow> py_ascii (href l)))
      else True)"

subsection \<open>Facts about the actions\<close>

text \<open>The page action implements the classifier: one effect per class.\<close>

lemma download_page_by_class:
  "download_page E l w =
     (case classify_page (conf E) l of
        MagnetRef \<Rightarrow> save_magnet E l w
      | ForcedPage \<Rightarrow> Inr (say (''[shaarchiver] Force downloading page for '' @ href l) w)
      | MediaOnly \<Rightarrow> Inr (print_msg (''[shaarchiver] '' @ href l @ '' will only be searched for media. Not downloading page'') w)
      | SimulatedPage \<Rightarrow> Inr (say (''[shaarchiver] Simulating page download for '' @ href l) w))"
  by (simp add: download_page_def classify_page_def Let_def split: option.splits)

text \<open>No page action calls the tool or touches the ledger.\<close>

lemma download_page_frame:
  "download_page E l w = Inr w' \<or> download_page E l w = Inl (err, w') \<Longrightarrow>
   calls w' = calls w \<and> done_log w' = done_log w \<and> md w' = md w"
  by (auto simp: download_page_def save_magnet_def Let_def split: option.splits sum.splits if_splits)

text \<open>A media action changes the ledger only by appending its URL after exit code 0.\<close>

lemma after_fetch_done_log:
  "done_log (after_fetch E u rc w) =
     (if rc = 0 \<and> \<not> no_skip (opts E) then done_log w @ u @ [LF] else done_log w)"
  by (simp add: after_fetch_def)

lemma after_fetch_calls [simp]: "calls (after_fetch E u rc w) = calls w"
  by (simp add: after_fetch_def)

lemma run_tool_Inr:
  "run_tool E u cmd w = Inr w' \<longleftrightarrow>
   (\<exists>rc. ytdl E cmd = Inr rc \<and> w' = after_fetch E u rc (record_call cmd w))"
  by (auto simp: run_tool_def split: sum.splits)

lemma run_tool_Inl:
  "run_tool E u cmd w = Inl (err, w') \<longleftrightarrow> ytdl E cmd = Inl err \<and> w' = w"
  by (auto simp: run_tool_def split: sum.splits)

lemma download_page_no_hash:
  "is_magnet l \<Longrightarrow> magnet_search (href l) = None \<Longrightarrow>
   download_page E l w = Inl (IndexError,
     say ''[shaarchiver] Link appears to be a magnet, but no hash could be found. Not saving it'' w)"
  by (simp add: download_page_def save_magnet_def)

lemma after_fetch_md [simp]: "md (after_fetch E u rc w) = md w"
  by (simp add: after_fetch_def)

lemma run_tool_calls:
  "tool_runs E cmd \<Longrightarrow> \<exists>w'. run_tool E u cmd w = Inr w' \<and> calls w' = calls w @ [cmd] \<and> md w' = md w"
  by (auto simp: tool_runs_def run_tool_def split: sum.splits)

lemma run_tool_md: "run_tool E u cmd w = Inr w' \<Longrightarrow> md w' = md w"
  by (auto simp: run_tool_def Let_def split: sum.splits)

lemma download_video_calls:
  assumes "match_list (tags l) (download_video_for (conf E)) \<Longrightarrow> tool_runs E (video_command E l)"
  shows "\<exists>w'. download_video E l w = Inr w' \<and> md w' = md w \<and>
     calls w' = calls w @ (if match_list (tags l) (download_video_for (conf E)) then [video_command E l] else [])"
proof (cases "match_list (tags l) (download_video_for (conf E))")
  case True
  let ?w0 = "say (''[shaarchiver] Downloading video for '' @ href l) w"
  from run_tool_calls [OF assms [OF True], of "href l" ?w0] obtain w'
    where "run_tool E (href l) (video_command E l) ?w0 = Inr w'"
      and "calls w' = calls ?w0 @ [video_command E l]" and "md w' = md ?w0"
    by blast
  with True show ?thesis by (simp add: download_video_def)
next
  case False
  then show ?thesis by (simp add: download_video_def)
qed

lemma download_audio_calls:
  assumes "match_list (tags l) (download_audio_for (conf E)) \<Longrightarrow> tool_runs E (audio_command E l)"
  shows "\<exists>w'. download_audio E l w = Inr w' \<and> md w' = md w \<and>
     calls w' = calls w @ (if match_list (tags l) (download_audio_for (conf E)) then [audio_command E l] else [])"
proof (cases "match_list (tags l) (download_audio_for (conf E))")
  case True
  let ?w0 = "say (''[shaarchiver] Downloading audio for '' @ href l) w"
  from run_tool_calls [OF assms [OF True], of "href l" ?w0] obtain w'
    where "run_tool E (href l) (audio_command E l) ?w0 = Inr w'"
      and "calls w' = calls ?w0 @ [audio_command E l]" and "md w' = md ?w0"
    by blast
  with True show ?thesis by (simp add: download_audio_def)
next
  case False
  then show ?thesis by (simp add: download_audio_def)
qed

lemma download_page_Inr:
  "page_ok E l \<Longrightarrow> \<exists>w'. download_page E l w = Inr w' \<and> calls w' = calls w \<and> md w' = md w"
  by (auto simp: page_ok_def download_page_def save_magnet_def Let_def split: option.splits sum.splits)

lemma fetch_all_md: "fetch_all E l w = Inr w' \<Longrightarrow> md w' = md w"
  using download_page_frame [of E l w]
  by (auto simp: fetch_all_def seq_w_eq_Inr download_video_def download_audio_def
           dest!: run_tool_md split: if_splits)

lemmas fetch_defs = download_video_def download_audio_def run_tool_def after_fetch_def


lemmas fetch_eval [model_simps] = fetch_all_def download_page_def download_video_def download_audio_def
  run_tool_def after_fetch_def video_command_def audio_command_def audio_format_def output_template_def
  magnet_path_def magnet_match_at_def classify_page_def save_magnet_def page_ok_def open_path_def
  abs_path_def path_start_def py_ascii_def


subsection \<open>Properties of the media actions\<close>

text \<open>
  C8: a video fetch whose command exits with a non-zero code is not recorded in the
  ledger, so a later run retries it; the failure is printed and logged and the command
  was run once.
\<close>

theorem download_video_failure_not_recorded:
  assumes "match_list (tags l) (download_video_for (conf E))"
    and "ytdl E (video_command E l) = Inr rc" and "rc \<noteq> 0"
  shows "\<exists>w'. download_video E l w = Inr w' \<and> done_log w' = done_log w
           \<and> calls w' = calls w @ [video_command E l]
           \<and> last (log w') = ''[shaarchiver] ERROR Download failed for '' @ href l @ [LF]"
  using assms by (simp add: download_video_def run_tool_def after_fetch_def)

theorem download_video_failure_not_recorded_witness:
  "match_list (tags demo_video_link) (download_video_for (conf (demo_env\<lparr>ytdl := (\<lambda>c. Inr 1)\<rparr>))) \<and>
   ytdl (demo_env\<lparr>ytdl := (\<lambda>c. Inr 1)\<rparr>) (video_command (demo_env\<lparr>ytdl := (\<lambda>c. Inr 1)\<rparr>) demo_video_link) = Inr 1 \<and>
   (1::int) \<noteq> 0 \<and>
   (\<exists>w'. download_video (demo_env\<lparr>ytdl := (\<lambda>c. Inr 1)\<rparr>) demo_video_link (init_world []) = Inr w' \<and>
      done_log w' = [] \<and> calls w' = [video_command (demo_env\<lparr>ytdl := (\<lambda>c. Inr 1)\<rparr>) demo_video_link] \<and>
      last (log w') = ''[shaarchiver] ERROR Download failed for '' @ href demo_video_link @ [LF])"
  using download_video_failure_not_recorded [of demo_video_link "demo_env\<lparr>ytdl := (\<lambda>c. Inr 1)\<rparr>" 1 "init_world []"]
  by (simp add: model_simps config_defs)

text \<open>
  C9: a video fetch whose command exits with 0 appends the link's URL and a newline to
  the ledger, once, unless \<open>--no-skip\<close> is given.
\<close>

theorem download_video_success_recorded:
  assumes "match_list (tags l) (download_video_for (conf E))"
    and "ytdl E (video_command E l) = Inr 0" and "\<not> no_skip (opts E)"
  shows "\<exists>w'. download_video E l w = Inr w' \<and> done_log w' = done_log w @ href l @ [LF]
           \<and> calls w' = calls w @ [video_command E l]"
  using assms by (simp add: download_video_def run_tool_def after_fetch_def)

theorem download_video_success_recorded_witness:
  "match_list (tags demo_video_link) (download_video_for (conf demo_env)) \<and>
   ytdl demo_env (video_command demo_env demo_video_link) = Inr 0 \<and> \<not> no_skip (opts demo_env) \<and>
   (\<exists>w'. download_video demo_env demo_video_link (init_world []) = Inr w' \<and>
      done_log w' = ''http://example.org/v'' @ [LF] \<and> calls w' = [video_command demo_env demo_video_link])"
  using download_video_success_recorded [of demo_video_link demo_env "init_world []"]
  by (simp add: model_simps config_defs)

text \<open>
  C10: the ledger gets one line per successful media action, not one per link: a link
  tagged for video and audio whose two commands both succeed is appended twice.
\<close>

theorem fetch_all_records_twice:
  assumes "\<not> is_magnet l" and "match_list (tags l) (download_video_for (conf E))"
    and "match_list (tags l) (download_audio_for (conf E))"
    and "ytdl E (video_command E l) = Inr 0" and "ytdl E (audio_command E l) = Inr 0"
    and "\<not> no_skip (opts E)"
  shows "\<exists>w'. fetch_all E l w = Inr w' \<and> done_log w' = done_log w @ href l @ [LF] @ href l @ [LF]"
  using assms by (simp add: fetch_all_def download_page_def fetch_defs Let_def)

theorem fetch_all_records_twice_witness:
  "\<not> is_magnet (demo_video_link\<lparr>tags := [''video'', ''music'']\<rparr>) \<and>
   match_list (tags (demo_video_link\<lparr>tags := [''video'', ''music'']\<rparr>)) (download_video_for (conf demo_env)) \<and>
   match_list (tags (demo_video_link\<lparr>tags := [''video'', ''music'']\<rparr>)) (download_audio_for (conf demo_env)) \<and>
   ytdl demo_env (video_command demo_env (demo_video_link\<lparr>tags := [''video'', ''music'']\<rparr>)) = Inr 0 \<and>
   ytdl demo_env (audio_command demo_env (demo_video_link\<lparr>tags := [''video'', ''music'']\<rparr>)) = Inr 0 \<and>
   \<not> no_skip (opts demo_env) \<and>
   (\<exists>w'. fetch_all demo_env (demo_video_link\<lparr>tags := [''video'', ''music'']\<rparr>) (init_world []) = Inr w' \<and>
      done_log w' = ''http://example.org/v'' @ [LF] @ ''http://example.org/v'' @ [LF])"
  using fetch_all_records_twice [of "demo_video_link\<lparr>tags := [''video'', ''music'']\<rparr>" demo_env "init_world []"]
  by (simp add: model_simps config_defs)

text \<open>
  C11: the page class and the media actions are independent: a link tagged both for a
  forced page and for video gets the forced-page action (its message is the first thing
  logged) and the video command.
\<close>

theorem forced_page_and_video_both_run:
  assumes "\<not> is_magnet l" and "match_list (tags l) (force_page_download_for (conf E))"
    and "match_list (tags l) (download_video_for (conf E))"
    and "\<not> match_list (tags l) (download_audio_for (conf E))"
    and "ytdl E (video_command E l) = Inr rc"
  shows "\<exists>w' rest. fetch_all E l w = Inr w' \<and> calls w' = calls w @ [video_command E l]
           \<and> log w' = log w @ [''[shaarchiver] Force downloading page for '' @ href l @ [LF]] @ rest"
  using assms by (simp add: fetch_all_def download_page_def fetch_defs Let_def)

theorem forced_page_and_video_both_run_witness:
  "\<not> is_magnet (demo_video_link\<lparr>tags := [''video'', ''lecture'']\<rparr>) \<and>
   match_list (tags (demo_video_link\<lparr>tags := [''video'', ''lecture'']\<rparr>)) (force_page_download_for (conf demo_env)) \<and>
   match_list (tags (demo_video_link\<lparr>tags := [''video'', ''lecture'']\<rparr>)) (download_video_for (conf demo_env)) \<and>
   \<not> match_list (tags (demo_video_link\<lparr>tags := [''video'', ''lecture'']\<rparr>)) (download_audio_for (conf demo_env)) \<and>
   ytdl demo_env (video_command demo_env (demo_video_link\<lparr>tags := [''video'', ''lecture'']\<rparr>)) = Inr 0 \<and>
   (\<exists>w' rest. fetch_all demo_env (demo_video_link\<lparr>tags := [''video'', ''lecture'']\<rparr>) (init_world []) = Inr w' \<and>
      calls w' = [video_command demo_env (demo_video_link\<lparr>tags := [''video'', ''lecture'']\<rparr>)] \<and>
      log w' = [''[shaarchiver] Force downloading page for http://example.org/v'' @ [LF]] @ rest)"
  using forced_page_and_video_both_run [of "demo_video_link\<lparr>tags := [''video'', ''lecture'']\<rparr>" demo_env 0 "init_world []"]
  by (simp add: model_simps config_defs)


subsection \<open>Properties of the page action\<close>

text \<open>
  C13: a magnet link whose hash is found, whose file can be created and whose URI is
  ASCII is saved at the resolved path of \<open><dest>/<hash>.magnet\<close>, holding the full
  URI; no other file changes, no external command runs, and the save is printed but not
  written to the run log.
\<close>

theorem download_page_saves_magnet:
  assumes "is_magnet l" and "magnet_search (href l) = Some h"
    and "open_path (dirtree E) (cwd E) (magnet_path E h) = Inr p" and "py_ascii (href l)"
  shows "\<exists>w'. download_page E l w = Inr w' \<and> p = abs_path (cwd E) (magnet_path E h)
           \<and> files w' = (files w)(p \<mapsto> href l) \<and> calls w' = calls w \<and> log w' = log w"
  using assms open_path_Inr [OF assms(3)] by (simp add: download_page_def save_magnet_def)

theorem download_page_saves_magnet_witness:
  "is_magnet (demo_video_link\<lparr>href := ''magnet:?xt=urn:btih:ABCD1234&dn=test'', is_magnet := True\<rparr>) \<and>
   magnet_search (href (demo_video_link\<lparr>href := ''magnet:?xt=urn:btih:ABCD1234&dn=test'', is_magnet := True\<rparr>)) = Some ''ABCD1234'' \<and>
   open_path (dirtree demo_env) (cwd demo_env) (magnet_path demo_env ''ABCD1234'') = Inr [''srv'', ''bk'', ''ABCD1234.magnet''] \<and>
   py_ascii (href (demo_video_link\<lparr>href := ''magnet:?xt=urn:btih:ABCD1234&dn=test'', is_magnet := True\<rparr>)) \<and>
   (\<exists>w'. download_page demo_env (demo_video_link\<lparr>href := ''magnet:?xt=urn:btih:ABCD1234&dn=test'', is_magnet := True\<rparr>) (init_world []) = Inr w' \<and>
      [''srv'', ''bk'', ''ABCD1234.magnet''] = abs_path (cwd demo_env) (magnet_path demo_env ''ABCD1234'') \<and>
      files w' = Map.empty([''srv'', ''bk'', ''ABCD1234.magnet''] \<mapsto> ''magnet:?xt=urn:btih:ABCD1234&dn=test'') \<and>
      calls w' = [] \<and> log w' = [])"
  using download_page_saves_magnet [of "demo_video_link\<lparr>href := ''magnet:?xt=urn:btih:ABCD1234&dn=test'', is_magnet := True\<rparr>"
      "''ABCD1234''" demo_env "[''srv'', ''bk'', ''ABCD1234.magnet'']" "init_world []"]
  by (simp add: model_simps)

text \<open>
  C18: a magnet whose greedy hash contains \<open>/\<close> ends the link's processing with
  \<open>IOError\<close>. The regex takes everything after the last colon of the URI, so a tracker
  parameter with a port (\<open>tr=udp://host:1337/announce\<close>) gives the hash
  \<open>1337/announce\<close>, and \<open>open\<close> is asked for a file in a subdirectory \<open>1337\<close> of the
  destination that does not exist. Nothing is written, and the video and audio actions
  of the link do not run.
\<close>

theorem magnet_into_missing_dir_raises:
  assumes "is_magnet l" and "magnet_search (href l) = Some (a @ CHR ''/'' # b)"
    and "CHR ''/'' \<notin> set a" and "a \<notin> set ['''', ''.'', ''..'']"
    and "''..'' \<notin> set (py_split (CHR ''/'') b)"
    and "dest E \<noteq> []" and "dirs_wf (dirtree E)" and "abs_path (cwd E) (dest E) @ [a] \<notin> dirtree E"
  shows "fetch_all E l w =
           Inl (IOError, print_msg (''[shaarchiver] Link is a magnet. Saving it to '' @ a @ CHR ''/'' # b @ ''.magnet'') w)"
proof -
  have "open_path (dirtree E) (cwd E) (magnet_path E (a @ CHR ''/'' # b)) = Inl IOError"
    using open_path_missing_dir [OF assms(6,7,8,3,4,5), of "''.magnet''"]
    by (simp add: magnet_path_def)
  with assms(1,2) show ?thesis
    by (simp add: fetch_all_def download_page_def save_magnet_def)
qed

theorem magnet_into_missing_dir_raises_witness:
  "is_magnet (demo_video_link\<lparr>href := ''magnet:?xt=urn:btih:ABCD1234&tr=udp://t.example.org:1337/announce'', is_magnet := True\<rparr>) \<and>
   magnet_search (href (demo_video_link\<lparr>href := ''magnet:?xt=urn:btih:ABCD1234&tr=udp://t.example.org:1337/announce'', is_magnet := True\<rparr>)) =
     Some (''1337'' @ CHR ''/'' # ''announce'') \<and>
   CHR ''/'' \<notin> set ''1337'' \<and> ''1337'' \<notin> set ['''', ''.'', ''..''] \<and> ''..'' \<notin> set (py_split (CHR ''/'') ''announce'') \<and>
   dest demo_env \<noteq> [] \<and> dirs_wf (dirtree demo_env) \<and> abs_path (cwd demo_env) (dest demo_env) @ [''1337''] \<notin> dirtree demo_env \<and>
   fetch_all demo_env (demo_video_link\<lparr>href := ''magnet:?xt=urn:btih:ABCD1234&tr=udp://t.example.org:1337/announce'', is_magnet := True\<rparr>) (init_world []) =
     Inl (IOError, print_msg (''[shaarchiver] Link is a magnet. Saving it to '' @ ''1337'' @ CHR ''/'' # ''announce'' @ ''.magnet'') (init_world []))"
  using magnet_into_missing_dir_raises [of "demo_video_link\<lparr>href := ''magnet:?xt=urn:btih:ABCD1234&tr=udp://t.example.org:1337/announce'', is_magnet := True\<rparr>"
      "''1337''" "''announce''" demo_env "init_world []"]
  by (simp add: model_simps dirs_wf_def)

text \<open>
  C21: a magnet whose URI holds a non-ASCII character ends the link's processing with
  \<open>UnicodeEncodeError\<close>: the file is created by \<open>open(..., "w+")\<close> but the
  \<open>write\<close> of the \<open>unicode\<close> URI fails, so an empty \<open><hash>.magnet\<close> is left behind,
  the ledger is unchanged and no command runs.
\<close>

theorem magnet_non_ascii_raises:
  assumes "is_magnet l" and "magnet_search (href l) = Some h"
    and "open_path (dirtree E) (cwd E) (magnet_path E h) = Inr p" and "\<not> py_ascii (href l)"
  shows "\<exists>w'. fetch_all E l w = Inl (UnicodeEncodeError, w') \<and> files w' = (files w)(p \<mapsto> [])
           \<and> calls w' = calls w \<and> done_log w' = done_log w"
  using assms by (simp add: fetch_all_def download_page_def save_magnet_def)

theorem magnet_non_ascii_raises_witness:
  "is_magnet (demo_video_link\<lparr>href := ''magnet:?xt=urn:btih:ABCD1234&dn=caf'' @ [Char True False False True False True True True], is_magnet := True\<rparr>) \<and>
   magnet_search (href (demo_video_link\<lparr>href := ''magnet:?xt=urn:btih:ABCD1234&dn=caf'' @ [Char True False False True False True True True], is_magnet := True\<rparr>)) = Some ''ABCD1234'' \<and>
   open_path (dirtree demo_env) (cwd demo_env) (magnet_path demo_env ''ABCD1234'') = Inr [''srv'', ''bk'', ''ABCD1234.magnet''] \<and>
   \<not> py_ascii (href (demo_video_link\<lparr>href := ''magnet:?xt=urn:btih:ABCD1234&dn=caf'' @ [Char True False False True False True True True], is_magnet := True\<rparr>)) \<and>
   (\<exists>w'. fetch_all demo_env (demo_video_link\<lparr>href := ''magnet:?xt=urn:btih:ABCD1234&dn=caf'' @ [Char True False False True False True True True], is_magnet := True\<rparr>) (init_world []) = Inl (UnicodeEncodeError, w') \<and>
      files w' = Map.empty([''srv'', ''bk'', ''ABCD1234.magnet''] \<mapsto> []) \<and> calls w' = [] \<and> done_log w' = [])"
  using magnet_non_ascii_raises [of "demo_video_link\<lparr>href := ''magnet:?xt=urn:btih:ABCD1234&dn=caf'' @ [Char True False False True False True True True], is_magnet := True\<rparr>"
      "''ABCD1234''" demo_env "[''srv'', ''bk'', ''ABCD1234.magnet'']" "init_world []"]
  by (simp add: model_simps)

text \<open>
  C15: a magnet link from which no hash can be read does not fail softly: after printing
  and logging that no hash was found, the script indexes the empty match list and raises
  \<open>IndexError\<close>, so the link's video and audio actions do not run either.
\<close>

theorem fetch_all_magnet_no_hash:
  assumes "is_magnet l" and "magnet_search (href l) = None"
  shows "fetch_all E l w = Inl (IndexError,
           say ''[shaarchiver] Link appears to be a magnet, but no hash could be found. Not saving it'' w)"
  using assms by (simp add: fetch_all_def download_page_no_hash)

theorem fetch_all_magnet_no_hash_witness:
  "is_magnet (demo_video_link\<lparr>href := ''magnet:?dn=nohash'', is_magnet := True\<rparr>) \<and> magnet_search (href (demo_video_link\<lparr>href := ''magnet:?dn=nohash'', is_magnet := True\<rparr>)) = None \<and>
   fetch_all demo_env (demo_video_link\<lparr>href := ''magnet:?dn=nohash'', is_magnet := True\<rparr>) (init_world []) = Inl (IndexError,
     say ''[shaarchiver] Link appears to be a magnet, but no hash could be found. Not saving it'' (init_world []))"
  using fetch_all_magnet_no_hash [of "demo_video_link\<lparr>href := ''magnet:?dn=nohash'', is_magnet := True\<rparr>" demo_env "init_world []"]
  by (simp add: model_simps)

end
