(* ===== verification/Report.thy ===== *)
theory Report
  imports World Link
begin

text \<open>
  The markdown summary \<open>gen_markdown\<close> (lines 266--279): one list item per link with
  its title, address and tags, the description in a code block when it is not empty, and
  a line in the run log. Python's \<open>str(link.tags)\<close> prints the list of \<open>unicode\<close>
  tags (\<open>py_repr_ulist\<close>).
\<close>

abbreviation BQ :: char where "BQ \<equiv> CHR 0x60"

definition md_tags :: "string list \<Rightarrow> string" where
  "md_tags ts = (if 0 < length ts then '' @'' else []) @ py_join '' @'' ts"

definition md_line :: "link \<Rightarrow> string" where
  "md_line l = '' * ['' @ title l @ ''](''  @ href l @ '')'' @ [BQ] @ md_tags (tags l) @ [BQ, LF]"

definition md_desc :: "link \<Rightarrow> string" where
  "md_desc l = [BQ, BQ, BQ, LF] @ description l @ [BQ, BQ, BQ, LF]"

definition md_write :: "string \<Rightarrow> world \<Rightarrow> world" where
  "md_write s w = w\<lparr>md := md w @ [s]\<rparr>"

definition gen_markdown :: "link \<Rightarrow> world \<Rightarrow> world" where
  "gen_markdown l w =
     (let w1 = md_write (md_line l) w;
          w2 = (if description l \<noteq> [] then md_write (md_desc l) w1 else w1)
      in log_write (''markdown generated for '' @ href l @ py_repr_ulist (tags l) @ [LF]) w2)"

lemma gen_markdown_frame:
  "calls (gen_markdown l w) = calls w \<and> done_log (gen_markdown l w) = done_log w
   \<and> files (gen_markdown l w) = files w \<and> stdout (gen_markdown l w) = stdout w"
  by (simp add: gen_markdown_def md_write_def Let_def)

lemma gen_markdown_md:
  "md (gen_markdown l w) = md w @ [md_line l] @ (if description l \<noteq> [] then [md_desc l] else [])"
  by (simp add: gen_markdown_def md_write_def Let_def)


lemmas report_eval [model_simps] = gen_markdown_def md_write_def md_line_def md_tags_def md_desc_def

end
