(* ===== verification/Ledger.thy ===== *)
theory Ledger
  imports World
begin

text \<open>
  The run ledger \<open>done.log\<close>. At start-up the script reads it with the \<open>codecs\<close>
  reader's \<open>readlines()\<close> and deletes every \<open>\n\<close> of each line (lines 366--368);
  during the run each successful media fetch appends \<open>url + "\n"\<close> (lines 229, 256;
  \<open>done_write\<close> of the world). \<open>load_ledger\<close> is the read; the lemmas show that reading
  back what the run appended gives the URLs appended, in order, as long as the file
  ended with a newline and no URL holds a line break.
\<close>

definition load_ledger :: "string \<Rightarrow> string list" where
  "load_ledger contents = map (filter (\<lambda>c. c \<noteq> LF)) (splitlines contents)"

definition ledger_wf :: "string \<Rightarrow> bool" where
  "ledger_wf s \<longleftrightarrow> s = [] \<or> last s = LF"

definition ledger_text :: "string list \<Rightarrow> string" where
  "ledger_text us = concat (map (\<lambda>u. u @ [LF]) us)"

text \<open>
  How a run may change the ledger: it only appends lines, each the URL of a link of the
  run (\<open>ledger_grows\<close>), and a fetched link's URL is among them
  (\<open>ledger_gains\<close>).
\<close>

definition ledger_grows :: "world \<Rightarrow> world \<Rightarrow> string set \<Rightarrow> bool" where
  "ledger_grows w w' U \<longleftrightarrow> (\<exists>us. done_log w' = done_log w @ ledger_text us \<and> set us \<subseteq> U)"

definition ledger_gains :: "world \<Rightarrow> world \<Rightarrow> string \<Rightarrow> string set \<Rightarrow> bool" where
  "ledger_gains w w' u U \<longleftrightarrow> (\<exists>us. done_log w' = done_log w @ ledger_text us \<and> u \<in> set us \<and> set us \<subseteq> U)"

subsection \<open>Splitting a concatenation\<close>

lemma splitlines_from_append:
  "cs \<noteq> [] \<Longrightarrow> last cs = LF \<Longrightarrow>
   splitlines_from cur (cs @ E) = splitlines_from cur cs @ splitlines_from [] E"
proof (induction cur cs rule: splitlines_from.induct)
  case (1 cur)
  then show ?case by simp
next
  case (2 cur c cs)
  show ?case
  proof (cases "is_line_break c")
    case brk: True
    show ?thesis
    proof (cases "c = CR \<and> cs \<noteq> [] \<and> hd cs = LF")
      case crlf: True
      then obtain cs' where cs: "cs = LF # cs'" by (cases cs) auto
      show ?thesis
      proof (cases "cs' = []")
        case True
        with brk crlf cs show ?thesis by simp
      next
        case False
        with "2.prems" cs have "last cs' = LF" by simp
        with "2.IH"(1) brk crlf cs False show ?thesis by simp
      qed
    next
      case nocrlf: False
      show ?thesis
      proof (cases "cs = []")
        case True
        with brk nocrlf "2.prems" show ?thesis by simp
      next
        case False
        with "2.prems" have "last cs = LF" by simp
        with "2.IH"(2) brk nocrlf False show ?thesis by auto
      qed
    qed
  next
    case nobrk: False
    with "2.prems" have "cs \<noteq> []" and "last cs = LF" by (auto split: if_splits)
    with "2.IH"(3) nobrk show ?thesis by simp
  qed
qed

lemma splitlines_append:
  "ledger_wf D \<Longrightarrow> splitlines (D @ E) = splitlines D @ splitlines E"
  by (cases "D = []") (auto simp: ledger_wf_def splitlines_def splitlines_from_append)

lemma no_line_break_no_LF: "no_line_break u \<Longrightarrow> filter (\<lambda>c. c \<noteq> LF) u = u"
  by (induction u) (auto simp: no_line_break_def)

lemma load_ledger_line:
  "no_line_break u \<Longrightarrow> load_ledger (u @ [LF]) = [u]"
proof -
  assume u: "no_line_break u"
  have "splitlines (u @ LF # []) = (u @ [LF]) # splitlines []"
    using u by (rule splitlines_append_line)
  with u show ?thesis by (simp add: load_ledger_def splitlines_def no_line_break_no_LF)
qed

lemma ledger_wf_append_line [simp]: "ledger_wf (D @ u @ [LF])"
  by (simp add: ledger_wf_def)

lemma ledger_wf_text: "ledger_wf (ledger_text us)"
  by (induction us) (auto simp: ledger_text_def ledger_wf_def)

lemma ledger_text_append [simp]: "ledger_text (us @ vs) = ledger_text us @ ledger_text vs"
  by (simp add: ledger_text_def)

lemma ledger_text_Cons [simp]: "ledger_text (u # us) = u @ LF # ledger_text us"
  by (simp add: ledger_text_def)

lemma ledger_text_Nil [simp]: "ledger_text [] = []"
  by (simp add: ledger_text_def)

lemma load_ledger_append_text:
  "ledger_wf D \<Longrightarrow> list_all no_line_break us \<Longrightarrow> load_ledger (D @ ledger_text us) = load_ledger D @ us"
proof (induction us arbitrary: D)
  case Nil
  then show ?case by simp
next
  case (Cons u us)
  have wf': "ledger_wf (D @ u @ [LF])" by simp
  have "load_ledger (D @ ledger_text (u # us)) = load_ledger ((D @ u @ [LF]) @ ledger_text us)"
    by simp
  also have "\<dots> = load_ledger (D @ u @ [LF]) @ us"
    using Cons.IH [OF wf'] Cons.prems(2) by simp
  also have "load_ledger (D @ u @ [LF]) = load_ledger D @ [u]"
    using Cons.prems load_ledger_line [of u]
    by (simp add: load_ledger_def splitlines_append)
  finally show ?case by simp
qed

lemma ledger_grows_refl [simp]: "ledger_grows w w U"
  by (auto simp: ledger_grows_def intro: exI [of _ "[]"])

lemma ledger_grows_same: "done_log w' = done_log w \<Longrightarrow> ledger_grows w w' U"
  by (auto simp: ledger_grows_def intro: exI [of _ "[]"])

lemma ledger_grows_trans: "ledger_grows a b U \<Longrightarrow> ledger_grows b c U \<Longrightarrow> ledger_grows a c U"
  unfolding ledger_grows_def by (metis ledger_text_append append.assoc set_append Un_subset_iff)

lemma ledger_grows_mono: "ledger_grows w w' U \<Longrightarrow> U \<subseteq> V \<Longrightarrow> ledger_grows w w' V"
  by (auto simp: ledger_grows_def)

lemma ledger_grows_done_write: "ledger_grows w (done_write u w) {u}"
  by (auto simp: ledger_grows_def intro!: exI [of _ "[u]"])

lemma ledger_gains_write_after:
  "done_log w1 = done_log w \<Longrightarrow> ledger_gains w (done_write u w1) u {u}"
  by (auto simp: ledger_gains_def intro!: exI [of _ "[u]"])

lemma ledger_gains_grows: "ledger_gains a b u U \<Longrightarrow> ledger_grows b c U \<Longrightarrow> ledger_gains a c u U"
  unfolding ledger_gains_def ledger_grows_def
  by (metis (no_types, lifting) Un_iff Un_subset_iff append.assoc ledger_text_append set_append)

lemma ledger_grows_gains: "ledger_grows a b U \<Longrightarrow> ledger_gains b c u U \<Longrightarrow> ledger_gains a c u U"
  unfolding ledger_gains_def ledger_grows_def
  by (metis (no_types, lifting) Un_iff Un_subset_iff append.assoc ledger_text_append set_append)

lemma ledger_gains_mono: "ledger_gains w w' u U \<Longrightarrow> U \<subseteq> V \<Longrightarrow> ledger_gains w w' u V"
  by (auto simp: ledger_gains_def)

text \<open>What the next run loads from a ledger that gained \<open>u\<close> holds \<open>u\<close>.\<close>

lemma ledger_gains_load:
  assumes "ledger_gains w w' u U" and "ledger_wf (done_log w)" and "\<forall>v\<in>U. no_line_break v"
  shows "u \<in> set (load_ledger (done_log w'))"
proof -
  from assms(1) obtain us where d: "done_log w' = done_log w @ ledger_text us"
    and u: "u \<in> set us" and U: "set us \<subseteq> U"
    by (auto simp: ledger_gains_def)
  from U assms(3) have "list_all no_line_break us" by (auto simp: list_all_iff)
  with assms(2) d have "load_ledger (done_log w') = load_ledger (done_log w) @ us"
    by (simp add: load_ledger_append_text)
  with u show ?thesis by simp
qed

lemma ledger_wf_append: "ledger_wf a \<Longrightarrow> ledger_wf b \<Longrightarrow> ledger_wf (a @ b)"
  by (cases "b = []") (auto simp: ledger_wf_def last_append)

lemma ledger_grows_wf: "ledger_grows w w' U \<Longrightarrow> ledger_wf (done_log w) \<Longrightarrow> ledger_wf (done_log w')"
  by (auto simp: ledger_grows_def intro!: ledger_wf_append ledger_wf_text)

lemma ledger_wf_done_write [simp]: "ledger_wf (done_log (done_write u w))"
  by simp


lemmas ledger_eval [model_simps] = load_ledger_def splitlines_def is_line_break_def no_line_break_def
  ledger_wf_def ledger_text_def


subsection \<open>Properties of the ledger\<close>

text \<open>
  C6: what the script appends for a list of URLs, one \<open>url + "\n"\<close> each, is read
  back at the next start-up as exactly that list, in order, provided no URL holds a
  line break.
\<close>

theorem load_ledger_roundtrip:
  assumes "list_all no_line_break us"
  shows "load_ledger (ledger_text us) = us"
  using load_ledger_append_text [of "[]" us] assms by (simp add: ledger_wf_def load_ledger_def splitlines_def)

theorem load_ledger_roundtrip_witness:
  "list_all no_line_break [''http://a.example/x'', ''magnet:?xt=urn:btih:AB''] \<and>
   load_ledger (ledger_text [''http://a.example/x'', ''magnet:?xt=urn:btih:AB''])
     = [''http://a.example/x'', ''magnet:?xt=urn:btih:AB'']"
  using load_ledger_roundtrip [of "[''http://a.example/x'', ''magnet:?xt=urn:btih:AB'']"]
  by (simp add: no_line_break_def is_line_break_def)

end
