(* ===== verification/Orchestrator.thy ===== *)
theory Orchestrator
  imports Gate Fetch Report Ledger
begin

text \<open>
  The main loop (lines 386--404): for each parsed link, the date filter, the gate, the
  three fetch actions when the gate allows them, and the markdown line. An exception of
  one link ends the run (\<open>run_links\<close> stops at the first \<open>Inl\<close>), with the state at
  that point.

  The date filter reads \<open>link.get("add_date")\<close>, but a \<open>Link\<close> is a
  \<open>namedtuple\<close>, which has no \<open>get\<close>: the attribute lookup raises
  \<open>AttributeError\<close> before \<open>float\<close> and \<open>date.fromtimestamp\<close> are called.
  \<open>link_get_date\<close> is that expression.
\<close>

definition link_get_date :: "link \<Rightarrow> py_error + date" where
  "link_get_date l = Inl AttributeError"

definition date_filter :: "env \<Rightarrow> link \<Rightarrow> py_error + bool" where
  "date_filter E l =
     (if should_compare_dates (opts E) then
        ebind (link_get_date l) (\<lambda>linkdate. Inr (date_in_range (min_date E) (max_date E) linkdate))
      else Inr True)"

text \<open>Lines 403--404.\<close>

definition report_step :: "env \<Rightarrow> link \<Rightarrow> world \<Rightarrow> world" where
  "report_step E l w = (if truthy (markdown (opts E)) then gen_markdown l w else w)"

definition process_link :: "env \<Rightarrow> link \<Rightarrow> world \<Rightarrow> outcome" where
  "process_link E l w =
     (case date_filter E l of
        Inl err \<Rightarrow> Inl (err, w)
      | Inr False \<Rightarrow> Inr w
      | Inr True \<Rightarrow>
          (let (ok, w1) = check_dl E (tags l) (href l) w in
           seq_w (if ok then fetch_all E l w1 else Inr w1)
             (\<lambda>w2. Inr (report_step E l w2))))"

text \<open>
  A link whose fetch succeeds: its video action runs and exits with 0, or its audio
  action does.
\<close>

definition fetch_succeeds :: "env \<Rightarrow> link \<Rightarrow> bool" where
  "fetch_succeeds E l \<longleftrightarrow>
     (match_list (tags l) (download_video_for (conf E)) \<and> ytdl E (video_command E l) = Inr 0)
   \<or> (match_list (tags l) (download_audio_for (conf E)) \<and> ytdl E (audio_command E l) = Inr 0)"

text \<open>
  The commands a link should cause, as the spec describes the gate and the classifier:
  none when the gate refuses it, otherwise the video command if it is tagged for video
  and the audio command if it is tagged for audio, in that order.
\<close>

definition planned_calls :: "env \<Rightarrow> link \<Rightarrow> string list list" where
  "planned_calls E l =
     (if dl_block E (tags l) (href l) = None then
        (if match_list (tags l) (download_video_for (conf E)) then [video_command E l] else []) @
        (if match_list (tags l) (download_audio_for (conf E)) then [audio_command E l] else [])
      else [])"

fun run_links :: "env \<Rightarrow> link list \<Rightarrow> world \<Rightarrow> outcome" where
  "run_links E [] w = Inr w"
| "run_links E (l # ls) w = seq_w (process_link E l w) (run_links E ls)"


subsection \<open>The shape of one iteration\<close>

lemma process_link_dates:
  "should_compare_dates (opts E) \<Longrightarrow> process_link E l w = Inl (AttributeError, w)"
  by (simp add: process_link_def date_filter_def link_get_date_def)

lemma process_link_refused:
  "\<not> should_compare_dates (opts E) \<Longrightarrow> dl_block E (tags l) (href l) = Some r \<Longrightarrow>
   process_link E l w = Inr (report_step E l (say (skip_msg E (href l) r) w))"
  by (simp add: process_link_def date_filter_def check_dl_def)

lemma process_link_allowed:
  "\<not> should_compare_dates (opts E) \<Longrightarrow> dl_block E (tags l) (href l) = None \<Longrightarrow>
   process_link E l w = seq_w (fetch_all E l w) (\<lambda>w2. Inr (report_step E l w2))"
  by (simp add: process_link_def date_filter_def check_dl_def)

lemma report_step_frame:
  "calls (report_step E l w) = calls w \<and> done_log (report_step E l w) = done_log w \<and>
   files (report_step E l w) = files w"
  by (simp add: report_step_def gen_markdown_frame)

lemma run_links_append:
  "run_links E (xs @ ys) w = seq_w (run_links E xs w) (run_links E ys)"
  by (induction xs arbitrary: w) (auto simp: seq_w_def split: sum.splits)

subsection \<open>How a run changes the ledger\<close>

lemma run_tool_grows: "ledger_grows w (final (run_tool E u cmd w)) {u}"
proof -
  have af: "ledger_grows w1 (after_fetch E u rc w1) {u}" for w1 rc
  proof (cases "rc = 0 \<and> \<not> no_skip (opts E)")
    case True
    then show ?thesis using ledger_grows_done_write [of w1 u] by (simp add: after_fetch_def)
  next
    case False
    then show ?thesis by (intro ledger_grows_same) (auto simp: after_fetch_done_log)
  qed
  have rc: "ledger_grows w (record_call cmd w) {u}"
    by (rule ledger_grows_same) simp
  show ?thesis
  proof (cases "ytdl E cmd")
    case (Inl err)
    then show ?thesis using rc by (simp add: run_tool_def)
  next
    case (Inr n)
    then show ?thesis using ledger_grows_trans [OF rc af [of "record_call cmd w" n]]
      by (simp add: run_tool_def)
  qed
qed

lemma download_page_grows: "ledger_grows w (final (download_page E l w)) U"
proof (rule ledger_grows_same)
  show "done_log (final (download_page E l w)) = done_log w"
    using download_page_frame [of E l w] by (cases "download_page E l w") auto
qed

lemma download_video_grows: "ledger_grows w (final (download_video E l w)) {href l}"
  unfolding download_video_def
  by (auto intro: ledger_grows_trans [OF ledger_grows_same run_tool_grows])

lemma download_audio_grows: "ledger_grows w (final (download_audio E l w)) {href l}"
  unfolding download_audio_def
  by (auto intro: ledger_grows_trans [OF ledger_grows_same run_tool_grows])

lemma fetch_all_grows: "ledger_grows w (final (fetch_all E l w)) {href l}"
  unfolding fetch_all_def
  by (intro final_seq_w_rel [where R = "\<lambda>a b. ledger_grows a b {href l}"])
     (auto intro: ledger_grows_trans download_page_grows download_video_grows download_audio_grows)

text \<open>A link changes the ledger only when the gate lets it through.\<close>

lemma process_link_grows_allowed:
  "ledger_grows w (final (process_link E l w)) (if dl_block E (tags l) (href l) = None then {href l} else {})"
proof (cases "should_compare_dates (opts E)")
  case True
  then show ?thesis by (simp add: process_link_dates)
next
  case nodates: False
  show ?thesis
  proof (cases "dl_block E (tags l) (href l)")
    case (Some r)
    with nodates show ?thesis
      by (simp add: process_link_refused ledger_grows_same report_step_frame)
  next
    case None
    have "ledger_grows w (final (process_link E l w)) {href l}"
      unfolding process_link_allowed [OF nodates None]
      by (intro final_seq_w_rel [where R = "\<lambda>a b. ledger_grows a b {href l}"])
         (auto intro: ledger_grows_trans fetch_all_grows ledger_grows_same simp: report_step_frame)
    with None show ?thesis by simp
  qed
qed

lemma process_link_grows: "ledger_grows w (final (process_link E l w)) {href l}"
  by (rule ledger_grows_mono [OF process_link_grows_allowed]) simp

text \<open>What each iteration may append, the run may append.\<close>

lemma run_links_grows_by:
  assumes "\<And>l w. l \<in> set ls \<Longrightarrow> ledger_grows w (final (process_link E l w)) (U l)"
  shows "ledger_grows w (final (run_links E ls w)) (\<Union>l\<in>set ls. U l)"
  using assms
proof (induction ls arbitrary: w)
  case Nil
  then show ?case by simp
next
  case (Cons l ls)
  show ?case
    unfolding run_links.simps
  proof (rule final_seq_w_rel [where R = "\<lambda>a b. ledger_grows a b (\<Union>x\<in>set (l # ls). U x)"])
    show "ledger_grows w (final (process_link E l w)) (\<Union>x\<in>set (l # ls). U x)"
      using Cons.prems [of l w] by (auto elim: ledger_grows_mono)
    fix w1
    have "ledger_grows w1 (final (run_links E ls w1)) (\<Union>x\<in>set ls. U x)"
      using Cons.prems by (intro Cons.IH) auto
    then show "ledger_grows w1 (final (run_links E ls w1)) (\<Union>x\<in>set (l # ls). U x)"
      by (auto elim: ledger_grows_mono)
  qed (rule ledger_grows_trans)
qed

lemma run_links_grows: "ledger_grows w (final (run_links E ls w)) (href ` set ls)"
proof -
  have "(\<Union>l\<in>set ls. {href l}) = href ` set ls" by auto
  with run_links_grows_by [of ls E "\<lambda>l. {href l}" w] process_link_grows show ?thesis by simp
qed

subsection \<open>How many commands a run executes\<close>

lemma run_tool_calls_within: "calls_within 1 w (final (run_tool E u cmd w))"
  by (auto simp: run_tool_def Let_def calls_within_def split: sum.splits)

lemma download_page_calls_within: "calls_within 0 w (final (download_page E l w))"
  using download_page_frame [of E l w] by (cases "download_page E l w") (auto intro: calls_within_same)

lemma download_video_calls_within: "calls_within 1 w (final (download_video E l w))"
proof -
  have "calls_within 1 w (final (run_tool E u c (say m w)))" for u c m
    using calls_within_trans [OF calls_within_same [of "say m w" w 0] run_tool_calls_within] by simp
  then show ?thesis by (simp del: say_def add: download_video_def calls_within_same)
qed

lemma download_audio_calls_within: "calls_within 1 w (final (download_audio E l w))"
proof -
  have "calls_within 1 w (final (run_tool E u c (say m w)))" for u c m
    using calls_within_trans [OF calls_within_same [of "say m w" w 0] run_tool_calls_within] by simp
  then show ?thesis by (simp del: say_def add: download_audio_def calls_within_same)
qed

lemma fetch_all_calls_within: "calls_within 2 w (final (fetch_all E l w))"
proof -
  have "calls_within (0 + (1 + 1)) w (final (fetch_all E l w))"
    unfolding fetch_all_def
    by (intro final_seq_w_calls download_page_calls_within download_video_calls_within
        download_audio_calls_within)
  then show ?thesis by (simp only: add_0 one_add_one)
qed

lemma process_link_calls_within: "calls_within 2 w (final (process_link E l w))"
proof (cases "should_compare_dates (opts E)")
  case True
  then show ?thesis by (simp add: process_link_dates calls_within_same)
next
  case nodates: False
  show ?thesis
  proof (cases "dl_block E (tags l) (href l)")
    case (Some r)
    with nodates show ?thesis
      by (simp add: process_link_refused calls_within_same report_step_frame)
  next
    case None
    have "calls_within (2 + 0) w (final (seq_w (fetch_all E l w) (\<lambda>w2. Inr (report_step E l w2))))"
      by (rule final_seq_w_calls [OF fetch_all_calls_within]) (simp add: calls_within_same report_step_frame)
    with nodates None show ?thesis by (simp add: process_link_allowed)
  qed
qed

lemma run_links_calls_within: "calls_within (2 * length ls) w (final (run_links E ls w))"
proof (induction ls arbitrary: w)
  case Nil
  then show ?case by (simp add: calls_within_same)
next
  case (Cons l ls)
  have "calls_within (2 + 2 * length ls) w (final (seq_w (process_link E l w) (run_links E ls)))"
    by (intro final_seq_w_calls process_link_calls_within Cons.IH)
  then show ?case by simp
qed

subsection \<open>The outputs only grow\<close>

lemma outputs_grow_gen_markdown: "outputs_grow w (gen_markdown l w)"
  by (simp add: gen_markdown_def Let_def md_write_def outputs_grow_def)

lemma outputs_grow_report_step: "outputs_grow w (report_step E l w)"
  by (simp add: report_step_def outputs_grow_gen_markdown)

lemma outputs_grow_check_dl: "outputs_grow w (snd (check_dl E ts u w))"
  by (simp add: check_dl_def outputs_grow_def split: option.splits)

lemma outputs_grow_download_page: "outputs_grow w (final (download_page E l w))"
  by (auto simp: download_page_def save_magnet_def Let_def outputs_grow_def split: option.splits sum.splits)

lemma outputs_grow_after_fetch: "outputs_grow w w1 \<Longrightarrow> outputs_grow w (after_fetch E u rc w1)"
  by (auto simp: after_fetch_def intro: outputs_grow_trans)

lemma outputs_grow_run_tool: "outputs_grow w w1 \<Longrightarrow> outputs_grow w (final (run_tool E u c w1))"
  by (auto simp: run_tool_def Let_def split: sum.splits
      intro: outputs_grow_trans outputs_grow_after_fetch [OF outputs_grow_trans])

lemma outputs_grow_download_video: "outputs_grow w (final (download_video E l w))"
  by (auto simp: download_video_def intro: outputs_grow_run_tool)

lemma outputs_grow_download_audio: "outputs_grow w (final (download_audio E l w))"
  by (auto simp: download_audio_def intro: outputs_grow_run_tool)

lemma outputs_grow_fetch_all: "outputs_grow w (final (fetch_all E l w))"
  unfolding fetch_all_def
  by (intro outputs_grow_seq outputs_grow_download_page outputs_grow_download_video outputs_grow_download_audio)

lemma outputs_grow_process_link: "outputs_grow w (final (process_link E l w))"
proof -
  obtain ok w1 where c: "check_dl E (tags l) (href l) w = (ok, w1)" by (cases "check_dl E (tags l) (href l) w")
  have g1: "outputs_grow w w1" using outputs_grow_check_dl [of w E "tags l" "href l"] c by simp
  have "outputs_grow w (final (seq_w (if ok then fetch_all E l w1 else Inr w1) (\<lambda>w2. Inr (report_step E l w2))))"
    by (intro outputs_grow_seq)
       (auto intro: outputs_grow_trans [OF g1] outputs_grow_trans [OF g1 outputs_grow_fetch_all]
          outputs_grow_report_step)
  then show ?thesis
    by (auto simp: process_link_def c split: sum.splits bool.splits)
qed

lemma outputs_grow_run_links: "outputs_grow w (final (run_links E ls w))"
  by (induction ls arbitrary: w) (auto intro: outputs_grow_seq outputs_grow_process_link)

subsection \<open>A successful fetch is recorded\<close>

lemma run_tool_success_gains:
  "ytdl E cmd = Inr 0 \<Longrightarrow> \<not> no_skip (opts E) \<Longrightarrow> ledger_gains w (final (run_tool E u cmd w)) u {u}"
  using ledger_gains_write_after [of "record_call cmd w" w u]
  by (simp add: run_tool_def after_fetch_def)

lemma download_video_success_gains:
  "match_list (tags l) (download_video_for (conf E)) \<Longrightarrow> ytdl E (video_command E l) = Inr 0 \<Longrightarrow>
   \<not> no_skip (opts E) \<Longrightarrow> ledger_gains w (final (download_video E l w)) (href l) {href l}"
  using ledger_grows_gains [OF ledger_grows_same run_tool_success_gains, of _ w]
  by (simp add: download_video_def)

lemma download_audio_success_gains:
  "match_list (tags l) (download_audio_for (conf E)) \<Longrightarrow> ytdl E (audio_command E l) = Inr 0 \<Longrightarrow>
   \<not> no_skip (opts E) \<Longrightarrow> ledger_gains w (final (download_audio E l w)) (href l) {href l}"
  using ledger_grows_gains [OF ledger_grows_same run_tool_success_gains, of _ w]
  by (simp add: download_audio_def)

lemma fetch_all_gains:
  assumes ok: "fetch_succeeds E l" and keep: "\<not> no_skip (opts E)" and r: "fetch_all E l w = Inr w'"
  shows "ledger_gains w w' (href l) {href l}"
proof -
  from r obtain w1 w2 where p: "download_page E l w = Inr w1" and v: "download_video E l w1 = Inr w2"
    and a: "download_audio E l w2 = Inr w'"
    by (auto simp: fetch_all_def seq_w_eq_Inr)
  have g1: "ledger_grows w w1 {href l}"
    using download_page_grows [of w E l] p by simp
  have g2: "ledger_grows w1 w2 {href l}"
    using download_video_grows [of w1 E l] v by simp
  have g3: "ledger_grows w2 w' {href l}"
    using download_audio_grows [of w2 E l] a by simp
  from ok show ?thesis
  proof (unfold fetch_succeeds_def, elim disjE conjE)
    assume "match_list (tags l) (download_video_for (conf E))" and "ytdl E (video_command E l) = Inr 0"
    with keep v have "ledger_gains w1 w2 (href l) {href l}"
      using download_video_success_gains [of l E w1] by simp
    with g1 g3 show ?thesis by (blast intro: ledger_grows_gains ledger_gains_grows)
  next
    assume "match_list (tags l) (download_audio_for (conf E))" and "ytdl E (audio_command E l) = Inr 0"
    with keep a have "ledger_gains w2 w' (href l) {href l}"
      using download_audio_success_gains [of l E w2] by simp
    with g1 g2 show ?thesis by (blast intro: ledger_grows_gains ledger_grows_trans)
  qed
qed

lemma process_link_gains:
  assumes "\<not> should_compare_dates (opts E)" and "dl_block E (tags l) (href l) = None"
    and "fetch_succeeds E l" and "\<not> no_skip (opts E)" and "process_link E l w = Inr w'"
  shows "ledger_gains w w' (href l) {href l}"
proof -
  from assms(5) obtain w2 where f: "fetch_all E l w = Inr w2" and w': "w' = report_step E l w2"
    by (auto simp: process_link_allowed [OF assms(1,2)] seq_w_eq_Inr)
  have "ledger_gains w w2 (href l) {href l}" using assms(3,4) f by (rule fetch_all_gains)
  moreover have "ledger_grows w2 w' {href l}" using w' by (simp add: ledger_grows_same report_step_frame)
  ultimately show ?thesis by (rule ledger_gains_grows)
qed

lemma run_links_gains:
  assumes "l \<in> set ls" and "run_links E ls w = Inr w1"
    and "\<not> should_compare_dates (opts E)" and "dl_block E (tags l) (href l) = None"
    and "fetch_succeeds E l" and "\<not> no_skip (opts E)"
  shows "ledger_gains w w1 (href l) (href ` set ls)"
proof -
  from assms(1) obtain xs ys where ls: "ls = xs @ l # ys" by (meson split_list)
  from assms(2) obtain wa wb where ra: "run_links E xs w = Inr wa" and pl: "process_link E l wa = Inr wb"
    and rb: "run_links E ys wb = Inr w1"
    by (auto simp: ls run_links_append seq_w_eq_Inr)
  have "ledger_grows w wa (href ` set ls)"
    using run_links_grows [of w E xs] ra by (auto simp: ls elim: ledger_grows_mono)
  moreover have "ledger_gains wa wb (href l) (href ` set ls)"
    using process_link_gains [OF assms(3-6) pl] by (rule ledger_gains_mono) (simp add: ls)
  moreover have "ledger_grows wb w1 (href ` set ls)"
    using run_links_grows [of wb E ys] rb by (auto simp: ls elim: ledger_grows_mono)
  ultimately show ?thesis by (blast intro: ledger_grows_gains ledger_gains_grows)
qed

subsection \<open>A recorded link is skipped\<close>

lemma process_link_recorded_skip:
  assumes "\<not> should_compare_dates (opts E)" and "href l \<in> set (downloaded_urls E)" and "\<not> no_skip (opts E)"
  shows "\<exists>r. process_link E l w = Inr (report_step E l (say (skip_msg E (href l) r) w))"
proof -
  from dl_block_recorded [OF assms(2,3), where linktags = "tags l"] obtain r where "dl_block E (tags l) (href l) = Some r" by auto
  with assms(1) show ?thesis by (auto simp: process_link_refused)
qed


lemma fetch_all_calls:
  assumes "page_ok E l"
    and "list_all (tool_runs E) (planned_calls E l)" and "dl_block E (tags l) (href l) = None"
  shows "\<exists>w'. fetch_all E l w = Inr w' \<and> calls w' = calls w @ planned_calls E l"
proof -
  from download_page_Inr [OF assms(1)] obtain w1
    where p: "download_page E l w = Inr w1" and c1: "calls w1 = calls w" by blast
  have "match_list (tags l) (download_video_for (conf E)) \<Longrightarrow> tool_runs E (video_command E l)"
    using assms(2,3) by (simp add: planned_calls_def)
  from download_video_calls [OF this, of w1] obtain w2 where v: "download_video E l w1 = Inr w2"
    and c2: "calls w2 = calls w1 @ (if match_list (tags l) (download_video_for (conf E)) then [video_command E l] else [])"
    by blast
  have "match_list (tags l) (download_audio_for (conf E)) \<Longrightarrow> tool_runs E (audio_command E l)"
    using assms(2,3) by (simp add: planned_calls_def)
  from download_audio_calls [OF this, of w2] obtain w3 where a: "download_audio E l w2 = Inr w3"
    and c3: "calls w3 = calls w2 @ (if match_list (tags l) (download_audio_for (conf E)) then [audio_command E l] else [])"
    by blast
  from p v a c1 c2 c3 assms(3) show ?thesis by (simp add: fetch_all_def planned_calls_def)
qed

lemma process_link_calls:
  assumes "\<not> should_compare_dates (opts E)" and "page_ok E l"
    and "list_all (tool_runs E) (planned_calls E l)"
  shows "\<exists>w'. process_link E l w = Inr w' \<and> calls w' = calls w @ planned_calls E l"
proof (cases "dl_block E (tags l) (href l)")
  case None
  from fetch_all_calls [OF assms(2,3) None] obtain w1
    where "fetch_all E l w = Inr w1" and "calls w1 = calls w @ planned_calls E l" by blast
  with assms(1) None show ?thesis by (simp add: process_link_allowed report_step_frame)
next
  case (Some r)
  with assms(1) show ?thesis by (simp add: process_link_refused report_step_frame planned_calls_def)
qed

lemma process_link_md:
  assumes "\<not> should_compare_dates (opts E)" and "process_link E l w = Inr w'"
  shows "\<exists>w1. md w1 = md w \<and> w' = report_step E l w1"
proof (cases "dl_block E (tags l) (href l)")
  case None
  with assms obtain w1 where "fetch_all E l w = Inr w1" and "w' = report_step E l w1"
    by (auto simp: process_link_allowed seq_w_eq_Inr)
  then show ?thesis by (auto dest: fetch_all_md)
next
  case (Some r)
  with assms have "w' = report_step E l (say (skip_msg E (href l) r) w)"
    by (simp add: process_link_refused)
  then show ?thesis by (intro exI [of _ "say (skip_msg E (href l) r) w"]) simp
qed

text \<open>The commands of a run are the planned ones, link by link.\<close>

lemma run_links_plan:
  assumes nodates: "\<not> should_compare_dates (opts E)"
    and pages: "list_all (page_ok E) ls"
    and tools: "list_all (\<lambda>l. list_all (tool_runs E) (planned_calls E l)) ls"
  shows "\<exists>w'. run_links E ls w = Inr w' \<and> calls w' = calls w @ concat (map (planned_calls E) ls)"
  using pages tools
proof (induction ls arbitrary: w)
  case Nil
  then show ?case by simp
next
  case (Cons l ls)
  from process_link_calls [OF nodates, of l w] Cons.prems obtain w1
    where p: "process_link E l w = Inr w1" and c1: "calls w1 = calls w @ planned_calls E l"
    by auto
  from Cons.IH [of w1] Cons.prems obtain w2
    where r: "run_links E ls w1 = Inr w2" and c2: "calls w2 = calls w1 @ concat (map (planned_calls E) ls)"
    by auto
  from p r c1 c2 show ?case by simp
qed

lemmas orchestrator_eval [model_simps] = process_link_def date_filter_def link_get_date_def report_step_def
  fetch_succeeds_def

subsection \<open>Properties of one iteration\<close>

text \<open>
  C4: with \<open>--no-skip\<close> absent and no date bound, a link whose URL is in the ledger
  read at start-up is refused by the gate: processing it runs no external command and
  leaves the ledger and the magnet files as they were.
\<close>

theorem process_link_skips_recorded:
  assumes "\<not> should_compare_dates (opts E)" and "href l \<in> set (downloaded_urls E)"
    and "\<not> no_skip (opts E)"
  shows "\<exists>w'. process_link E l w = Inr w' \<and> calls w' = calls w \<and> done_log w' = done_log w \<and> files w' = files w"
proof -
  from process_link_recorded_skip [OF assms] obtain r
    where "process_link E l w = Inr (report_step E l (say (skip_msg E (href l) r) w))" ..
  then show ?thesis by (simp add: report_step_frame)
qed

theorem process_link_skips_recorded_witness:
  "\<not> should_compare_dates (opts (demo_env\<lparr>downloaded_urls := [''http://example.org/v'']\<rparr>)) \<and>
   href demo_video_link \<in> set (downloaded_urls (demo_env\<lparr>downloaded_urls := [''http://example.org/v'']\<rparr>)) \<and>
   \<not> no_skip (opts (demo_env\<lparr>downloaded_urls := [''http://example.org/v'']\<rparr>)) \<and>
   (\<exists>w'. process_link (demo_env\<lparr>downloaded_urls := [''http://example.org/v'']\<rparr>) demo_video_link
           (init_world []) = Inr w' \<and> calls w' = [] \<and> done_log w' = [] \<and> files w' = Map.empty)"
  using process_link_skips_recorded [of "demo_env\<lparr>downloaded_urls := [''http://example.org/v'']\<rparr>"
      demo_video_link "init_world []"]
  by (simp add: model_simps)


text \<open>
  C17: as soon as \<open>--min-date\<close> or \<open>--max-date\<close> is given, the first link ends
  the run with \<open>AttributeError\<close> (\<open>link.get\<close> on a namedtuple), before anything
  is printed, fetched or recorded for it: the date filter never filters.
\<close>

theorem date_bound_crashes_run:
  assumes "should_compare_dates (opts E)" and "ls \<noteq> []"
  shows "run_links E ls w = Inl (AttributeError, w)"
  using assms by (cases ls) (simp_all add: process_link_dates)

theorem date_bound_crashes_run_witness:
  "should_compare_dates (opts (demo_env\<lparr>opts := (opts demo_env)\<lparr>minimum_date := Some ''01/01/2015''\<rparr>\<rparr>)) \<and> [demo_video_link] \<noteq> [] \<and>
   run_links (demo_env\<lparr>opts := (opts demo_env)\<lparr>minimum_date := Some ''01/01/2015''\<rparr>\<rparr>) [demo_video_link] (init_world []) = Inl (AttributeError, init_world [])"
  using date_bound_crashes_run [of "demo_env\<lparr>opts := (opts demo_env)\<lparr>minimum_date := Some ''01/01/2015''\<rparr>\<rparr>" "[demo_video_link]" "init_world []"]
  by (simp add: model_simps config_defs)


text \<open>
  C22: the markdown report is written although \<open>-m\<close> is not given: \<open>optparse\<close>
  keeps the default \<open>"False"\<close>, a non-empty string and so true for \<open>if\<close>. With
  that default, every link processed without exception adds its markdown line, and its
  description block when it has a description.
\<close>

theorem report_written_by_default:
  assumes "markdown (opts E) = markdown default_options" and "\<not> should_compare_dates (opts E)"
    and "process_link E l w = Inr w'"
  shows "md w' = md w @ [md_line l] @ (if description l \<noteq> [] then [md_desc l] else [])"
proof -
  from process_link_md [OF assms(2,3)] obtain w1 where "md w1 = md w" and "w' = report_step E l w1"
    by blast
  moreover have "truthy (markdown (opts E))" using assms(1) by (simp add: default_options_def)
  ultimately show ?thesis by (simp add: report_step_def gen_markdown_md)
qed

theorem report_written_by_default_witness:
  "markdown (opts demo_env) = markdown default_options \<and> \<not> should_compare_dates (opts demo_env) \<and>
   process_link demo_env demo_video_link (init_world []) =
     Inr (final (process_link demo_env demo_video_link (init_world []))) \<and>
   md (final (process_link demo_env demo_video_link (init_world []))) = md (init_world []) @ [md_line demo_video_link] @
     (if description demo_video_link \<noteq> [] then [md_desc demo_video_link] else [])"
  using report_written_by_default [of demo_env demo_video_link "init_world []"
      "final (process_link demo_env demo_video_link (init_world []))"]
  by (simp add: model_simps repr_defs)

text \<open>
  C27: a run executes at most two external commands per link of the export (one
  \<open>youtube-dl\<close> call for video and one for audio), and only appends them after the
  commands already run, whether it ends normally or by an exception.
\<close>

theorem run_links_calls_bound:
  "\<exists>cs. calls (final (run_links E ls w)) = calls w @ cs \<and> length cs \<le> 2 * length ls"
  using run_links_calls_within [of ls w E] by (simp add: calls_within_def)

text \<open>
  C24: when \<open>youtube-dl\<close> cannot be started, the first link tagged for video that the
  gate lets through ends the whole run with \<open>OSError\<close>: the links after it are not
  processed, no command is counted as run and nothing more is recorded in the ledger.
\<close>

theorem missing_tool_aborts_run:
  assumes "run_links E pre w = Inr w0" and "\<not> should_compare_dates (opts E)"
    and "dl_block E (tags l) (href l) = None" and "page_ok E l"
    and "match_list (tags l) (download_video_for (conf E))" and "ytdl E (video_command E l) = Inl OSError"
  shows "\<exists>w'. run_links E (pre @ l # post) w = Inl (OSError, w') \<and> calls w' = calls w0 \<and> done_log w' = done_log w0"
proof -
  from download_page_Inr [OF assms(4), of w0] obtain w1
    where p: "download_page E l w0 = Inr w1" and c: "calls w1 = calls w0" by blast
  have d: "done_log w1 = done_log w0" using download_page_frame [of E l w0 w1] p by simp
  from assms(1,2,3,5,6) p c d show ?thesis
    by (simp add: run_links_append process_link_allowed fetch_all_def download_video_def run_tool_def)
qed

theorem missing_tool_aborts_run_witness:
  "run_links (demo_env\<lparr>ytdl := (\<lambda>c. Inl OSError)\<rparr>) [] (init_world []) = Inr (init_world []) \<and>
   \<not> should_compare_dates (opts (demo_env\<lparr>ytdl := (\<lambda>c. Inl OSError)\<rparr>)) \<and>
   dl_block (demo_env\<lparr>ytdl := (\<lambda>c. Inl OSError)\<rparr>) (tags demo_video_link) (href demo_video_link) = None \<and>
   page_ok (demo_env\<lparr>ytdl := (\<lambda>c. Inl OSError)\<rparr>) demo_video_link \<and>
   match_list (tags demo_video_link) (download_video_for (conf (demo_env\<lparr>ytdl := (\<lambda>c. Inl OSError)\<rparr>))) \<and>
   ytdl (demo_env\<lparr>ytdl := (\<lambda>c. Inl OSError)\<rparr>) (video_command (demo_env\<lparr>ytdl := (\<lambda>c. Inl OSError)\<rparr>) demo_video_link) = Inl OSError \<and>
   (\<exists>w'. run_links (demo_env\<lparr>ytdl := (\<lambda>c. Inl OSError)\<rparr>) ([] @ demo_video_link # [demo_video_link\<lparr>href := ''https://vimeo.com/''\<rparr>]) (init_world []) =
      Inl (OSError, w') \<and> calls w' = calls (init_world []) \<and> done_log w' = done_log (init_world []))"
  using missing_tool_aborts_run [of "demo_env\<lparr>ytdl := (\<lambda>c. Inl OSError)\<rparr>" "[]" "init_world []" "init_world []"
      demo_video_link "[demo_video_link\<lparr>href := ''https://vimeo.com/''\<rparr>]"]
  by (simp add: model_simps gate_eval config_defs)

text \<open>
  C29: only links the gate lets through reach the ledger: whatever a run appends to
  \<open>done.log\<close>, whether it ends normally or by an exception, is a sequence of lines
  each holding the URL of one of its links for which \<open>dl_block\<close> found no reason to
  skip. A blacklisted, untagged, \<open>nodl\<close> or already recorded link is never recorded.
\<close>

theorem run_ledger_only_allowed:
  "\<exists>us. done_log (final (run_links E ls w)) = done_log w @ ledger_text us
      \<and> set us \<subseteq> href ` {l \<in> set ls. dl_block E (tags l) (href l) = None}"
proof -
  have "ledger_grows w (final (run_links E ls w))
          (\<Union>l\<in>set ls. if dl_block E (tags l) (href l) = None then {href l} else {})"
    using process_link_grows_allowed by (rule run_links_grows_by)
  moreover have "(\<Union>l\<in>set ls. if dl_block E (tags l) (href l) = None then {href l} else {})
      = href ` {l \<in> set ls. dl_block E (tags l) (href l) = None}"
    by auto
  ultimately show ?thesis by (simp add: ledger_grows_def)
qed

end
