(* ===== verification/Options.thy ===== *)
theory Options
  imports Config
begin

text \<open>
  The command line (lines 285--312). The script declares its options with
  \<open>parser.add_option\<close> and calls \<open>parser.parse_args()\<close>. The table \<open>option_table\<close>
  is the list of those declarations, with the \<open>-h\<close>/\<open>--help\<close> option that
  \<open>OptionParser()\<close> adds itself. \<open>process_args\<close> is \<open>optparse\<close>'s loop over the
  arguments (\<open>_process_args\<close>, \<open>_process_long_opt\<close>, \<open>_process_short_opts\<close>):
  \<^item> long options may be abbreviated to a unique prefix and take their value after
    \<open>=\<close> or as the next argument;
  \<^item> short options may be clustered (\<open>-m3\<close>), and a value may be attached (\<open>-tvideo\<close>);
  \<^item> \<open>--\<close> ends the options;
  \<^item> other arguments are collected as positional arguments.

  \<open>parser.error\<close> (usage error, exit status 2) and the help option (help text, exit
  status 0) end the program; they are the values of \<open>parse_exit\<close>.
\<close>

datatype opt_action = StoreString | StoreTrue | StoreFalse | ShowHelp

text \<open>The \<open>dest\<close> attribute names of the declarations: the fields of \<open>options\<close>.\<close>

datatype opt_dest =
    DHelp | DUsertag | DBookmarksfilename | DDestdir | DMarkdown | DMp3 | DDownload
  | DMinimum_date | DMaximum_date | DNo_skip

record opt_spec =
  os_short :: string
  os_long :: string
  os_dest :: opt_dest
  os_action :: opt_action

definition option_table :: "opt_spec list" where
  "option_table =
    [\<lparr>os_short = ''-h'', os_long = ''--help'', os_dest = DHelp, os_action = ShowHelp\<rparr>,
     \<lparr>os_short = ''-t'', os_long = ''--tag'', os_dest = DUsertag, os_action = StoreString\<rparr>,
     \<lparr>os_short = ''-f'', os_long = ''--file'', os_dest = DBookmarksfilename, os_action = StoreString\<rparr>,
     \<lparr>os_short = ''-d'', os_long = ''--destination'', os_dest = DDestdir, os_action = StoreString\<rparr>,
     \<lparr>os_short = ''-m'', os_long = ''--markdown'', os_dest = DMarkdown, os_action = StoreTrue\<rparr>,
     \<lparr>os_short = ''-3'', os_long = ''--mp3'', os_dest = DMp3, os_action = StoreTrue\<rparr>,
     \<lparr>os_short = ''-n'', os_long = ''--no-download'', os_dest = DDownload, os_action = StoreFalse\<rparr>,
     \<lparr>os_short = [], os_long = ''--min-date'', os_dest = DMinimum_date, os_action = StoreString\<rparr>,
     \<lparr>os_short = [], os_long = ''--max-date'', os_dest = DMaximum_date, os_action = StoreString\<rparr>,
     \<lparr>os_short = [], os_long = ''--no-skip'', os_dest = DNo_skip, os_action = StoreTrue\<rparr>]"

text \<open>\<open>setattr(values, dest, value)\<close> for the string options and for the flags.\<close>

definition set_string :: "opt_dest \<Rightarrow> string \<Rightarrow> options \<Rightarrow> options" where
  "set_string d v opt =
     (case d of
        DUsertag \<Rightarrow> opt\<lparr>usertag := Some v\<rparr>
      | DBookmarksfilename \<Rightarrow> opt\<lparr>bookmarksfilename := Some v\<rparr>
      | DDestdir \<Rightarrow> opt\<lparr>destdir := Some v\<rparr>
      | DMinimum_date \<Rightarrow> opt\<lparr>minimum_date := Some v\<rparr>
      | DMaximum_date \<Rightarrow> opt\<lparr>maximum_date := Some v\<rparr>
      | _ \<Rightarrow> opt)"

definition set_flag :: "opt_dest \<Rightarrow> bool \<Rightarrow> options \<Rightarrow> options" where
  "set_flag d b opt =
     (case d of
        DMarkdown \<Rightarrow> opt\<lparr>markdown := PyBool b\<rparr>
      | DMp3 \<Rightarrow> opt\<lparr>mp3 := PyBool b\<rparr>
      | DDownload \<Rightarrow> opt\<lparr>download := PyBool b\<rparr>
      | DNo_skip \<Rightarrow> opt\<lparr>no_skip := b\<rparr>
      | _ \<Rightarrow> opt)"

datatype parse_exit = HelpExit | UsageError string

text \<open>\<open>Option.process\<close>: the effect of an option given its value, if it takes one.\<close>

definition take_action :: "opt_spec \<Rightarrow> string \<Rightarrow> options \<Rightarrow> parse_exit + options" where
  "take_action s v opt =
     (case os_action s of
        StoreString \<Rightarrow> Inr (set_string (os_dest s) v opt)
      | StoreTrue \<Rightarrow> Inr (set_flag (os_dest s) True opt)
      | StoreFalse \<Rightarrow> Inr (set_flag (os_dest s) False opt)
      | ShowHelp \<Rightarrow> Inl HelpExit)"

definition takes_value :: "opt_spec \<Rightarrow> bool" where
  "takes_value s \<longleftrightarrow> os_action s = StoreString"

text \<open>Python's string order, for the sorted list of an ambiguity message.\<close>

fun str_le :: "string \<Rightarrow> string \<Rightarrow> bool" where
  "str_le [] ys = True"
| "str_le (x # xs) [] = False"
| "str_le (x # xs) (y # ys) = (of_char x < (of_char y :: nat) \<or> (x = y \<and> str_le xs ys))"

fun insort_str :: "string \<Rightarrow> string list \<Rightarrow> string list" where
  "insort_str x [] = [x]"
| "insort_str x (y # ys) = (if str_le x y then x # y # ys else y # insort_str x ys)"

definition sort_str :: "string list \<Rightarrow> string list" where
  "sort_str xs = foldr insort_str xs []"

text \<open>
  \<open>_match_long_opt\<close> / \<open>_match_abbrev\<close>: an exact name, else the only option whose
  name starts with the argument; no match and several matches are usage errors.
\<close>

definition match_long :: "string \<Rightarrow> parse_exit + opt_spec" where
  "match_long name =
     (case find (\<lambda>s. os_long s = name) option_table of
        Some s \<Rightarrow> Inr s
      | None \<Rightarrow>
          (case filter (\<lambda>s. py_startswith (os_long s) name) option_table of
             [] \<Rightarrow> Inl (UsageError (''no such option: '' @ name))
           | [s] \<Rightarrow> Inr s
           | ss \<Rightarrow> Inl (UsageError (''ambiguous option: '' @ name @ '' (''
                      @ py_join '', '' (sort_str (map os_long ss)) @ ''?)''))))"

definition find_short :: "string \<Rightarrow> opt_spec option" where
  "find_short name = find (\<lambda>s. os_short s = name \<and> name \<noteq> []) option_table"

text \<open>
  \<open>_process_long_opt\<close> for the argument \<open>arg\<close> followed by \<open>rargs\<close>: the new
  values and how many of \<open>rargs\<close> it consumed.
\<close>

definition long_opt :: "string \<Rightarrow> string list \<Rightarrow> options \<Rightarrow> parse_exit + (options \<times> nat)" where
  "long_opt arg rargs opt =
     (let name = takeWhile (\<lambda>c. c \<noteq> CHR ''='') arg;
          explicit = (if CHR ''='' \<in> set arg then Some (drop (Suc (length name)) arg) else None)
      in ebind (match_long name) (\<lambda>s.
           if takes_value s then
             (case explicit of
                Some v \<Rightarrow> ebind (take_action s v opt) (\<lambda>opt'. Inr (opt', 0))
              | None \<Rightarrow>
                  (case rargs of
                     [] \<Rightarrow> Inl (UsageError (os_long s @ '' option requires an argument''))
                   | v # _ \<Rightarrow> ebind (take_action s v opt) (\<lambda>opt'. Inr (opt', 1))))
           else if explicit \<noteq> None then Inl (UsageError (os_long s @ '' option does not take a value''))
           else ebind (take_action s [] opt) (\<lambda>opt'. Inr (opt', 0))))"

text \<open>
  \<open>_process_short_opts\<close> over the characters after the dash: an option that takes
  a value takes the rest of the cluster, or else the next argument.
\<close>

fun short_opts :: "string \<Rightarrow> string list \<Rightarrow> options \<Rightarrow> parse_exit + (options \<times> nat)" where
  "short_opts [] rargs opt = Inr (opt, 0)"
| "short_opts (ch # chs) rargs opt =
     (case find_short [CHR ''-'', ch] of
        None \<Rightarrow> Inl (UsageError (''no such option: '' @ [CHR ''-'', ch]))
      | Some s \<Rightarrow>
          (if takes_value s then
             (if chs \<noteq> [] then ebind (take_action s chs opt) (\<lambda>opt'. Inr (opt', 0))
              else (case rargs of
                      [] \<Rightarrow> Inl (UsageError ([CHR ''-'', ch] @ '' option requires an argument''))
                    | v # _ \<Rightarrow> ebind (take_action s v opt) (\<lambda>opt'. Inr (opt', 1))))
           else ebind (take_action s [] opt) (\<lambda>opt'. short_opts chs rargs opt')))"

text \<open>
  \<open>_process_args\<close>: \<open>rargs\<close> still to read, the values so far, and the positional
  arguments \<open>largs\<close>; \<open>parse_args\<close> returns \<open>(values, largs + rargs)\<close>.
\<close>

function process_args ::
  "string list \<Rightarrow> options \<Rightarrow> string list \<Rightarrow> parse_exit + (options \<times> string list)" where
  "process_args [] opt largs = Inr (opt, largs)"
| "process_args (arg # rargs) opt largs =
     (if arg = ''--'' then Inr (opt, largs @ rargs)
      else if take 2 arg = ''--'' then
        (case long_opt arg rargs opt of
           Inl x \<Rightarrow> Inl x
         | Inr r \<Rightarrow> process_args (drop (snd r) rargs) (fst r) largs)
      else if take 1 arg = ''-'' \<and> 1 < length arg then
        (case short_opts (tl arg) rargs opt of
           Inl x \<Rightarrow> Inl x
         | Inr r \<Rightarrow> process_args (drop (snd r) rargs) (fst r) largs)
      else process_args rargs opt (largs @ [arg]))"
  by pat_completeness auto
termination
  by (relation "measure (\<lambda>(rargs, opt, largs). length rargs)") auto

definition parse_args :: "string list \<Rightarrow> parse_exit + (options \<times> string list)" where
  "parse_args argv = process_args argv default_options []"

subsection \<open>Printing options back as arguments\<close>

text \<open>
  The inverse direction, for the round trip: \<open>render_args\<close> writes each option
  that differs from its default as arguments, in the order of the table, with the
  options' long names. \<open>canonical_options\<close> says that a flag holds either its
  \<open>optparse\<close> default or the value its action stores.
\<close>

definition string_field :: "opt_dest \<Rightarrow> options \<Rightarrow> string option" where
  "string_field d opt =
     (case d of
        DUsertag \<Rightarrow> usertag opt
      | DBookmarksfilename \<Rightarrow> bookmarksfilename opt
      | DDestdir \<Rightarrow> destdir opt
      | DMinimum_date \<Rightarrow> minimum_date opt
      | DMaximum_date \<Rightarrow> maximum_date opt
      | _ \<Rightarrow> None)"

definition flag_field :: "opt_dest \<Rightarrow> options \<Rightarrow> pyval" where
  "flag_field d opt =
     (case d of
        DMarkdown \<Rightarrow> markdown opt
      | DMp3 \<Rightarrow> mp3 opt
      | DDownload \<Rightarrow> download opt
      | _ \<Rightarrow> PyBool (no_skip opt))"

definition render_one :: "options \<Rightarrow> opt_spec \<Rightarrow> string list" where
  "render_one opt s =
     (case os_action s of
        StoreString \<Rightarrow> (case string_field (os_dest s) opt of None \<Rightarrow> [] | Some v \<Rightarrow> [os_long s, v])
      | StoreTrue \<Rightarrow> (if flag_field (os_dest s) opt = PyBool True then [os_long s] else [])
      | StoreFalse \<Rightarrow> (if flag_field (os_dest s) opt = PyBool False then [os_long s] else [])
      | ShowHelp \<Rightarrow> [])"

definition render_args :: "options \<Rightarrow> string list" where
  "render_args opt = concat (map (render_one opt) option_table)"

text \<open>What reading back the arguments \<open>render_one\<close> wrote for one option does.\<close>

definition apply_rendered :: "options \<Rightarrow> opt_spec \<Rightarrow> options \<Rightarrow> options" where
  "apply_rendered opt s o' =
     (case os_action s of
        StoreString \<Rightarrow> (case string_field (os_dest s) opt of None \<Rightarrow> o' | Some v \<Rightarrow> set_string (os_dest s) v o')
      | ShowHelp \<Rightarrow> o'
      | act \<Rightarrow> (if render_one opt s = [] then o' else set_flag (os_dest s) (act = StoreTrue) o'))"

definition canonical_options :: "options \<Rightarrow> bool" where
  "canonical_options opt \<longleftrightarrow>
     (markdown opt = PyStr ''False'' \<or> markdown opt = PyBool True) \<and>
     (mp3 opt = PyStr ''False'' \<or> mp3 opt = PyBool True) \<and>
     (download opt = PyStr ''True'' \<or> download opt = PyBool False)"

subsection \<open>Facts about the parser\<close>

lemmas options_eval = option_table_def set_string_def set_flag_def take_action_def takes_value_def
  match_long_def find_short_def long_opt_def py_startswith_def

lemma option_table_long_all:
  "list_all (\<lambda>s. take 2 (os_long s) = ''--'' \<and> os_long s \<noteq> ''--'' \<and> CHR ''='' \<notin> set (os_long s) \<and>
   match_long (os_long s) = Inr s) option_table"
  by (simp add: option_table_def match_long_def)

lemma option_table_long:
  "s \<in> set option_table \<Longrightarrow>
   take 2 (os_long s) = ''--'' \<and> os_long s \<noteq> ''--'' \<and> CHR ''='' \<notin> set (os_long s) \<and>
   match_long (os_long s) = Inr s"
  using option_table_long_all by (simp add: list_all_iff)

lemma long_opt_plain:
  "CHR ''='' \<notin> set arg \<Longrightarrow>
   long_opt arg rargs opt =
     ebind (match_long arg) (\<lambda>s.
       if takes_value s then
         (case rargs of
            [] \<Rightarrow> Inl (UsageError (os_long s @ '' option requires an argument''))
          | v # _ \<Rightarrow> ebind (take_action s v opt) (\<lambda>opt'. Inr (opt', 1)))
       else ebind (take_action s [] opt) (\<lambda>opt'. Inr (opt', 0)))"
proof -
  assume "CHR ''='' \<notin> set arg"
  then have "takeWhile (\<lambda>c. c \<noteq> CHR ''='') arg = arg" by (auto simp: takeWhile_eq_all_conv)
  with \<open>CHR ''='' \<notin> set arg\<close> show ?thesis by (simp add: long_opt_def del: takeWhile_eq_all_conv cong: if_cong)
qed

lemma process_args_long:
  "take 2 arg = ''--'' \<Longrightarrow> arg \<noteq> ''--'' \<Longrightarrow>
   process_args (arg # rargs) opt largs =
     (case long_opt arg rargs opt of Inl x \<Rightarrow> Inl x | Inr r \<Rightarrow> process_args (drop (snd r) rargs) (fst r) largs)"
  by simp

lemma process_args_render_one:
  assumes "s \<in> set option_table"
  shows "process_args (render_one opt s @ rest) o' l = process_args rest (apply_rendered opt s o') l"
proof -
  from option_table_long [OF assms] have t: "take 2 (os_long s) = ''--''" "os_long s \<noteq> ''--''"
    and e: "CHR ''='' \<notin> set (os_long s)" and m: "match_long (os_long s) = Inr s" by auto
  note pl = process_args_long [OF t] long_opt_plain [OF e] m
  show ?thesis
  proof (cases "os_action s")
    case StoreString
    then show ?thesis
      by (cases "string_field (os_dest s) opt")
         (simp_all del: process_args.simps(2) add: render_one_def apply_rendered_def pl take_action_def takes_value_def)
  next
    case StoreTrue
    then show ?thesis
      by (simp del: process_args.simps(2) add: render_one_def apply_rendered_def pl take_action_def takes_value_def)
  next
    case StoreFalse
    then show ?thesis
      by (simp del: process_args.simps(2) add: render_one_def apply_rendered_def pl take_action_def takes_value_def)
  next
    case ShowHelp
    then show ?thesis by (simp add: render_one_def apply_rendered_def)
  qed
qed

lemma process_args_render:
  "\<forall>s\<in>set ss. s \<in> set option_table \<Longrightarrow>
   process_args (concat (map (render_one opt) ss) @ rest) o' l = process_args rest (fold (apply_rendered opt) ss o') l"
  by (induction ss arbitrary: o') (simp_all add: process_args_render_one)

lemma case_option_Some_id [simp]: "(case x of None \<Rightarrow> None | Some v \<Rightarrow> Some v) = x"
  by (cases x) simp_all

lemmas render_defs = option_table_def apply_rendered_def render_one_def string_field_def
       flag_field_def set_string_def set_flag_def

lemma case_option_same [simp]: "(case x of None \<Rightarrow> a | Some v \<Rightarrow> a) = a"
  by (cases x) simp_all

lemma fold_apply_rendered:
  "canonical_options opt \<Longrightarrow> fold (apply_rendered opt) option_table default_options = opt"
  by (rule options.equality) (auto simp: render_defs canonical_options_def default_options_def option.case_distrib [of usertag] if_distrib [of usertag] option.case_distrib [of bookmarksfilename] if_distrib [of bookmarksfilename] option.case_distrib [of destdir] if_distrib [of destdir] option.case_distrib [of markdown] if_distrib [of markdown] option.case_distrib [of mp3] if_distrib [of mp3] option.case_distrib [of download] if_distrib [of download] option.case_distrib [of minimum_date] if_distrib [of minimum_date] option.case_distrib [of maximum_date] if_distrib [of maximum_date] option.case_distrib [of no_skip] if_distrib [of no_skip] option.case_distrib [of options.more] if_distrib [of options.more] cong: option.case_cong if_cong)

lemma take_action_canonical_all:
  "list_all (\<lambda>s. \<forall>v o1 o2. take_action s v o1 = Inr o2 \<longrightarrow> canonical_options o1 \<longrightarrow> canonical_options o2)
     option_table"
  by (simp add: option_table_def take_action_def set_string_def set_flag_def canonical_options_def)

lemma take_action_canonical:
  "s \<in> set option_table \<Longrightarrow> take_action s v o1 = Inr o2 \<Longrightarrow> canonical_options o1 \<Longrightarrow> canonical_options o2"
  using take_action_canonical_all by (auto simp: list_all_iff)

lemma filter_singleton_in: "filter P xs = [s] \<Longrightarrow> s \<in> set xs"
proof -
  assume "filter P xs = [s]"
  then have "s \<in> set (filter P xs)" by simp
  then show ?thesis by simp
qed

lemma match_long_table: "match_long name = Inr s \<Longrightarrow> s \<in> set option_table"
  by (auto simp: match_long_def find_Some_iff split: option.splits list.splits dest: filter_singleton_in)

lemma find_short_table: "find_short name = Some s \<Longrightarrow> s \<in> set option_table"
  by (auto simp: find_short_def find_Some_iff)

lemma long_opt_canonical:
  "long_opt arg rargs o1 = Inr (o2, n) \<Longrightarrow> canonical_options o1 \<Longrightarrow> canonical_options o2"
  by (auto simp: long_opt_def Let_def ebind_eq_Inr split: if_splits option.splits list.splits
      dest: match_long_table take_action_canonical)

lemma short_opts_canonical:
  "short_opts chs rargs o1 = Inr (o2, n) \<Longrightarrow> canonical_options o1 \<Longrightarrow> canonical_options o2"
proof (induction chs rargs o1 rule: short_opts.induct)
  case (1 rargs opt)
  then show ?case by simp
next
  case (2 ch chs rargs opt)
  then show ?case
    by (auto simp: ebind_eq_Inr split: option.splits if_splits list.splits
        dest: find_short_table take_action_canonical)
qed

lemma process_args_canonical:
  "process_args rargs o1 largs = Inr (o2, args) \<Longrightarrow> canonical_options o1 \<Longrightarrow> canonical_options o2"
proof (induction rargs o1 largs rule: process_args.induct)
  case (1 opt largs)
  then show ?case by simp
next
  case (2 arg rargs opt largs)
  then show ?case
    by (auto split: if_splits sum.splits dest: long_opt_canonical short_opts_canonical)
qed

subsection \<open>Properties of the command line\<close>

text \<open>
  C25: parsing is the inverse of printing: for any options whose flags hold either
  their default or the value the flag stores, \<open>parse_args\<close> of the arguments that
  \<open>render_args\<close> writes gives back exactly these options and no positional argument.
\<close>

theorem parse_render:
  "canonical_options opt \<Longrightarrow> parse_args (render_args opt) = Inr (opt, [])"
  using process_args_render [of option_table opt "[]" default_options "[]"]
  by (simp add: parse_args_def render_args_def fold_apply_rendered)

theorem parse_render_witness:
  "canonical_options (default_options\<lparr>destdir := Some ''/srv/bk'', usertag := Some ''-m'', markdown := PyBool True\<rparr>) \<and>
   parse_args (render_args (default_options\<lparr>destdir := Some ''/srv/bk'', usertag := Some ''-m'', markdown := PyBool True\<rparr>)) =
     Inr (default_options\<lparr>destdir := Some ''/srv/bk'', usertag := Some ''-m'', markdown := PyBool True\<rparr>, [])"
  using parse_render [of "default_options\<lparr>destdir := Some ''/srv/bk'', usertag := Some ''-m'', markdown := PyBool True\<rparr>"]
  by (simp add: canonical_options_def default_options_def)

text \<open>
  C26: every successful parse yields canonical options: the three flags declared with
  a string default (\<open>-m\<close>, \<open>-3\<close>, \<open>-n\<close>) hold either that string or the bool their
  action stores, never anything else, whatever the arguments.
\<close>

theorem parse_args_canonical:
  "parse_args argv = Inr (opt, args) \<Longrightarrow> canonical_options opt"
  unfolding parse_args_def
  by (erule process_args_canonical) (simp add: canonical_options_def default_options_def)

theorem parse_args_canonical_witness:
  "parse_args [''-m3'', ''--dest'', ''/srv/bk'', ''x.html''] =
     Inr (default_options\<lparr>markdown := PyBool True, mp3 := PyBool True, destdir := Some ''/srv/bk''\<rparr>, [''x.html'']) \<and>
   canonical_options (default_options\<lparr>markdown := PyBool True, mp3 := PyBool True, destdir := Some ''/srv/bk''\<rparr>)"
  using parse_args_canonical [of "[''-m3'', ''--dest'', ''/srv/bk'', ''x.html'']"
      "default_options\<lparr>markdown := PyBool True, mp3 := PyBool True, destdir := Some ''/srv/bk''\<rparr>" "[''x.html'']"]
  by (simp add: parse_args_def options_eval default_options_def)

end
