(* ===== verification/Startup.thy ===== *)
theory Startup
  imports Orchestrator Options "HOL-Library.Sublist"
begin

text \<open>
  Start-up and the whole program (lines 314--410), in the order of the source:
  \<^enum> parse the command line (\<open>parse_args\<close>, theory \<open>Options\<close>);
  \<^enum> check the mandatory options and open the bookmarks file (lines 315--329);
  \<^enum> parse the date bounds (lines 331--344);
  \<^enum> create the output directories (lines 346--353);
  \<^enum> open the report, the run log and the ledger, and read the ledger (lines 355--368);
  \<^enum> parse the export and report the number of links (lines 370--378);
  \<^enum> write the report header (lines 380--384);
  \<^enum> run the main loop (\<open>run_links\<close>);
  \<^enum> close the files (lines 406--410), which the model needs no step for: the run log,
     ledger and report are the lists of their writes.

  The machine the script runs on is a \<open>host\<close>: its readable files and its
  directories, indexed by resolved path (\<open>abs_path\<close>, theory \<open>World\<close>), and the
  working directory relative names are resolved from. It also supplies:
  \<^item> what BeautifulSoup extracts from a text;
  \<^item> the external tool;
  \<^item> the time stamp \<open>curdate\<close> of line 18;
  \<^item> the order in which Python lists a set.

  \<open>main\<close> returns how the program ended and the state it left.
\<close>

record host =
  h_files :: "path \<rightharpoonup> string"
  h_dirs :: "path set"
  h_soup :: "string \<Rightarrow> element list"
  h_tool :: tool
  h_curdate :: string
  h_set_order :: "string list \<Rightarrow> string list"
  h_cwd :: path

text \<open>
  \<open>os.makedirs\<close>: it raises \<open>OSError\<close> for the empty name (\<open>mkdir('')\<close>) and when
  the directory exists; otherwise it creates the directory and its missing parents. The
  name is resolved lexically: for a name with \<open>..\<close> after a missing directory,
  \<open>os.makedirs\<close> also creates that directory, which the model does not.
\<close>

definition makedirs :: "path \<Rightarrow> string \<Rightarrow> path set \<Rightarrow> py_error + path set" where
  "makedirs wd name ds =
     (if name = [] then Inl OSError
      else if abs_path wd name \<in> ds then Inl OSError
      else Inr (ds \<union> set (prefixes (abs_path wd name))))"

definition dest_subdirs :: "string \<Rightarrow> string list" where
  "dest_subdirs d = [d, d @ ''/video'', d @ ''/audio'', d @ ''/audio/mp3'', d @ ''/pages'']"

text \<open>Lines 346--353: the five calls share one \<open>try\<close>, whose \<open>except: pass\<close> skips the rest.\<close>

fun makedirs_all :: "path \<Rightarrow> string list \<Rightarrow> path set \<Rightarrow> path set" where
  "makedirs_all wd [] ds = ds"
| "makedirs_all wd (p # ps) ds = (case makedirs wd p ds of Inl e \<Rightarrow> ds | Inr ds' \<Rightarrow> makedirs_all wd ps ds')"

text \<open>The first line of what \<open>parser.print_help()\<close> prints.\<close>

definition help_text :: string where
  "help_text = ''Usage: bookmarks-fetcher.py [options]''"

text \<open>
  Lines 315--329: the destination must be a non-empty string; \<open>open(None)\<close> raises
  \<open>TypeError\<close>, a missing file \<open>IOError\<close>. The result is the message printed before
  \<open>exit(1)\<close>, or the destination, the file name and the file's text.
\<close>

definition check_mandatory :: "host \<Rightarrow> options \<Rightarrow> string + (string \<times> string \<times> string)" where
  "check_mandatory h opt =
     (case destdir opt of
        None \<Rightarrow> Inl ''Error: No destination dir specified''
      | Some d \<Rightarrow>
          (if d = [] then Inl ''Error: No destination dir specified''
           else (case bookmarksfilename opt of
                   None \<Rightarrow> Inl ''Error: No bookmarks file specified''
                 | Some f \<Rightarrow>
                     (case h_files h (abs_path (h_cwd h) f) of
                        None \<Rightarrow> Inl (''Error: Bookmarks file '' @ f @ '' not found'')
                      | Some raw \<Rightarrow> Inr (d, f, raw)))))"

text \<open>Lines 336--344: a bound given on the command line is parsed, or raises \<open>ValueError\<close>.\<close>

definition parse_bound :: "string option \<Rightarrow> py_error + date option" where
  "parse_bound s = (case s of None \<Rightarrow> Inr None | Some t \<Rightarrow> ebind (parse_dmy t) (\<lambda>dt. Inr (Some dt)))"

definition parse_bounds :: "options \<Rightarrow> py_error + (date option \<times> date option)" where
  "parse_bounds opt =
     ebind (parse_bound (minimum_date opt)) (\<lambda>mn. ebind (parse_bound (maximum_date opt)) (\<lambda>mx. Inr (mn, mx)))"

text \<open>\<open>str(n)\<close> of a natural number.\<close>

fun nat_str :: "nat \<Rightarrow> string" where
  "nat_str n = (if n < 10 then [char_of (48 + n)] else nat_str (n div 10) @ [char_of (48 + n mod 10)])"

text \<open>The files of lines 357, 361 and 366.\<close>

definition markdown_path :: "host \<Rightarrow> string \<Rightarrow> string" where
  "markdown_path h d = d @ ''/links-'' @ h_curdate h @ ''.md''"

definition log_path :: "host \<Rightarrow> string \<Rightarrow> string" where
  "log_path h d = d @ ''/shaarchiver-'' @ h_curdate h @ ''.log''"

definition ledger_path :: "string \<Rightarrow> string" where
  "ledger_path d = d @ ''/done.log''"

definition opened_files :: "host \<Rightarrow> options \<Rightarrow> string \<Rightarrow> string list" where
  "opened_files h opt d =
     (if truthy (markdown opt) then [markdown_path h d] else []) @ [log_path h d, ledger_path d]"

text \<open>Lines 366--368: \<open>done.log\<close> is opened with \<open>a+\<close>, so a missing ledger reads as empty.\<close>

definition stored_ledger :: "host \<Rightarrow> string \<Rightarrow> string" where
  "stored_ledger h d = (case h_files h (abs_path (h_cwd h) (ledger_path d)) of None \<Rightarrow> [] | Some t \<Rightarrow> t)"

definition startup_env :: "host \<Rightarrow> options \<Rightarrow> string \<Rightarrow> date option \<Rightarrow> date option \<Rightarrow> env" where
  "startup_env h opt d mn mx =
     \<lparr>conf = shaarchiver_cfg, opts = opt, dest = d, downloaded_urls = load_ledger (stored_ledger h d),
      min_date = mn, max_date = mx, ytdl = h_tool h,
      cwd = h_cwd h, dirtree = makedirs_all (h_cwd h) (dest_subdirs d) (h_dirs h)\<rparr>"

text \<open>Lines 380--384: the report header, with the number of links and the tag list.\<close>

definition md_header :: "string \<Rightarrow> nat \<Rightarrow> string list \<Rightarrow> world \<Rightarrow> world" where
  "md_header f n taglist w =
     md_write ([BQ, BQ, BQ, LF] @ py_join '' '' taglist @ [LF, BQ, BQ, BQ, LF, LF])
       (md_write (''## '' @ f @ [LF] @ nat_str n @ '' links'' @ [LF, LF]) w)"

text \<open>Lines 375--384: the state when the loop starts.\<close>

definition start_world :: "host \<Rightarrow> options \<Rightarrow> string \<Rightarrow> string \<Rightarrow> link list \<Rightarrow> world" where
  "start_world h opt d f ls =
     (let w = say (''[shaarchiver] Got '' @ nat_str (length ls) @ '' links.'') (init_world (stored_ledger h d))
      in if truthy (markdown opt) then md_header f (length ls) (get_all_tags_loop (h_set_order h) ls) w else w)"

datatype prog_status = HelpShown | OptionError string | Exited nat | Uncaught py_error | Completed

record prog_result =
  status :: prog_status
  out :: world
  dirs :: "path set"
  opened :: "string list"

text \<open>Lines 346--410, once the options are checked and the bounds parsed.\<close>

definition run_from :: "host \<Rightarrow> options \<Rightarrow> string \<Rightarrow> string \<Rightarrow> string \<Rightarrow> date option \<Rightarrow> date option \<Rightarrow> prog_result" where
  "run_from h opt d f raw mn mx =
     (let ds = makedirs_all (h_cwd h) (dest_subdirs d) (h_dirs h);
          fs = opened_files h opt d
      in case get_link_list (h_soup h raw) of
           Inl e \<Rightarrow> \<lparr>status = Uncaught e, out = init_world (stored_ledger h d), dirs = ds, opened = fs\<rparr>
         | Inr ls \<Rightarrow>
             (case run_links (startup_env h opt d mn mx) ls (start_world h opt d f ls) of
                Inl (e, w') \<Rightarrow> \<lparr>status = Uncaught e, out = w', dirs = ds, opened = fs\<rparr>
              | Inr w' \<Rightarrow> \<lparr>status = Completed, out = w', dirs = ds, opened = fs\<rparr>))"

definition start_run :: "host \<Rightarrow> options \<Rightarrow> prog_result" where
  "start_run h opt =
     (case check_mandatory h opt of
        Inl m \<Rightarrow> \<lparr>status = Exited 1, out = print_msg help_text (print_msg m (init_world [])),
                  dirs = h_dirs h, opened = []\<rparr>
      | Inr (d, f, raw) \<Rightarrow>
          (case parse_bounds opt of
             Inl e \<Rightarrow> \<lparr>status = Uncaught e, out = init_world [], dirs = h_dirs h, opened = []\<rparr>
           | Inr (mn, mx) \<Rightarrow> run_from h opt d f raw mn mx))"

definition main :: "host \<Rightarrow> string list \<Rightarrow> prog_result" where
  "main h argv =
     (case parse_args argv of
        Inl HelpExit \<Rightarrow> \<lparr>status = HelpShown, out = print_msg help_text (init_world []), dirs = h_dirs h, opened = []\<rparr>
      | Inl (UsageError m) \<Rightarrow> \<lparr>status = OptionError m, out = init_world [], dirs = h_dirs h, opened = []\<rparr>
      | Inr (opt, args) \<Rightarrow> start_run h opt)"

text \<open>
  A sample machine for the concrete instances: an export \<open>b.html\<close> holding the
  sample link, a directory \<open>/srv\<close>, a tool whose every run succeeds, sets listed
  in insertion order, and the root as working directory.
\<close>

definition demo_elements :: "element list" where
  "demo_elements =
     [\<lparr>el_name = ''dt'', el_contents = [],
       el_find_a = Some \<lparr>a_attrs = [''href'' \<mapsto> ''http://example.org/v'', ''add_date'' \<mapsto> ''1400000000'',
                             ''private'' \<mapsto> ''0'', ''tags'' \<mapsto> ''video''],
                         a_contents = [''A talk'']\<rparr>\<rparr>]"

definition demo_host :: host where
  "demo_host =
     \<lparr>h_files = Map.empty([''b.html''] \<mapsto> ''<dl>...</dl>''), h_dirs = {[], [''srv'']},
      h_soup = (\<lambda>raw. demo_elements), h_tool = (\<lambda>c. Inr 0), h_curdate = ''2015-01-01_1200'',
      h_set_order = remdups, h_cwd = []\<rparr>"

subsection \<open>The output directories\<close>

lemma makedirs_wf: "dirs_wf ds \<Longrightarrow> makedirs wd n ds = Inr ds' \<Longrightarrow> dirs_wf ds'"
  by (auto simp: dirs_wf_def makedirs_def split: if_splits intro: prefix_order.trans)

lemma makedirs_all_wf: "dirs_wf ds \<Longrightarrow> dirs_wf (makedirs_all wd ps ds)"
  by (induction ps arbitrary: ds) (auto split: sum.splits dest: makedirs_wf)

lemma makedirs_all_mono: "ds \<subseteq> makedirs_all wd ps ds"
  by (induction ps arbitrary: ds) (force simp: makedirs_def split: sum.splits if_splits)+

subsection \<open>The stages of start-up\<close>

lemma main_parsed: "parse_args argv = Inr (opt, args) \<Longrightarrow> main h argv = start_run h opt"
  by (simp add: main_def)

lemma start_run_checked:
  "check_mandatory h opt = Inr (d, f, raw) \<Longrightarrow> parse_bounds opt = Inr (mn, mx) \<Longrightarrow>
   start_run h opt = run_from h opt d f raw mn mx"
  by (simp add: start_run_def)

lemma parse_bounds_None:
  "minimum_date opt = None \<Longrightarrow> maximum_date opt = None \<Longrightarrow> parse_bounds opt = Inr (None, None)"
  by (simp add: parse_bounds_def parse_bound_def)

lemma start_world_fields:
  "stdout (start_world h opt d f ls) = [''[shaarchiver] Got '' @ nat_str (length ls) @ '' links.'']"
  "calls (start_world h opt d f ls) = []"
  "done_log (start_world h opt d f ls) = stored_ledger h d"
  by (simp_all add: start_world_def Let_def init_world_def md_header_def md_write_def)

lemma run_from_parsed:
  "get_link_list (h_soup h raw) = Inr ls \<Longrightarrow>
   out (run_from h opt d f raw mn mx) = final (run_links (startup_env h opt d mn mx) ls (start_world h opt d f ls)) \<and>
   (status (run_from h opt d f raw mn mx) = Completed \<longleftrightarrow>
      (\<exists>w'. run_links (startup_env h opt d mn mx) ls (start_world h opt d f ls) = Inr w'))"
  by (auto simp: run_from_def Let_def split: sum.splits)

lemmas startup_eval = main_def start_run_def run_from_def check_mandatory_def parse_bounds_def
  parse_bound_def abs_path_def path_start_def demo_host_def demo_elements_def startup_env_def stored_ledger_def
  ledger_path_def start_world_def md_header_def md_write_def opened_files_def

subsection \<open>Properties of start-up\<close>

text \<open>
  C30: the five \<open>os.makedirs\<close> calls share one \<open>try\<close> whose \<open>except\<close> passes, so
  when the destination already exists the first call raises and none of the
  subdirectories \<open>video\<close>, \<open>audio\<close>, \<open>audio/mp3\<close> and \<open>pages\<close> is created, even
  if they are missing.
\<close>

theorem existing_destination_no_subdirs:
  "abs_path wd d \<in> ds \<Longrightarrow> makedirs_all wd (dest_subdirs d) ds = ds"
  by (simp add: dest_subdirs_def makedirs_def)

theorem existing_destination_no_subdirs_witness:
  "abs_path [''home''] ''/srv'' \<in> {[], [''srv'']} \<and>
   makedirs_all [''home''] (dest_subdirs ''/srv'') {[], [''srv'']} = {[], [''srv'']} \<and>
   [''srv'', ''video''] \<notin> makedirs_all [''home''] (dest_subdirs ''/srv'') {[], [''srv'']}"
  using existing_destination_no_subdirs [of "[''home'']" "''/srv''" "{[], [''srv'']}"]
  by (simp add: abs_path_def path_start_def)

text \<open>
  C31: when the destination does not exist yet, start-up creates it with its four
  subdirectories, at the paths the names resolve to from the working directory, and
  the directories still form a tree (every directory's parents exist). The destination
  is non-empty, as the check of line 315 ensures.
\<close>

theorem fresh_destination_subdirs:
  assumes wf: "dirs_wf ds" and fresh: "abs_path wd d \<notin> ds" and ne: "d \<noteq> []"
  shows "dirs_wf (makedirs_all wd (dest_subdirs d) ds) \<and>
         set (map (abs_path wd) (dest_subdirs d)) \<subseteq> makedirs_all wd (dest_subdirs d) ds"
proof -
  let ?p = "abs_path wd d"
  have sub: "abs_path wd (d @ ''/video'') = ?p @ [''video'']" "abs_path wd (d @ ''/audio'') = ?p @ [''audio'']"
    "abs_path wd (d @ ''/audio/mp3'') = ?p @ [''audio'', ''mp3'']" "abs_path wd (d @ ''/pages'') = ?p @ [''pages'']"
    using abs_path_append_sep [OF ne, of wd] by simp_all
  have out: "?p @ x \<notin> ds" for x using dirs_wf_append [OF wf fresh] .
  have "makedirs_all wd (dest_subdirs d) ds =
        ds \<union> set (prefixes ?p) \<union> set (prefixes (?p @ [''video''])) \<union> set (prefixes (?p @ [''audio'']))
           \<union> set (prefixes (?p @ [''audio'', ''mp3''])) \<union> set (prefixes (?p @ [''pages'']))"
    using ne fresh out [of "[]"] out [of "[''video'']"] out [of "[''audio'']"] out [of "[''audio'', ''mp3'']"]
      out [of "[''pages'']"]
    by (simp add: dest_subdirs_def makedirs_def sub Un_assoc)
  moreover have "dirs_wf (makedirs_all wd (dest_subdirs d) ds)" using wf by (rule makedirs_all_wf)
  ultimately show ?thesis by (simp add: dest_subdirs_def sub)
qed

theorem fresh_destination_subdirs_witness:
  "dirs_wf {[], [''srv'']} \<and> abs_path [''srv''] ''bk'' \<notin> {[], [''srv'']} \<and> ''bk'' \<noteq> [] \<and>
   dirs_wf (makedirs_all [''srv''] (dest_subdirs ''bk'') {[], [''srv'']}) \<and>
   set (map (abs_path [''srv'']) (dest_subdirs ''bk'')) \<subseteq> makedirs_all [''srv''] (dest_subdirs ''bk'') {[], [''srv'']}"
  using fresh_destination_subdirs [of "{[], [''srv'']}" "[''srv'']" "''bk''"]
  by (simp add: dirs_wf_def abs_path_def path_start_def)

text \<open>
  C32: the markdown report file \<open>links-<date>.md\<close> is opened (created, or emptied) on
  every run that gets past the checks, with or without \<open>-m\<close>: for the options of
  any accepted command line the value of \<open>options.markdown\<close> is either the default
  string \<open>"False"\<close> or \<open>True\<close>, and both are true for the \<open>if\<close> of line 356.
\<close>

theorem main_opens_report:
  assumes "parse_args argv = Inr (opt, args)" and "check_mandatory h opt = Inr (d, f, raw)"
    and "parse_bounds opt = Inr (mn, mx)"
  shows "markdown_path h d \<in> set (opened (main h argv))"
proof -
  have "canonical_options opt"
    using assms(1) unfolding parse_args_def
    by (rule process_args_canonical) (simp add: canonical_options_def default_options_def)
  then have "truthy (markdown opt)" by (auto simp: canonical_options_def)
  with assms show ?thesis
    by (simp add: main_parsed start_run_checked run_from_def opened_files_def Let_def split: sum.splits)
qed

theorem main_opens_report_witness:
  "parse_args [''-d'', ''/srv/bk'', ''-f'', ''b.html''] = Inr (default_options\<lparr>destdir := Some ''/srv/bk'', bookmarksfilename := Some ''b.html''\<rparr>, []) \<and>
   check_mandatory demo_host (default_options\<lparr>destdir := Some ''/srv/bk'', bookmarksfilename := Some ''b.html''\<rparr>) = Inr (''/srv/bk'', ''b.html'', ''<dl>...</dl>'') \<and>
   parse_bounds (default_options\<lparr>destdir := Some ''/srv/bk'', bookmarksfilename := Some ''b.html''\<rparr>) = Inr (None, None) \<and>
   markdown_path demo_host ''/srv/bk'' \<in> set (opened (main demo_host [''-d'', ''/srv/bk'', ''-f'', ''b.html'']))"
  using main_opens_report [of "[''-d'', ''/srv/bk'', ''-f'', ''b.html'']" "default_options\<lparr>destdir := Some ''/srv/bk'', bookmarksfilename := Some ''b.html''\<rparr>" "[]" demo_host "''/srv/bk''" "''b.html''"
      "''<dl>...</dl>''" None None]
  by (simp add: parse_args_def options_eval default_options_def check_mandatory_def abs_path_def path_start_def demo_host_def
      parse_bounds_def parse_bound_def)

text \<open>
  C33: without a destination (absent or empty), the program prints the error and the
  help and exits with status 1, before it looks at the bookmarks file: nothing is
  created, opened or run.
\<close>

theorem main_no_destination:
  assumes "parse_args argv = Inr (opt, args)" and "destdir opt = None \<or> destdir opt = Some []"
  shows "main h argv = \<lparr>status = Exited 1,
           out = print_msg help_text (print_msg ''Error: No destination dir specified'' (init_world [])),
           dirs = h_dirs h, opened = []\<rparr>"
  using assms by (auto simp: main_parsed start_run_def check_mandatory_def simp del: world_ops)

theorem main_no_destination_witness:
  "parse_args [''-f'', ''c.html''] = Inr (default_options\<lparr>bookmarksfilename := Some ''c.html''\<rparr>, []) \<and>
   (destdir (default_options\<lparr>bookmarksfilename := Some ''c.html''\<rparr>) = None \<or>
    destdir (default_options\<lparr>bookmarksfilename := Some ''c.html''\<rparr>) = Some []) \<and>
   main demo_host [''-f'', ''c.html''] = \<lparr>status = Exited 1,
     out = print_msg help_text (print_msg ''Error: No destination dir specified'' (init_world [])),
     dirs = h_dirs demo_host, opened = []\<rparr>"
  using main_no_destination [of "[''-f'', ''c.html'']" "default_options\<lparr>bookmarksfilename := Some ''c.html''\<rparr>" "[]" demo_host]
  by (simp add: parse_args_def options_eval default_options_def)

text \<open>
  C34: a date bound that \<open>strptime("%d/%m/%Y")\<close> rejects ends the program with the
  uncaught \<open>ValueError\<close> after the options and the bookmarks file are checked but
  before any directory is created or any file opened.
\<close>

theorem main_bad_min_date:
  assumes "parse_args argv = Inr (opt, args)" and "check_mandatory h opt = Inr (d, f, raw)"
    and "minimum_date opt = Some s" and "parse_dmy s = Inl e"
  shows "main h argv = \<lparr>status = Uncaught e, out = init_world [], dirs = h_dirs h, opened = []\<rparr>"
  using assms by (simp add: main_parsed start_run_def parse_bounds_def parse_bound_def)

theorem main_bad_min_date_witness:
  "parse_args [''-d'', ''/srv/bk'', ''-f'', ''b.html'', ''--min-date'', ''31/02/2015''] = Inr (default_options\<lparr>destdir := Some ''/srv/bk'', bookmarksfilename := Some ''b.html'', minimum_date := Some ''31/02/2015''\<rparr>, []) \<and>
   check_mandatory demo_host (default_options\<lparr>destdir := Some ''/srv/bk'', bookmarksfilename := Some ''b.html'', minimum_date := Some ''31/02/2015''\<rparr>) = Inr (''/srv/bk'', ''b.html'', ''<dl>...</dl>'') \<and>
   minimum_date (default_options\<lparr>destdir := Some ''/srv/bk'', bookmarksfilename := Some ''b.html'', minimum_date := Some ''31/02/2015''\<rparr>) = Some ''31/02/2015'' \<and> parse_dmy ''31/02/2015'' = Inl ValueError \<and>
   main demo_host [''-d'', ''/srv/bk'', ''-f'', ''b.html'', ''--min-date'', ''31/02/2015''] = \<lparr>status = Uncaught ValueError, out = init_world [], dirs = h_dirs demo_host, opened = []\<rparr>"
  using main_bad_min_date [of "[''-d'', ''/srv/bk'', ''-f'', ''b.html'', ''--min-date'', ''31/02/2015'']" "default_options\<lparr>destdir := Some ''/srv/bk'', bookmarksfilename := Some ''b.html'', minimum_date := Some ''31/02/2015''\<rparr>" "[]" demo_host "''/srv/bk''" "''b.html''"
      "''<dl>...</dl>''" "''31/02/2015''" ValueError]
  by (simp add: parse_args_def options_eval default_options_def check_mandatory_def abs_path_def path_start_def demo_host_def
      date_defs)

text \<open>
  C35: once start-up has parsed the export, the first line the program prints (and
  logs) is the number of links, which is the number of \<open><dt>\<close> elements of the export;
  nothing the main loop prints afterwards replaces it, whether the run completes or
  raises.
\<close>

theorem main_reports_link_count:
  assumes "parse_args argv = Inr (opt, args)" and "check_mandatory h opt = Inr (d, f, raw)"
    and "parse_bounds opt = Inr (mn, mx)" and "get_link_list (h_soup h raw) = Inr ls"
  shows "prefix [''[shaarchiver] Got '' @ nat_str (length (filter (\<lambda>e. el_name e \<noteq> ''dd'') (h_soup h raw)))
                 @ '' links.''] (stdout (out (main h argv)))"
proof -
  have "out (main h argv) = final (run_links (startup_env h opt d mn mx) ls (start_world h opt d f ls))"
    using assms by (simp add: main_parsed start_run_checked run_from_parsed)
  moreover have "prefix (stdout (start_world h opt d f ls))
      (stdout (final (run_links (startup_env h opt d mn mx) ls (start_world h opt d f ls))))"
    using outputs_grow_run_links by (simp add: outputs_grow_def)
  ultimately show ?thesis
    using get_link_list_length [OF assms(4)] by (simp add: start_world_fields)
qed

theorem main_reports_link_count_witness:
  "parse_args [''-d'', ''/srv/bk'', ''-f'', ''b.html''] = Inr (default_options\<lparr>destdir := Some ''/srv/bk'', bookmarksfilename := Some ''b.html''\<rparr>, []) \<and>
   check_mandatory demo_host (default_options\<lparr>destdir := Some ''/srv/bk'', bookmarksfilename := Some ''b.html''\<rparr>) = Inr (''/srv/bk'', ''b.html'', ''<dl>...</dl>'') \<and>
   parse_bounds (default_options\<lparr>destdir := Some ''/srv/bk'', bookmarksfilename := Some ''b.html''\<rparr>) = Inr (None, None) \<and>
   get_link_list (h_soup demo_host ''<dl>...</dl>'') = Inr [demo_video_link] \<and>
   prefix [''[shaarchiver] Got '' @ nat_str 1 @ '' links.''] (stdout (out (main demo_host [''-d'', ''/srv/bk'', ''-f'', ''b.html''])))"
  using main_reports_link_count [of "[''-d'', ''/srv/bk'', ''-f'', ''b.html'']" "default_options\<lparr>destdir := Some ''/srv/bk'', bookmarksfilename := Some ''b.html''\<rparr>" "[]" demo_host "''/srv/bk''" "''b.html''"
      "''<dl>...</dl>''" None None "[demo_video_link]"]
  by (simp add: parse_args_def options_eval default_options_def check_mandatory_def abs_path_def path_start_def demo_host_def
      parse_bounds_def parse_bound_def demo_elements_def link_eval py_startswith_def)



end
