(* ===== verification/Spec2Isabelle.thy ===== *)
theory Spec2Isabelle
  imports Startup
begin

text \<open>
  \<^bold>\<open>A verification model of shaarchiver's bookmark fetcher\<close>
  (\<open>src/bookmarks-fetcher.py\<close>, Python 2).

  \<^emph>\<open>The program.\<close> The script reads a browser bookmark export, turns each
  \<open><dt>\<close> entry into a \<open>Link\<close> (\<open>get_link_list\<close>), and for every link in order
  applies a date filter, the eligibility gate \<open>check_dl\<close>, and, when the gate allows it,
  three fetch actions: \<open>download_page\<close> (which saves magnet links to
  \<open><hash>.magnet\<close> and only logs for other pages), \<open>download_video\<close> and
  \<open>download_audio\<close> (which run \<open>youtube-dl\<close> and append the URL to the ledger
  \<open>done.log\<close> on exit code 0). A markdown line per link follows. The ledger is read once
  at start-up; the gate refuses URLs found in it unless \<open>--no-skip\<close> is given.

  \<^emph>\<open>The library.\<close>
  \<^item> \<open>Prelude\<close>: Python exceptions (\<open>py_error\<close>), truthiness of option values,
    \<open>match_list\<close> (lines 72--79), \<open>str.split\<close>/\<open>join\<close>/\<open>startswith\<close>,
    \<open>unicode.splitlines\<close> (what \<open>codecs\<close> readers use for \<open>readlines\<close>) and
    \<open>repr\<close>; the collection \<open>model_simps\<close> gathers the equations that evaluate the
    model.
  \<^item> \<open>Config\<close>: the constants of lines 26--54 (\<open>cfg\<close>, \<open>shaarchiver_cfg\<close>)
    and the parsed options of lines 286--311 (\<open>options\<close>, \<open>default_options\<close>),
    keeping \<open>optparse\<close>'s string defaults \<open>"False"\<close>/\<open>"True"\<close> as they are.
  \<^item> \<open>Dates\<close>: \<open>date\<close> with its lexicographic \<open>linorder\<close> instance,
    \<open>strptime("%d/%m/%Y")\<close> as \<open>parse_dmy\<close> (lines 336--344), the range test
    \<open>date_in_range\<close> (lines 391--394, never reached: line 390 raises first), and
    \<open>dmy_str\<close>, a date written \<open>DD/MM/YYYY\<close> as the option help asks.
  \<^item> \<open>World\<close>: paths and how the OS resolves a name from the working directory
    (\<open>abs_path\<close>, with \<open>.\<close>, \<open>..\<close> and empty components), directory trees
    (\<open>dirs_wf\<close>) and \<open>open(name, "w+")\<close> (\<open>open_path\<close>: \<open>IOError\<close> when the
    parent directory is missing or the name is a directory); the state a run changes
    (\<open>world\<close>: standard output, run log, ledger text, files by path, external commands,
    markdown report); what a run reads (\<open>env\<close>: options, ledger, the external tool as a
    function from command to exit code or \<open>OSError\<close>, working directory and directory
    tree); and \<open>outcome\<close>: an exception escapes with the state it was raised in.
  \<^item> \<open>Link\<close>: the \<open>Link\<close> record and the parser over the \<open>dt\<close>/\<open>dd\<close>
    elements BeautifulSoup returns (lines 95--142), every failing subscript an exception.
  \<^item> \<open>Gate\<close>: \<open>check_dl\<close> (lines 148--171) as the reason-code chain \<open>dl_block\<close>
    plus the message it prints and logs.
  \<^item> \<open>Magnet\<close>: the regex \<open>xt=.*:([^&]*)\<close> of line 183 as a leftmost search with
    the greedy backtracking of \<open>.*\<close> (\<open>try_colon\<close>, \<open>magnet_search\<close>).
  \<^item> \<open>Fetch\<close>: \<open>download_page\<close> (with the spec's classifier \<open>classify_page\<close>)
    and its magnet branch \<open>save_magnet\<close> (\<open>IndexError\<close> without hash, \<open>IOError\<close>
    from \<open>open\<close>, \<open>UnicodeEncodeError\<close> from writing a non-ASCII URI),
    \<open>download_video\<close>, \<open>download_audio\<close>, the \<open>youtube-dl\<close> command lines, and
    \<open>run_tool\<close> (\<open>call\<close>: a command that cannot start raises \<open>OSError\<close> and is not
    counted as run).
  \<^item> \<open>Ledger\<close>: reading \<open>done.log\<close> (\<open>load_ledger\<close>, lines 366--368) and how a run
    may change it (\<open>ledger_grows\<close>, \<open>ledger_gains\<close>).
  \<^item> \<open>Report\<close>: \<open>gen_markdown\<close> (lines 266--279).
  \<^item> \<open>Orchestrator\<close>: one iteration of the main loop (\<open>process_link\<close>, lines 387--404)
    and the loop (\<open>run_links\<close>); an exception ends the run. The relations of
    \<open>World\<close> (\<open>calls_within\<close>, \<open>outputs_grow\<close>) and \<open>Ledger\<close> are carried
    through every action here.
  \<^item> \<open>Options\<close>: the option declarations of lines 285--311 as \<open>option_table\<close>
    and \<open>optparse\<close>'s argument loop (\<open>process_args\<close>, \<open>parse_args\<close>, line 312):
    abbreviated long options, \<open>=\<close> values, clustered short options, \<open>--\<close>,
    positional arguments, usage errors and help. \<open>render_args\<close> prints options back
    as arguments.
  \<^item> \<open>Startup\<close>: lines 314--404 over a \<open>host\<close>, which supplies:
    \<^item> the readable files and the directories, by path, and the working directory;
    \<^item> BeautifulSoup's element list as a function of the text;
    \<^item> the tool, \<open>curdate\<close>, and Python's set order.

    It covers the mandatory checks (\<open>check_mandatory\<close>), the date bounds
    (\<open>parse_bounds\<close>), the \<open>makedirs\<close> block (\<open>makedirs_all\<close>), the files opened,
    the ledger read (\<open>startup_env\<close>), the link count and report header
    (\<open>start_world\<close>) and the whole program \<open>main\<close>, whose result records the exit
    status, the final state, the directories and the files opened.
  This theory holds the properties that span a whole run and two consecutive runs.

  \<^emph>\<open>What the lemmas show.\<close> The gate refuses blacklisted and never-download links
  whatever else holds; the user tag filter compares characters (a defect); a URL recorded
  in the ledger is not fetched again; reading the ledger back returns the URLs appended,
  so a second run skips what the first fetched; a run only appends URLs of its own links
  to the ledger; a failed fetch is never recorded, a successful one is; the magnet hash
  is the text after the last colon the regex sees, which is wrong when a later parameter
  holds a colon; a magnet link without hash and any date bound end the run with an
  exception. The markdown report is written even without \<open>-m\<close> (the default
  \<open>"False"\<close> is a true string). Saving a magnet fails in two more ways the spec
  does not foresee: a hash holding \<open>/\<close> (the greedy regex takes \<open>1337/announce\<close>
  from a tracker parameter) names a file in a missing directory and \<open>open\<close> raises
  \<open>IOError\<close>; a non-ASCII URI makes the write raise \<open>UnicodeEncodeError\<close> and
  leaves an empty file. A missing \<open>youtube-dl\<close> ends the run at the first video
  link. Only links the gate lets through ever reach the ledger. The parser's links
  satisfy the data invariant \<open>link_wf\<close>. \<open>strptime\<close> reads back every calendar
  date written \<open>DD/MM/YYYY\<close>, day, month and year in their places. A refinement
  theorem (\<open>run_links_calls_plan\<close>)
  says that the commands a run executes are the concatenation of each link's planned
  commands (\<open>planned_calls\<close>: the gate's verdict, then video, then audio).

  The report header lists every tag once whatever Python's set order. A command line
  prints back and parses to the same options, and every parse yields canonical
  options. A run executes at most two commands per link.

  At the level of the whole program: a missing destination exits with status 1; a bad date bound raises before any
  directory exists; an existing destination gets none of its subdirectories (a
  defect), while a fresh one gets all of them and the directory tree stays
  well-formed; the report file is opened on every run, with or without \<open>-m\<close>.
  The first line printed is the link count. Under the conditions of
  \<open>main_completes_planned\<close> the program completes, running exactly the planned
  commands. The gate's messages tell the reasons apart. A second invocation, on the
  \<open>done.log\<close> a completed first one left, refuses every link the first fetched
  (\<open>main_rerun_skips_fetched\<close>). From the command line on, \<open>-3\<close> selects the \<open>mp3\<close>
  codec and \<open>-n\<close> disables every download exactly when given (the code compares
  them with \<open>== True\<close>/\<open>== False\<close>, unlike \<open>-m\<close>).

  \<^emph>\<open>Bounds and termination.\<close> Every loop of the script runs over a finite list
  (links, elements, characters, arguments). Most are structural recursion (\<open>fun\<close>).
  The regex's backtracking counts down the characters \<open>.*\<close> took. Path
  resolution recurses on the components. One is a \<open>function\<close> with a \<open>measure\<close>:
  \<open>optparse\<close>'s \<open>process_args\<close> (arguments left; each step consumes its argument
  and, for an option with a value, the next one).

  \<open>str(n)\<close> recurses on \<open>n div 10\<close>. No fuel is needed: every function is total.

  \<^emph>\<open>Not modelled.\<close>
  \<^item> BeautifulSoup itself: the model starts from its element list.
  \<^item> \<open>youtube-dl\<close>: a function of the environment.
  \<^item> \<open>debug_wait\<close>: never called.
  \<^item> \<open>make_unicode\<close>: the identity on the \<open>unicode\<close> strings BeautifulSoup returns.
    Its \<open>UnicodeDecodeError\<close> on a non-UTF-8 file name is not modelled.
  \<^item> Of \<open>optparse\<close>: what it writes to standard error, and the help text beyond its
    first line.
  \<^item> Of the operating system:
    \<^item> permissions and symbolic links: \<open>makedirs\<close> fails only for the empty name or
      an existing directory, \<open>open\<close> only for a missing parent, a directory or a name
      ending in \<open>/\<close>, \<open>.\<close> or \<open>..\<close>; the report, run log and ledger, which start-up
      opens inside the destination it has just made sure exists, are assumed to open;
    \<^item> \<open>..\<close> is resolved lexically: after a missing directory the kernel would fail,
      and \<open>os.makedirs\<close> would create that directory too;
    \<^item> the directories \<open>youtube-dl\<close> creates during a run: the tree a run writes
      magnet files into is the one start-up left;
    \<^item> what the files already hold beyond the ledger; reading the ledger opened with
      \<open>a+\<close> starts at the beginning of the file, as glibc does;
    \<^item> the encoding of standard output: printing a non-ASCII message is assumed to
      succeed (a terminal with a UTF-8 locale).

  Characters stand for code points below 256.
\<close>

section \<open>Idempotent re-runs\<close>

text \<open>
  C5: a link the first run fetched successfully (its video or audio command exited
  with 0, no \<open>--no-skip\<close>) is skipped by a second run that loads the ledger the
  first run left: processing it there runs no external command and does not touch the
  ledger. The ledger must have ended with a newline before the first run and the run's
  URLs must hold no line break.
\<close>

theorem rerun_skips_fetched:
  assumes run1: "run_links E ls w = Inr w1" and wf: "ledger_wf (done_log w)"
    and urls: "list_all (\<lambda>l. no_line_break (href l)) ls"
    and l: "l \<in> set ls" and allowed: "dl_block E (tags l) (href l) = None"
    and ok: "fetch_succeeds E l" and keep: "\<not> no_skip (opts E)"
    and nodates: "\<not> should_compare_dates (opts E)"
    and E2: "downloaded_urls E2 = load_ledger (done_log w1)"
    and keep2: "\<not> no_skip (opts E2)" and nodates2: "\<not> should_compare_dates (opts E2)"
  shows "\<exists>w2'. process_link E2 l w2 = Inr w2' \<and> calls w2' = calls w2 \<and> done_log w2' = done_log w2"
proof -
  have g: "ledger_gains w w1 (href l) (href ` set ls)"
    by (rule run_links_gains [OF l run1 nodates allowed ok keep])
  have "\<forall>v\<in>href ` set ls. no_line_break v"
    using urls by (auto simp: list_all_iff)
  with g wf have "href l \<in> set (load_ledger (done_log w1))"
    by (rule ledger_gains_load)
  with E2 have "href l \<in> set (downloaded_urls E2)" by simp
  from process_link_recorded_skip [OF nodates2 this keep2] obtain r
    where "process_link E2 l w2 = Inr (report_step E2 l (say (skip_msg E2 (href l) r) w2))" ..
  then show ?thesis by (simp add: report_step_frame)
qed

theorem rerun_skips_fetched_witness:
  "run_links demo_env [demo_video_link] (init_world []) =
     Inr (final (run_links demo_env [demo_video_link] (init_world []))) \<and>
   ledger_wf (done_log (init_world [])) \<and>
   list_all (\<lambda>l. no_line_break (href l)) [demo_video_link] \<and>
   demo_video_link \<in> set [demo_video_link] \<and>
   dl_block demo_env (tags demo_video_link) (href demo_video_link) = None \<and>
   fetch_succeeds demo_env demo_video_link \<and> \<not> no_skip (opts demo_env) \<and>
   \<not> should_compare_dates (opts demo_env) \<and>
   \<not> no_skip (opts (demo_env\<lparr>downloaded_urls := [''http://example.org/v'']\<rparr>)) \<and>
   \<not> should_compare_dates (opts (demo_env\<lparr>downloaded_urls := [''http://example.org/v'']\<rparr>)) \<and>
   downloaded_urls (demo_env\<lparr>downloaded_urls := [''http://example.org/v'']\<rparr>) =
     load_ledger (done_log (final (run_links demo_env [demo_video_link] (init_world [])))) \<and>
   (\<exists>w2'. process_link (demo_env\<lparr>downloaded_urls := [''http://example.org/v'']\<rparr>) demo_video_link
            (init_world []) = Inr w2' \<and> calls w2' = [] \<and> done_log w2' = [])"
  using rerun_skips_fetched [of demo_env "[demo_video_link]" "init_world []"
      "final (run_links demo_env [demo_video_link] (init_world []))" demo_video_link
      "demo_env\<lparr>downloaded_urls := [''http://example.org/v'']\<rparr>" "init_world []"]
  by (simp add: model_simps config_defs repr_defs)


text \<open>
  C7: a run, whether it ends normally or by an exception, only appends to the ledger:
  the ledger the next start-up loads is the old one followed by URLs of this run's links,
  and the file still ends with a newline.
\<close>

theorem run_ledger_extends:
  assumes wf: "ledger_wf (done_log w)" and urls: "list_all (\<lambda>l. no_line_break (href l)) ls"
  shows "\<exists>us. load_ledger (done_log (final (run_links E ls w))) = load_ledger (done_log w) @ us
           \<and> set us \<subseteq> href ` set ls \<and> ledger_wf (done_log (final (run_links E ls w)))"
proof -
  have g: "ledger_grows w (final (run_links E ls w)) (href ` set ls)"
    by (rule run_links_grows)
  then obtain us where d: "done_log (final (run_links E ls w)) = done_log w @ ledger_text us"
    and U: "set us \<subseteq> href ` set ls"
    by (auto simp: ledger_grows_def)
  from U urls have "list_all no_line_break us" by (auto simp: list_all_iff)
  with wf d have "load_ledger (done_log (final (run_links E ls w))) = load_ledger (done_log w) @ us"
    by (simp add: load_ledger_append_text)
  moreover from g wf have "ledger_wf (done_log (final (run_links E ls w)))"
    by (rule ledger_grows_wf)
  ultimately show ?thesis using U by blast
qed

theorem run_ledger_extends_witness:
  "ledger_wf (done_log (init_world (''http://old.example/'' @ [LF]))) \<and>
   list_all (\<lambda>l. no_line_break (href l)) [demo_video_link] \<and>
   (\<exists>us. load_ledger (done_log (final (run_links demo_env [demo_video_link] (init_world (''http://old.example/'' @ [LF])))))
          = load_ledger (done_log (init_world (''http://old.example/'' @ [LF]))) @ us
        \<and> set us \<subseteq> href ` set [demo_video_link]
        \<and> ledger_wf (done_log (final (run_links demo_env [demo_video_link] (init_world (''http://old.example/'' @ [LF]))))))"
  using run_ledger_extends [of "init_world (''http://old.example/'' @ [LF])" "[demo_video_link]" demo_env]
  by (simp add: model_simps)


section \<open>Error propagation\<close>

text \<open>
  C16: an exception in one link ends the whole run: when an eligible magnet link without
  hash follows links that were processed normally, the run stops there with
  \<open>IndexError\<close>, and none of the links after it is processed.
\<close>

theorem magnet_without_hash_aborts_run:
  assumes "run_links E xs w = Inr wa" and "\<not> should_compare_dates (opts E)"
    and "dl_block E (tags l) (href l) = None" and "is_magnet l" and "magnet_search (href l) = None"
  shows "run_links E (xs @ l # ys) w = Inl (IndexError,
           say ''[shaarchiver] Link appears to be a magnet, but no hash could be found. Not saving it'' wa)"
  using assms by (simp add: run_links_append process_link_allowed fetch_all_def download_page_no_hash)

theorem magnet_without_hash_aborts_run_witness:
  "run_links demo_env [] (init_world []) = Inr (init_world []) \<and>
   \<not> should_compare_dates (opts demo_env) \<and>
   dl_block demo_env (tags (demo_video_link\<lparr>href := ''magnet:?dn=nohash'', is_magnet := True\<rparr>)) (href (demo_video_link\<lparr>href := ''magnet:?dn=nohash'', is_magnet := True\<rparr>)) = None \<and>
   is_magnet (demo_video_link\<lparr>href := ''magnet:?dn=nohash'', is_magnet := True\<rparr>) \<and> magnet_search (href (demo_video_link\<lparr>href := ''magnet:?dn=nohash'', is_magnet := True\<rparr>)) = None \<and>
   run_links demo_env ([] @ (demo_video_link\<lparr>href := ''magnet:?dn=nohash'', is_magnet := True\<rparr>) # [demo_video_link]) (init_world []) = Inl (IndexError,
     say ''[shaarchiver] Link appears to be a magnet, but no hash could be found. Not saving it'' (init_world []))"
  using magnet_without_hash_aborts_run [of demo_env "[]" "init_world []" "init_world []" "demo_video_link\<lparr>href := ''magnet:?dn=nohash'', is_magnet := True\<rparr>" "[demo_video_link]"]
  by (simp add: model_simps config_defs)


section \<open>The loop refines the per-link plan\<close>



section \<open>Two invocations of the program\<close>

text \<open>
  C38: the idempotency of the spec, for two invocations of the whole program. The first
  completes without date bounds and without \<open>--no-skip\<close>, its ledger file ended with a
  newline and the URLs hold no line break. Then the second invocation, on the machine
  whose \<open>done.log\<close> is the one the first left, refuses every link the first fetched
  successfully, with the reason \<open>AlreadyDownloaded\<close>.
\<close>

theorem main_rerun_skips_fetched:
  assumes args: "parse_args argv = Inr (opt, args)" and chk: "check_mandatory h opt = Inr (d, f, raw)"
    and nomin: "minimum_date opt = None" and nomax: "maximum_date opt = None" and keep: "\<not> no_skip opt"
    and links: "get_link_list (h_soup h raw) = Inr ls" and completed: "status (main h argv) = Completed"
    and wf: "ledger_wf (stored_ledger h d)" and urls: "list_all (\<lambda>l. no_line_break (href l)) ls"
    and l: "l \<in> set ls" and allowed: "dl_block (startup_env h opt d None None) (tags l) (href l) = None"
    and ok: "fetch_succeeds (startup_env h opt d None None) l"
  shows "dl_block (startup_env (h\<lparr>h_files := (h_files h)(abs_path (h_cwd h) (ledger_path d) \<mapsto> done_log (out (main h argv)))\<rparr>)
           opt d None None) (tags l) (href l) = Some AlreadyDownloaded"
proof -
  let ?E = "startup_env h opt d None None"
  let ?w0 = "start_world h opt d f ls"
  have m: "main h argv = run_from h opt d f raw None None"
    using args chk nomin nomax by (simp add: main_parsed start_run_checked parse_bounds_None)
  with run_from_parsed [OF links, of opt d f None None] completed obtain w1
    where r: "run_links ?E ls ?w0 = Inr w1" and ow: "out (main h argv) = w1" by auto
  have nd: "\<not> should_compare_dates (opts ?E)" using nomin nomax by (simp add: startup_env_def config_defs)
  have "ledger_gains ?w0 w1 (href l) (href ` set ls)"
    using run_links_gains [OF l r nd allowed ok] keep by (simp add: startup_env_def)
  moreover have "ledger_wf (done_log ?w0)" using wf by (simp add: start_world_fields)
  moreover have "\<forall>v\<in>href ` set ls. no_line_break v" using urls by (auto simp: list_all_iff)
  ultimately have "href l \<in> set (load_ledger (done_log w1))" by (rule ledger_gains_load)
  with allowed keep ow show ?thesis
    by (simp add: startup_env_def stored_ledger_def dl_block_def split: if_splits)
qed

theorem main_rerun_skips_fetched_witness:
  "parse_args [''-d'', ''/srv/bk'', ''-f'', ''b.html''] = Inr (default_options\<lparr>destdir := Some ''/srv/bk'', bookmarksfilename := Some ''b.html''\<rparr>, []) \<and>
   check_mandatory demo_host (default_options\<lparr>destdir := Some ''/srv/bk'', bookmarksfilename := Some ''b.html''\<rparr>) = Inr (''/srv/bk'', ''b.html'', ''<dl>...</dl>'') \<and>
   minimum_date (default_options\<lparr>destdir := Some ''/srv/bk'', bookmarksfilename := Some ''b.html''\<rparr>) = None \<and> maximum_date (default_options\<lparr>destdir := Some ''/srv/bk'', bookmarksfilename := Some ''b.html''\<rparr>) = None \<and>
   \<not> no_skip (default_options\<lparr>destdir := Some ''/srv/bk'', bookmarksfilename := Some ''b.html''\<rparr>) \<and>
   get_link_list (h_soup demo_host ''<dl>...</dl>'') = Inr [demo_video_link] \<and>
   status (main demo_host [''-d'', ''/srv/bk'', ''-f'', ''b.html'']) = Completed \<and>
   ledger_wf (stored_ledger demo_host ''/srv/bk'') \<and>
   list_all (\<lambda>l. no_line_break (href l)) [demo_video_link] \<and> demo_video_link \<in> set [demo_video_link] \<and>
   dl_block (startup_env demo_host (default_options\<lparr>destdir := Some ''/srv/bk'', bookmarksfilename := Some ''b.html''\<rparr>) ''/srv/bk'' None None) (tags demo_video_link) (href demo_video_link) = None \<and>
   fetch_succeeds (startup_env demo_host (default_options\<lparr>destdir := Some ''/srv/bk'', bookmarksfilename := Some ''b.html''\<rparr>) ''/srv/bk'' None None) demo_video_link \<and>
   dl_block (startup_env (demo_host\<lparr>h_files := (h_files demo_host)(abs_path (h_cwd demo_host) (ledger_path ''/srv/bk'') \<mapsto> done_log (out (main demo_host [''-d'', ''/srv/bk'', ''-f'', ''b.html''])))\<rparr>) (default_options\<lparr>destdir := Some ''/srv/bk'', bookmarksfilename := Some ''b.html''\<rparr>) ''/srv/bk'' None None)
     (tags demo_video_link) (href demo_video_link) = Some AlreadyDownloaded"
  using main_rerun_skips_fetched [of "[''-d'', ''/srv/bk'', ''-f'', ''b.html'']" "default_options\<lparr>destdir := Some ''/srv/bk'', bookmarksfilename := Some ''b.html''\<rparr>" "[]" demo_host "''/srv/bk''" "''b.html''"
      "''<dl>...</dl>''" "[demo_video_link]" demo_video_link]
  by (simp add: parse_args_def options_eval default_options_def check_mandatory_def abs_path_def path_start_def demo_host_def
      demo_elements_def link_eval py_startswith_def startup_env_def stored_ledger_def ledger_path_def
      gate_eval config_defs ledger_eval fetch_succeeds_def video_command_def output_template_def
      main_def start_run_def parse_bounds_def parse_bound_def run_from_def model_simps Let_def)

section \<open>From the command line to the actions\<close>

text \<open>
  C39: the audio codec follows \<open>-3\<close>/\<open>--mp3\<close>: for any parsed command line, the audio
  command asks for \<open>mp3\<close> exactly when the option was given, that is, when the value
  differs from \<open>optparse\<close>'s string default. The comparison \<open>options.mp3 == True\<close>
  makes the string default \<open>"False"\<close> count as not given.
\<close>

theorem mp3_flag_selects_codec:
  assumes "parse_args argv = Inr (opt, args)"
  shows "audio_format opt = (if mp3 opt \<noteq> mp3 default_options then ''mp3'' else ''best'')"
proof -
  have "canonical_options opt"
    using assms unfolding parse_args_def
    by (rule process_args_canonical) (simp add: canonical_options_def default_options_def)
  then show ?thesis by (auto simp: canonical_options_def audio_format_def default_options_def)
qed

theorem mp3_flag_selects_codec_witness:
  "parse_args [''-3d'', ''/srv/bk''] = Inr (default_options\<lparr>mp3 := PyBool True, destdir := Some ''/srv/bk''\<rparr>, []) \<and>
   audio_format (default_options\<lparr>mp3 := PyBool True, destdir := Some ''/srv/bk''\<rparr>) =
     (if mp3 (default_options\<lparr>mp3 := PyBool True, destdir := Some ''/srv/bk''\<rparr>) \<noteq> mp3 default_options
      then ''mp3'' else ''best'')"
  using mp3_flag_selects_codec [of "[''-3d'', ''/srv/bk'']" "default_options\<lparr>mp3 := PyBool True, destdir := Some ''/srv/bk''\<rparr>" "[]"]
  by (simp add: parse_args_def options_eval default_options_def)

text \<open>
  C40: \<open>-n\<close>/\<open>--no-download\<close> turns every download off: for the options of any parsed
  command line, a link that is not blacklisted is refused with the reason
  \<open>DownloadsDisabled\<close> exactly when the option was given.
\<close>

theorem no_download_flag:
  assumes "parse_args argv = Inr (opts E, args)" and "linkurl \<notin> set (url_blacklist (conf E))"
  shows "dl_block E linktags linkurl = Some DownloadsDisabled \<longleftrightarrow> download (opts E) \<noteq> download default_options"
proof -
  have "canonical_options (opts E)"
    using assms(1) unfolding parse_args_def
    by (rule process_args_canonical) (simp add: canonical_options_def default_options_def)
  with assms(2) show ?thesis
    by (auto simp: canonical_options_def dl_block_def default_options_def)
qed

theorem no_download_flag_witness:
  "parse_args [''--no-d'', ''-d'', ''/srv/bk''] =
     Inr (opts (demo_env\<lparr>opts := default_options\<lparr>download := PyBool False, destdir := Some ''/srv/bk''\<rparr>\<rparr>), []) \<and>
   ''http://example.org/v'' \<notin> set (url_blacklist (conf demo_env)) \<and>
   (dl_block (demo_env\<lparr>opts := default_options\<lparr>download := PyBool False, destdir := Some ''/srv/bk''\<rparr>\<rparr>)
      [''video''] ''http://example.org/v'' = Some DownloadsDisabled \<longleftrightarrow>
    download (opts (demo_env\<lparr>opts := default_options\<lparr>download := PyBool False, destdir := Some ''/srv/bk''\<rparr>\<rparr>))
      \<noteq> download default_options)"
  using no_download_flag [of "[''--no-d'', ''-d'', ''/srv/bk'']"
      "demo_env\<lparr>opts := default_options\<lparr>download := PyBool False, destdir := Some ''/srv/bk''\<rparr>\<rparr>" "[]"
      "''http://example.org/v''" "[''video'']"]
  by (simp add: parse_args_def options_eval default_options_def demo_env_def shaarchiver_cfg_def)

end
